theory Spec2Isabelle
  imports Complex_Main
begin

section \<open>JavaScript strings\<close>

text \<open>
  A JavaScript string is a sequence of UTF-16 code units, and \<^verbatim>\<open>includes\<close>,
  \<^verbatim>\<open>startsWith\<close>, \<^verbatim>\<open>substring\<close>, \<^verbatim>\<open>trim\<close> and \<^verbatim>\<open>length\<close> all work on code units.
  A string is therefore a list of code units, each a natural number; \<open>str\<close> turns an
  ASCII literal into its code units.
\<close>

type_synonym jsstring = "nat list"

definition str :: "string \<Rightarrow> jsstring" where
  "str s = map of_char s"

fun startsWith :: "jsstring \<Rightarrow> jsstring \<Rightarrow> bool" where
  "startsWith s [] = True"
| "startsWith [] (c # cs) = False"
| "startsWith (x # xs) (c # cs) = (x = c \<and> startsWith xs cs)"

fun js_includes :: "jsstring \<Rightarrow> jsstring \<Rightarrow> bool" where
  "js_includes [] needle = (needle = [])"
| "js_includes (x # xs) needle = (startsWith (x # xs) needle \<or> js_includes xs needle)"

text \<open>
  \<^verbatim>\<open>toLowerCase\<close>: the letters A to Z go to a to z. Two code units outside ASCII have a
  lower case that contains an ASCII letter: the Kelvin sign U+212A goes to \<open>k\<close> and
  U+0130 to \<open>i\<close> followed by U+0307. No other case mapping yields an ASCII code unit, so
  every other code unit is left as it is: the callers only search the result for ASCII
  needles.
\<close>

definition lower_unit :: "nat \<Rightarrow> jsstring" where
  "lower_unit c =
     (if 65 \<le> c \<and> c \<le> 90 then [c + 32]
      else if c = 8490 then [107]
      else if c = 304 then [105, 775]
      else [c])"

definition toLowerCase :: "jsstring \<Rightarrow> jsstring" where
  "toLowerCase s = concat (map lower_unit s)"

text \<open>\<^verbatim>\<open>substring(0, n)\<close> keeps the first \<open>n\<close> code units.\<close>

definition substring0 :: "jsstring \<Rightarrow> nat \<Rightarrow> jsstring" where
  "substring0 s n = take n s"

text \<open>
  \<^verbatim>\<open>trim\<close> removes the white space and line terminators of ECMAScript from both ends.
\<close>

definition is_white_space :: "nat \<Rightarrow> bool" where
  "is_white_space c =
     (c \<in> {9, 10, 11, 12, 13, 32, 160, 5760, 8232, 8233, 8239, 8287, 12288, 65279}
      \<or> (8192 \<le> c \<and> c \<le> 8202))"

definition trim :: "jsstring \<Rightarrow> jsstring" where
  "trim s = rev (dropWhile is_white_space (rev (dropWhile is_white_space s)))"

section \<open>Data model (types.ts)\<close>

record TextProperties =
  font_size :: jsstring
  text_color :: jsstring
  background_color :: jsstring
  opacity :: jsstring
  emphasis :: jsstring

record TextReplacement =
  box_id :: jsstring
  cell_id :: jsstring
  original :: jsstring
  replacement :: jsstring
  bounding_box :: "real \<times> real \<times> real \<times> real"
  properties :: TextProperties

text \<open>
  The fields \<^verbatim>\<open>index\<close> and \<^verbatim>\<open>text\<close> of a CopywritingOption are \<open>opt_index\<close> and
  \<open>opt_text\<close> here, and the \<^verbatim>\<open>id\<close> of a WorkItem is \<open>item_id\<close>.
\<close>

record CopywritingOption =
  opt_index :: int
  tone :: jsstring
  opt_text :: jsstring
  replacements :: "TextReplacement list"

datatype item_status = Idle | Analyzing | Selecting | Processing | Complete | Error

record WorkItem =
  item_id :: jsstring
  originalImage :: jsstring
  generatedImage :: "jsstring option"
  status :: item_status
  error :: "jsstring option"
  copywritingOptions :: "CopywritingOption list"
  selectedOption :: "CopywritingOption option"

datatype thumbnail_status =
  ThumbIdle | ThumbAnalyzing | ThumbGenerating | ThumbComplete | ThumbError

record ThumbnailData =
  thumb_originalImage :: "jsstring option"
  thumb_generatedImage :: "jsstring option"
  thumb_status :: thumbnail_status
  analysisReport :: "jsstring option"
  seoTip :: "jsstring option"
  generationPrompt :: "jsstring option"

section \<open>The application store (useAppStore)\<close>

record StoreState =
  isAuthenticated :: bool
  userName :: "jsstring option"
  apiKey :: "jsstring option"
  sessionToken :: "jsstring option"
  thumbnail :: ThumbnailData
  isThumbnailSkipped :: bool
  referenceImage :: "jsstring option"
  isReferenceSkipped :: bool
  items :: "WorkItem list"
  marketName :: jsstring
  globalError :: "jsstring option"
  usedCaptions :: "jsstring list"

text \<open>
  A \<^verbatim>\<open>Partial<WorkItem>\<close> as the callers build it: each of the three fields they ever
  pass is present or absent.
\<close>

record ItemUpdates =
  upd_status :: "item_status option"
  upd_error :: "jsstring option option"
  upd_generatedImage :: "jsstring option option"

definition no_updates :: ItemUpdates where
  "no_updates = \<lparr>upd_status = None, upd_error = None, upd_generatedImage = None\<rparr>"

definition merge_updates :: "WorkItem \<Rightarrow> ItemUpdates \<Rightarrow> WorkItem" where
  "merge_updates item updates =
     item\<lparr>status := (case upd_status updates of None \<Rightarrow> status item | Some s \<Rightarrow> s),
          error := (case upd_error updates of None \<Rightarrow> error item | Some e \<Rightarrow> e),
          generatedImage :=
            (case upd_generatedImage updates of None \<Rightarrow> generatedImage item | Some g \<Rightarrow> g)\<rparr>"

definition updateItem :: "jsstring \<Rightarrow> ItemUpdates \<Rightarrow> StoreState \<Rightarrow> StoreState" where
  "updateItem iid updates state =
     state\<lparr>items := map (\<lambda>item. if item_id item = iid then merge_updates item updates else item)
                         (items state)\<rparr>"

definition updateMultipleItems :: "jsstring list \<Rightarrow> ItemUpdates \<Rightarrow> StoreState \<Rightarrow> StoreState" where
  "updateMultipleItems ids updates state =
     state\<lparr>items := map (\<lambda>item. if item_id item \<in> set ids then merge_updates item updates
                                else item)
                         (items state)\<rparr>"

definition setItemOptions :: "jsstring \<Rightarrow> CopywritingOption list \<Rightarrow> StoreState \<Rightarrow> StoreState" where
  "setItemOptions iid options state =
     state\<lparr>items := map (\<lambda>item. if item_id item = iid then item\<lparr>copywritingOptions := options\<rparr>
                                else item)
                         (items state)\<rparr>"

definition addUsedCaptions :: "jsstring list \<Rightarrow> StoreState \<Rightarrow> StoreState" where
  "addUsedCaptions newCaptions state = state\<lparr>usedCaptions := usedCaptions state @ newCaptions\<rparr>"

definition setGlobalError :: "jsstring option \<Rightarrow> StoreState \<Rightarrow> StoreState" where
  "setGlobalError msg state = state\<lparr>globalError := msg\<rparr>"

definition empty_thumbnail :: ThumbnailData where
  "empty_thumbnail =
     \<lparr>thumb_originalImage = None, thumb_generatedImage = None, thumb_status = ThumbIdle,
      analysisReport = None, seoTip = None, generationPrompt = None\<rparr>"

text \<open>The state that \<^verbatim>\<open>logout\<close> writes; its other effects are in the next section.\<close>

definition logout_state :: "StoreState \<Rightarrow> StoreState" where
  "logout_state state =
     state\<lparr>isAuthenticated := False, userName := None, apiKey := None, sessionToken := None,
           items := [], referenceImage := None, thumbnail := empty_thumbnail,
           isThumbnailSkipped := False, isReferenceSkipped := False, usedCaptions := []\<rparr>"

text \<open>
  \<^verbatim>\<open>updateItemOptionText\<close>. \<^verbatim>\<open>newOptions[index]\<close> is undefined when the index is out of
  range; then nothing is replaced, and \<^verbatim>\<open>newOptions[index]?.index\<close> is undefined, which
  no \<^verbatim>\<open>selectedOption.index\<close> is strictly equal to.
\<close>

definition edit_option_text :: "nat \<Rightarrow> jsstring \<Rightarrow> WorkItem \<Rightarrow> WorkItem" where
  "edit_option_text index newText item =
     (let newOptions =
            (if index < length (copywritingOptions item)
             then (copywritingOptions item)[index := (copywritingOptions item ! index)\<lparr>opt_text := newText\<rparr>]
             else copywritingOptions item);
          newSelected =
            (case selectedOption item of
               None \<Rightarrow> None
             | Some sel \<Rightarrow>
                 if index < length newOptions \<and> opt_index sel = opt_index (newOptions ! index)
                 then Some (newOptions ! index)
                 else Some sel)
      in item\<lparr>copywritingOptions := newOptions, selectedOption := newSelected\<rparr>)"

definition updateItemOptionText :: "jsstring \<Rightarrow> nat \<Rightarrow> jsstring \<Rightarrow> StoreState \<Rightarrow> StoreState" where
  "updateItemOptionText iid index newText state =
     state\<lparr>items := map (\<lambda>item. if item_id item \<noteq> iid then item
                                else edit_option_text index newText item)
                         (items state)\<rparr>"

section \<open>The Gemini service (services/geminiService)\<close>

subsection \<open>Errors, effects and the remote side\<close>

text \<open>
  Everything the service throws or catches is an \<^verbatim>\<open>Error\<close> object, which the code reads
  through its \<^verbatim>\<open>message\<close> only. For such an object \<^verbatim>\<open>JSON.stringify\<close> gives \<^verbatim>\<open>{}\<close>
  and \<^verbatim>\<open>toString\<close> gives \<^verbatim>\<open>Error\<close> when the message is empty.
\<close>

datatype js_error = JsError (message: jsstring)

text \<open>
  A status message is kept as the template it was built from: the start message with the
  model label, the countdown message with the delay in seconds, the attempt and the
  number of delays, and the message that announces the image optimisation.
\<close>

datatype status_msg = Starting jsstring | Waiting nat nat nat | Optimizing

datatype event =
    StatusUpdate status_msg
  | Sleep nat
  | GeminiRequest jsstring
  | SessionCheckRequest
  | UsageLogRequest
  | ServerLogoutRequest
  | AlertAuthFailed
  | AlertSessionMismatch
  | LoggedOut

text \<open>
  The world of a run: the store, whether the Workspace shows a batch as running, the
  effects so far in their order, and how many answers of Gemini and of the session
  backend have been consumed.
\<close>

record World =
  store :: StoreState
  isBatchProcessing :: bool
  events :: "event list"
  requests :: nat
  fetches :: nat

definition emit :: "event \<Rightarrow> World \<Rightarrow> World" where
  "emit ev w = w\<lparr>events := events w @ [ev]\<rparr>"

text \<open>\<^verbatim>\<open>await new Promise(resolve => setTimeout(resolve, ms))\<close>\<close>

definition sleep :: "nat \<Rightarrow> World \<Rightarrow> World" where
  "sleep ms w = emit (Sleep ms) w"

record InlineData =
  inline_mimeType :: "jsstring option"
  inline_data :: "jsstring option"

datatype part = Part (inlineData: "InlineData option")

type_synonym GenResponse = "part list list option"

record GenRequest =
  req_model :: jsstring
  req_mimeType :: jsstring
  req_data :: jsstring
  req_prompt :: jsstring
  req_aspectRatio :: jsstring
  req_imageSize :: "jsstring option"

record ImageConfig =
  aspectRatio :: "jsstring option"
  imageSize :: "jsstring option"

datatype session_reply = Mismatch | OtherReply

text \<open>
  The remote side answers the \<open>n\<close>-th request. \<open>generateContent\<close> is the image model;
  the candidates of a response are given by their \<^verbatim>\<open>content.parts\<close>. \<open>analyzeContent\<close>
  stands for one analysis request together with the decoding of its JSON answer into the
  eight options, which raises when the answer does not parse. \<open>sessionReply\<close> is the
  answer of the session backend, \<open>OtherReply\<close> being any answer, failure or timeout that
  is not a mismatch.
\<close>

record Remote =
  generateContent :: "nat \<Rightarrow> GenRequest \<Rightarrow> js_error + GenResponse"
  analyzeContent ::
    "nat \<Rightarrow> jsstring \<Rightarrow> jsstring option \<Rightarrow> jsstring list \<Rightarrow> js_error + CopywritingOption list"
  sessionReply :: "nat \<Rightarrow> session_reply"

subsection \<open>Message texts\<close>

definition msg_no_api_key :: jsstring where
  "msg_no_api_key =
     str ''[AUTH_ERROR] API Key'' @ [44032] @ str '' '' @ [51077, 47141, 46104, 51648] @
     str '' '' @ [50506, 50520, 49845, 45768, 45796] @ str ''. '' @
     [47196, 44536, 51064] @ str '' '' @ [49345, 53468, 47484] @ str '' '' @
     [54869, 51064, 54644, 51452, 49464, 50836] @ str ''.''"

definition msg_bad_key_format :: jsstring where
  "msg_bad_key_format =
     str ''[AUTH_ERROR] '' @ [50976, 54952, 54616, 51648] @ str '' '' @ [50506, 51008] @
     str '' API Key '' @ [54805, 49885, 51077, 45768, 45796] @ str ''.''"

definition msg_key_expired :: jsstring where
  "msg_key_expired =
     [55357, 57000] @ str '' ['' @ [53412] @ str '' '' @ [47564, 47308] @
     str ''] API Key'' @ [44032] @ str '' '' @
     [47564, 47308, 46104, 50632, 49845, 45768, 45796] @ str ''. '' @ [49352] @
     str '' '' @ [53412, 47484] @ str '' '' @ [48156, 44553, 48155, 50500] @ str '' '' @
     [51077, 47141, 54644, 51452, 49464, 50836] @ str ''.''"

definition msg_permission_denied :: jsstring where
  "msg_permission_denied =
     [55357, 57000] @ str '' ['' @ [44428, 54620] @ str '' '' @ [44144, 48512] @
     str ''] API Key '' @ [44428, 54620, 51060] @ str '' '' @ [50630, 44144, 45208] @
     str '' '' @ [44208, 51228] @ str '' '' @ [44228, 51221, 51060] @ str '' '' @
     [50672, 44208, 46104, 51648] @ str '' '' @ [50506, 50520, 49845, 45768, 45796] @
     str ''. (Google Cloud Console '' @ [54869, 51064] @ str '' '' @ [54596, 50836] @
     str '')''"

definition msg_quota_exceeded :: jsstring where
  "msg_quota_exceeded =
     [9888, 65039] @ str '' ['' @ [54624, 45817, 47049] @ str '' '' @ [52488, 44284] @
     str ''] '' @ [45800, 49884, 44036, 50640] @ str '' '' @ [45320, 47924] @
     str '' '' @ [47566, 51008] @ str '' '' @ [50836, 52397, 51012] @ str '' '' @
     [48372, 45256, 49845, 45768, 45796] @ str ''. 1'' @ [48516] @ str '' '' @ [46244] @
     str '' '' @ [45796, 49884] @ str '' '' @
     [49884, 46020, 54644, 51452, 49464, 50836] @ str ''.''"

definition msg_server_overloaded :: jsstring where
  "msg_server_overloaded =
     [9888, 65039] @ str '' '' @ [44396, 44544] @ str '' '' @ [49436, 48260] @
     str '' '' @ [44284, 48512, 54616] @ str '' '' @
     [49345, 53468, 51077, 45768, 45796] @ str ''. '' @ [51104, 49884] @ str '' '' @
     [54980] @ str '' '' @ [45796, 49884] @ str '' '' @
     [49884, 46020, 54644, 51452, 49464, 50836] @ str ''.''"

definition msg_model_unsupported :: jsstring where
  "msg_model_unsupported =
     [9888, 65039] @ str '' ['' @ [47784, 45944] @ str '' '' @ [48120, 51648, 50896] @
     str ''] '' @ [54788, 51116] @ str '' API Key'' @ [47196, 45716] @ str '' '' @
     [54644, 45817] @ str '' AI '' @ [47784, 45944] @ str ''(Gemini 3)'' @ [51012] @
     str '' '' @ [49324, 50857, 54624] @ str '' '' @ [49688] @ str '' '' @
     [50630, 49845, 45768, 45796] @ str ''.''"

definition msg_safety_blocked :: jsstring where
  "msg_safety_blocked =
     [9888, 65039] @ str '' ['' @ [50504, 51204] @ str '' '' @ [52264, 45800] @
     str ''] '' @ [49373, 49457, 46108] @ str '' '' @ [51060, 48120, 51648, 44032] @
     str '' '' @ [50504, 51204] @ str '' '' @ [51221, 52293] @ str ''('' @
     [49457, 51064] @ str ''/'' @ [54253, 47141] @ str '' '' @ [46321] @ str '')'' @
     [50640] @ str '' '' @ [51032, 54644] @ str '' '' @
     [52264, 45800, 46104, 50632, 49845, 45768, 45796] @ str ''.''"

definition msg_error_prefix :: jsstring where
  "msg_error_prefix =
     [50724, 47448] @ str '' '' @ [48156, 49373] @ str '': ''"

definition msg_all_models_failed :: jsstring where
  "msg_all_models_failed =
     [47784, 46304] @ str '' '' @ [51060, 48120, 51648] @ str '' '' @ [49373, 49457] @
     str '' '' @ [47784, 45944] @ str '' '' @ [49884, 46020] @ str '' '' @
     [49892, 54056] @ str '' ('' @ [44396, 44544] @ str '' '' @ [49436, 48260] @
     str '' '' @ [54844, 51105] @ str '')''"

definition needle_key_expired :: jsstring where
  "needle_key_expired =
     [53412] @ str '' '' @ [47564, 47308]"

definition needle_permission :: jsstring where
  "needle_permission =
     [44428, 54620]"

subsection \<open>getClient and handleGeminiError\<close>

definition getClient :: "StoreState \<Rightarrow> js_error + jsstring" where
  "getClient state =
     (case apiKey state of
        None \<Rightarrow> Inl (JsError msg_no_api_key)
      | Some userKeyFromStore \<Rightarrow>
          if userKeyFromStore = [] \<or> trim userKeyFromStore = [] then Inl (JsError msg_no_api_key)
          else if \<not> startsWith userKeyFromStore (str ''AIza'') then Inl (JsError msg_bad_key_format)
          else Inr userKeyFromStore)"

text \<open>\<open>handleGeminiError\<close> always throws; its value here is what it throws.\<close>

definition handleGeminiError :: "js_error \<Rightarrow> js_error" where
  "handleGeminiError err =
     (let msg = (if message err = [] then str ''{}'' else message err) in
      if js_includes msg (str ''expired'') then JsError msg_key_expired
      else if js_includes msg (str ''403'') \<or> js_includes msg (str ''API key'')
              \<or> js_includes msg (str ''API_KEY_INVALID'') \<or> js_includes msg (str ''PERMISSION_DENIED'')
        then JsError msg_permission_denied
      else if js_includes msg (str ''429'') \<or> js_includes msg (str ''RESOURCE_EXHAUSTED'')
              \<or> js_includes msg (str ''quota'')
        then JsError msg_quota_exceeded
      else if js_includes msg (str ''503'') \<or> js_includes msg (str ''Overloaded'')
              \<or> js_includes msg (str ''Internal'')
        then JsError msg_server_overloaded
      else if js_includes msg (str ''404'') \<or> js_includes msg (str ''not found'')
        then JsError msg_model_unsupported
      else if js_includes msg (str ''SAFETY'') \<or> js_includes msg (str ''blocked'')
        then JsError msg_safety_blocked
      else JsError (msg_error_prefix @ substring0 msg 100 @ str ''...''))"

subsection \<open>withRetry\<close>

definition non_retryable :: "jsstring \<Rightarrow> bool" where
  "non_retryable msg =
     (js_includes msg (str ''AUTH_ERROR'') \<or> js_includes msg needle_key_expired
      \<or> js_includes msg needle_permission \<or> js_includes msg (str ''SAFETY''))"

text \<open>
  The loop of \<open>withRetry\<close> from iteration \<open>i\<close> on. \<open>lastError\<close> is \<open>None\<close> while it is
  undefined, and the result \<open>Inl None\<close> is \<^verbatim>\<open>throw undefined\<close>.
\<close>

function withRetry_from ::
  "(World \<Rightarrow> (js_error + 'a) \<times> World) \<Rightarrow> nat \<Rightarrow> nat \<Rightarrow> nat \<Rightarrow> js_error option \<Rightarrow> World
     \<Rightarrow> (js_error option + 'a) \<times> World" where
  "withRetry_from operation retries delayMs i lastError w =
     (if i < retries then
        (case operation w of
           (Inr v, w') \<Rightarrow> (Inr v, w')
         | (Inl err, w') \<Rightarrow>
             if non_retryable (message err) then (Inl (Some err), w')
             else withRetry_from operation retries delayMs (i + 1) (Some err)
                    (sleep (delayMs * (i + 1)) w'))
      else (Inl lastError, w))"
  by pat_completeness auto
termination
  by (relation "measure (\<lambda>(operation, retries, delayMs, i, lastError, w). retries - i)") auto

definition withRetry ::
  "(World \<Rightarrow> (js_error + 'a) \<times> World) \<Rightarrow> nat \<Rightarrow> nat \<Rightarrow> World \<Rightarrow> (js_error option + 'a) \<times> World" where
  "withRetry operation retries delayMs w = withRetry_from operation retries delayMs 0 None w"

text \<open>
  A scripted operation, as a test double: its \<open>n\<close>-th invocation is recorded as a request
  and has the outcome \<open>script n\<close>.
\<close>

definition scripted :: "(nat \<Rightarrow> js_error + 'a) \<Rightarrow> World \<Rightarrow> (js_error + 'a) \<times> World" where
  "scripted script w =
     (script (requests w), emit (GeminiRequest (str ''mock'')) (w\<lparr>requests := Suc (requests w)\<rparr>))"

subsection \<open>generateImage\<close>

definition modelsToTry :: "jsstring list" where
  "modelsToTry = [str ''gemini-3-pro-image-preview'', str ''gemini-2.5-flash-image'']"

definition retryDelays :: "nat list" where
  "retryDelays = [5000, 10000, 20000, 40000, 60000]"

text \<open>\<^verbatim>\<open>x || d\<close> on an optional string: the default replaces undefined and the empty string.\<close>

definition or_default :: "jsstring option \<Rightarrow> jsstring \<Rightarrow> jsstring" where
  "or_default x d = (case x of None \<Rightarrow> d | Some s \<Rightarrow> if s = [] then d else s)"

definition gen_request ::
  "jsstring \<Rightarrow> jsstring \<Rightarrow> jsstring \<Rightarrow> jsstring \<Rightarrow> ImageConfig \<Rightarrow> GenRequest" where
  "gen_request modelName mimeType cleanData prompt imageConfig =
     \<lparr>req_model = modelName, req_mimeType = mimeType, req_data = cleanData, req_prompt = prompt,
      req_aspectRatio = or_default (aspectRatio imageConfig) (str ''1:1''),
      req_imageSize =
        (if js_includes modelName (str ''pro'')
         then Some (or_default (imageSize imageConfig) (str ''1K'')) else None)\<rparr>"

fun first_inline_image :: "part list \<Rightarrow> jsstring option" where
  "first_inline_image [] = None"
| "first_inline_image (p # ps) =
     (case inlineData p of
        None \<Rightarrow> first_inline_image ps
      | Some d \<Rightarrow>
          (case inline_data d of
             None \<Rightarrow> first_inline_image ps
           | Some bytes \<Rightarrow>
               if bytes = [] then first_inline_image ps
               else Some (str ''data:'' @ or_default (inline_mimeType d) (str ''image/png'')
                          @ str '';base64,'' @ bytes)))"

definition image_of_response :: "GenResponse \<Rightarrow> js_error + jsstring" where
  "image_of_response response =
     (case response of
        None \<Rightarrow> Inl (JsError (str ''Empty image response''))
      | Some [] \<Rightarrow> Inl (JsError (str ''Empty image response''))
      | Some (parts # _) \<Rightarrow>
          (case first_inline_image parts of
             Some url \<Rightarrow> Inr url
           | None \<Rightarrow> Inl (JsError (str ''Empty image response''))))"

definition is_critical :: "jsstring \<Rightarrow> bool" where
  "is_critical msg =
     (js_includes msg (str ''auth'') \<or> js_includes msg (str ''key'')
      \<or> js_includes msg (str ''permission'') \<or> js_includes msg (str ''safety'')
      \<or> js_includes msg (str ''blocked''))"

definition is_transient :: "jsstring \<Rightarrow> bool" where
  "is_transient msg =
     (js_includes msg (str ''503'') \<or> js_includes msg (str ''overloaded'')
      \<or> js_includes msg (str ''quota'') \<or> js_includes msg (str ''internal'')
      \<or> js_includes msg (str ''429''))"

definition is_not_found :: "jsstring \<Rightarrow> bool" where
  "is_not_found msg = (js_includes msg (str ''404'') \<or> js_includes msg (str ''not found''))"

text \<open>
  How the retry loop of one model ends: with the image, with a throw out of
  \<open>generateImage\<close>, or by going on to the next model with the last error so far.
\<close>

datatype attempt_result = Returned jsstring | Thrown js_error | NextModel "js_error option"

type_synonym status_callback = "status_msg \<Rightarrow> World \<Rightarrow> World"

definition announce :: "status_callback option \<Rightarrow> jsstring \<Rightarrow> nat \<Rightarrow> World \<Rightarrow> World" where
  "announce onStatusUpdate modelName attempt w =
     (case onStatusUpdate of
        None \<Rightarrow> w
      | Some callback \<Rightarrow>
          if attempt = 0
          then callback (Starting (if js_includes modelName (str ''pro'')
                                   then str ''Pro'' else str ''Fast'')) w
          else callback (Waiting (retryDelays ! (attempt - 1) div 1000) attempt
                                 (length retryDelays)) w)"

definition send :: "Remote \<Rightarrow> GenRequest \<Rightarrow> World \<Rightarrow> (js_error + jsstring) \<times> World" where
  "send remote req w =
     ((case generateContent remote (requests w) req of
         Inl err \<Rightarrow> Inl err
       | Inr response \<Rightarrow> image_of_response response),
      emit (GeminiRequest (req_model req)) (w\<lparr>requests := Suc (requests w)\<rparr>))"

text \<open>What one attempt does before its request: the status message, then the wait of a retry.\<close>

definition before_call :: "status_callback option \<Rightarrow> jsstring \<Rightarrow> nat \<Rightarrow> World \<Rightarrow> World" where
  "before_call onStatusUpdate modelName attempt w =
     (let w1 = announce onStatusUpdate modelName attempt w
      in if attempt > 0 then sleep (retryDelays ! (attempt - 1)) w1 else w1)"

function attempts_from ::
  "Remote \<Rightarrow> jsstring \<Rightarrow> jsstring \<Rightarrow> jsstring \<Rightarrow> ImageConfig \<Rightarrow> status_callback option
     \<Rightarrow> jsstring \<Rightarrow> nat \<Rightarrow> js_error option \<Rightarrow> World \<Rightarrow> attempt_result \<times> World" where
  "attempts_from remote mimeType cleanData prompt imageConfig onStatusUpdate modelName attempt
       lastError w =
     (if attempt \<le> length retryDelays then
        (case send remote (gen_request modelName mimeType cleanData prompt imageConfig)
                (before_call onStatusUpdate modelName attempt w) of
              (Inr url, w3) \<Rightarrow> (Returned url, w3)
            | (Inl err, w3) \<Rightarrow>
                (let msg = toLowerCase (message err) in
                 if is_critical msg then (Thrown err, w3)
                 else if is_transient msg
                   then attempts_from remote mimeType cleanData prompt imageConfig onStatusUpdate
                          modelName (attempt + 1) (Some err) w3
                 else if is_not_found msg then (NextModel (Some err), w3)
                 else (NextModel (Some err), w3)))
      else (NextModel lastError, w))"
  by pat_completeness auto
termination
  by (relation "measure (\<lambda>(remote, mimeType, cleanData, prompt, imageConfig, onStatusUpdate,
                            modelName, attempt, lastError, w). Suc (length retryDelays) - attempt)")
     auto

fun models_from ::
  "Remote \<Rightarrow> jsstring \<Rightarrow> jsstring \<Rightarrow> jsstring \<Rightarrow> ImageConfig \<Rightarrow> status_callback option
     \<Rightarrow> jsstring list \<Rightarrow> js_error option \<Rightarrow> World \<Rightarrow> (js_error + jsstring) \<times> World" where
  "models_from remote mimeType cleanData prompt imageConfig onStatusUpdate [] lastError w =
     (Inl (case lastError of Some err \<Rightarrow> err | None \<Rightarrow> JsError msg_all_models_failed), w)"
| "models_from remote mimeType cleanData prompt imageConfig onStatusUpdate (modelName # rest)
       lastError w =
     (case attempts_from remote mimeType cleanData prompt imageConfig onStatusUpdate modelName 0
             lastError w of
        (Returned url, w') \<Rightarrow> (Inr url, w')
      | (Thrown err, w') \<Rightarrow> (Inl err, w')
      | (NextModel lastError', w') \<Rightarrow>
          models_from remote mimeType cleanData prompt imageConfig onStatusUpdate rest
            lastError' w')"

definition generateImage ::
  "Remote \<Rightarrow> jsstring \<Rightarrow> jsstring \<Rightarrow> jsstring \<Rightarrow> ImageConfig \<Rightarrow> status_callback option
     \<Rightarrow> World \<Rightarrow> (js_error + jsstring) \<times> World" where
  "generateImage remote mimeType cleanData prompt imageConfig onStatusUpdate w =
     (case getClient (store w) of
        Inl err \<Rightarrow> (Inl err, w)
      | Inr ai \<Rightarrow>
          models_from remote mimeType cleanData prompt imageConfig onStatusUpdate modelsToTry
            None w)"

text \<open>A callback that records each message it is given, and the messages recorded.\<close>

definition record_status :: status_callback where
  "record_status msg w = emit (StatusUpdate msg) w"

fun status_updates :: "event list \<Rightarrow> status_msg list" where
  "status_updates [] = []"
| "status_updates (StatusUpdate msg # evs) = msg # status_updates evs"
| "status_updates (ev # evs) = status_updates evs"

fun gemini_requests :: "event list \<Rightarrow> jsstring list" where
  "gemini_requests [] = []"
| "gemini_requests (GeminiRequest modelName # evs) = modelName # gemini_requests evs"
| "gemini_requests (ev # evs) = gemini_requests evs"

text \<open>The effects of one attempt of \<open>generateImage\<close> when the recording callback is given.\<close>

definition attempt_events :: "jsstring \<Rightarrow> nat \<Rightarrow> event list" where
  "attempt_events modelName attempt =
     (if attempt = 0
      then [StatusUpdate (Starting (if js_includes modelName (str ''pro'')
                                    then str ''Pro'' else str ''Fast'')),
            GeminiRequest modelName]
      else [StatusUpdate (Waiting (retryDelays ! (attempt - 1) div 1000) attempt
                                  (length retryDelays)),
            Sleep (retryDelays ! (attempt - 1)),
            GeminiRequest modelName])"

section \<open>Images and the canvas\<close>

text \<open>
  A decoded image is known by the source it was loaded from and by its size. A canvas is
  the width and the height that were assigned to it and the drawing commands issued on
  its 2D context, in their order: the pixels are a function of these.
\<close>

record Image =
  img_src :: jsstring
  img_width :: nat
  img_height :: nat

datatype draw_op =
    SetImageSmoothing bool jsstring
  | SetFillStyle jsstring
  | FillRect real real real real
  | DrawImage Image real real real real
  | SetFont real
  | SetShadow jsstring real real real
  | SetTextAlign jsstring jsstring
  | Save
  | Rotate real
  | Restore
  | FillText jsstring real real

record Canvas =
  canvas_width :: int
  canvas_height :: int
  drawn :: "draw_op list"

text \<open>
  The browser. \<open>fl\<close> rounds the exact result of an arithmetic operation to the double
  that JavaScript computes; it is applied wherever the result need not be exact.
  \<open>loadImage\<close> is \<^verbatim>\<open>onload\<close> with the decoded image, or \<^verbatim>\<open>onerror\<close> (\<open>None\<close>).
  \<open>getContext2d\<close> tells whether a canvas of the given size yields a 2D context.
  \<open>toDataURL\<close> and \<open>toBlob\<close> are the encoders, with the type and the quality asked
  for; \<open>toBlob\<close> can deliver null. Neither throws: every image the application draws
  was loaded from a \<^verbatim>\<open>data:\<close> URL, which leaves the canvas origin-clean.
  \<open>load_timeout\<close> tells whether the timer of 15 seconds fires before all the given
  sources have been loaded or have failed.
\<close>

record Browser =
  fl :: "real \<Rightarrow> real"
  loadImage :: "jsstring \<Rightarrow> Image option"
  getContext2d :: "int \<Rightarrow> int \<Rightarrow> bool"
  toDataURL :: "Canvas \<Rightarrow> jsstring \<Rightarrow> real \<Rightarrow> jsstring"
  toBlob :: "Canvas \<Rightarrow> jsstring \<Rightarrow> real \<Rightarrow> jsstring option"
  load_timeout :: "jsstring list \<Rightarrow> bool"

text \<open>\<^verbatim>\<open>Math.round\<close> rounds to the nearest integer, a half upwards.\<close>

definition js_round :: "real \<Rightarrow> int" where
  "js_round x = \<lfloor>x + 1 / 2\<rfloor>"

text \<open>
  Double arithmetic. \<open>min_normal\<close> is the smallest normal double and \<open>max_double\<close> the
  largest double. A rounding is correct when zero is exact and, for an exact result between
  these two in absolute value, the double differs from it by a relative error of at most
  \<open>2\<^sup>-\<^sup>5\<^sup>3\<close>. Nothing is asked of it where doubles underflow or overflow.
\<close>

definition unit_roundoff :: real where
  "unit_roundoff = 1 / 2 ^ 53"

definition min_normal :: real where
  "min_normal = 1 / 2 ^ 1022"

definition max_double :: real where
  "max_double = 2 ^ 1024 - 2 ^ 971"

definition rounds_correctly :: "(real \<Rightarrow> real) \<Rightarrow> bool" where
  "rounds_correctly f =
     (f 0 = 0 \<and> (\<forall>x. min_normal \<le> \<bar>x\<bar> \<and> \<bar>x\<bar> \<le> max_double
                         \<longrightarrow> \<bar>f x - x\<bar> \<le> \<bar>x\<bar> * unit_roundoff))"

text \<open>
  The rounding of the binary64 format itself: to the nearest multiple of the unit in the
  last place of a significand of 53 bits, a tie to the even multiple. \<open>binade\<close> is the
  exponent of the double: the greatest \<open>e\<close> from \<open>1023\<close> down to \<open>-1022\<close> with
  \<open>2\<^sup>e \<le> \<bar>x\<bar>\<close>, and \<open>-1022\<close> for the subnormal numbers and zero. (An exact result
  beyond \<open>max_double\<close> becomes \<^verbatim>\<open>Infinity\<close> in JavaScript; no such number occurs below.)
\<close>

definition round_to_even :: "real \<Rightarrow> int" where
  "round_to_even y =
     (let n = \<lfloor>y\<rfloor>
      in if y - of_int n < 1 / 2 then n
         else if 1 / 2 < y - of_int n then n + 1
         else if even n then n else n + 1)"

definition pow2 :: "int \<Rightarrow> real" where
  "pow2 e = (if 0 \<le> e then 2 ^ nat e else 1 / 2 ^ nat (- e))"

fun binade_from :: "nat \<Rightarrow> int \<Rightarrow> real \<Rightarrow> int" where
  "binade_from 0 e x = e"
| "binade_from (Suc n) e x = (if pow2 e \<le> x then e else binade_from n (e - 1) x)"

definition binade :: "real \<Rightarrow> int" where
  "binade x = binade_from 2045 1023 \<bar>x\<bar>"

definition binary64 :: "real \<Rightarrow> real" where
  "binary64 x =
     (let ulp = pow2 (binade x - 52)
      in ulp * of_int (round_to_even (x / ulp)))"

subsection \<open>cleanBase64 and optimizeImageForAPI\<close>

definition is_alnum :: "nat \<Rightarrow> bool" where
  "is_alnum c = ((97 \<le> c \<and> c \<le> 122) \<or> (65 \<le> c \<and> c \<le> 90) \<or> (48 \<le> c \<and> c \<le> 57))"

definition is_subtype_char :: "nat \<Rightarrow> bool" where
  "is_subtype_char c = (is_alnum c \<or> c = 45 \<or> c = 46 \<or> c = 43)"

definition is_lower :: "nat \<Rightarrow> bool" where
  "is_lower c = (97 \<le> c \<and> c \<le> 122)"

text \<open>\<^verbatim>\<open>replace(/^data:([a-zA-Z0-9]+\/[a-zA-Z0-9-.+]+)?;base64,/, '')\<close>\<close>

definition strip_data_prefix :: "jsstring \<Rightarrow> jsstring" where
  "strip_data_prefix s =
     (if startsWith s (str ''data:'') then
        (let r = drop 5 s;
             major = takeWhile is_alnum r;
             r1 = dropWhile is_alnum r;
             minor = takeWhile is_subtype_char (drop 1 r1);
             r2 = dropWhile is_subtype_char (drop 1 r1)
         in if startsWith r (str '';base64,'') then drop 8 r
            else if major \<noteq> [] \<and> startsWith r1 (str ''/'') \<and> minor \<noteq> []
                    \<and> startsWith r2 (str '';base64,'')
              then drop 8 r2
            else s)
      else s)"

text \<open>\<^verbatim>\<open>replace(/^data:image\/[a-z]+;base64,/, "")\<close>\<close>

definition strip_image_prefix :: "jsstring \<Rightarrow> jsstring" where
  "strip_image_prefix s =
     (if startsWith s (str ''data:image/'') then
        (let r = drop 11 s; subtype = takeWhile is_lower r; r1 = dropWhile is_lower r
         in if subtype \<noteq> [] \<and> startsWith r1 (str '';base64,'') then drop 8 r1 else s)
      else s)"

definition cleanBase64 :: "jsstring \<Rightarrow> jsstring" where
  "cleanBase64 s =
     (if s = [] then []
      else (let base64 = strip_data_prefix (trim s)
            in if base64 = str ''data:,'' \<or> length base64 < 100 then [] else base64))"

text \<open>The width and height that the \<^verbatim>\<open>onload\<close> handler gives the canvas.\<close>

definition optimized_size :: "Browser \<Rightarrow> Image \<Rightarrow> nat \<Rightarrow> int \<times> int" where
  "optimized_size br img maxDimension =
     (let width = img_width img; height = img_height img
      in if width > maxDimension \<or> height > maxDimension then
           if width > height
           then (int maxDimension,
                 js_round (fl br (real height * fl br (real maxDimension / real width))))
           else (js_round (fl br (real width * fl br (real maxDimension / real height))),
                 int maxDimension)
         else (int width, int height))"

text \<open>
  The result of \<open>optimizeImageForAPI\<close>: the string the promise resolves to, and the
  pixel size of the image this string encodes, which is the size of the canvas when the
  string is the export of the canvas and the size of the input image when the string is
  the input; there is none when the input could not be decoded.
\<close>

record Optimized =
  out_data :: jsstring
  out_size :: "(int \<times> int) option"

text \<open>The source that the image element is given.\<close>

definition image_source :: "jsstring \<Rightarrow> jsstring" where
  "image_source base64Str =
     (if startsWith base64Str (str ''data:'') then base64Str
      else str ''data:image/jpeg;base64,'' @ base64Str)"

definition optimizeImageForAPI :: "Browser \<Rightarrow> jsstring \<Rightarrow> nat \<Rightarrow> Optimized" where
  "optimizeImageForAPI br base64Str maxDimension =
     (case loadImage br (image_source base64Str) of
        None \<Rightarrow> \<lparr>out_data = cleanBase64 base64Str, out_size = None\<rparr>
      | Some img \<Rightarrow>
          (case optimized_size br img maxDimension of
             (width, height) \<Rightarrow>
               if \<not> getContext2d br width height
               then \<lparr>out_data = base64Str,
                     out_size = Some (int (img_width img), int (img_height img))\<rparr>
               else \<lparr>out_data =
                        strip_image_prefix
                          (toDataURL br
                             \<lparr>canvas_width = width, canvas_height = height,
                              drawn = [DrawImage img 0 0 (real_of_int width) (real_of_int height)]\<rparr>
                             (str ''image/jpeg'') 0.8),
                     out_size = Some (width, height)\<rparr>))"

subsection \<open>stitchImages (Workspace)\<close>

definition TARGET_WIDTH :: nat where
  "TARGET_WIDTH = 1000"

definition MAX_HEIGHT :: nat where
  "MAX_HEIGHT = 20000"

text \<open>The height at which an image is first planned: \<^verbatim>\<open>Math.floor(img.height * scale)\<close>.\<close>

definition drawnHeight :: "Browser \<Rightarrow> Image \<Rightarrow> int" where
  "drawnHeight br img =
     (let scale = fl br (real TARGET_WIDTH / real (img_width img))
      in \<lfloor>fl br (real (img_height img) * scale)\<rfloor>)"

text \<open>The loop that adds the planned heights up while it builds \<^verbatim>\<open>itemsToDraw\<close>.\<close>

fun plan_items :: "Browser \<Rightarrow> Image list \<Rightarrow> int \<Rightarrow> (Image \<times> int) list \<times> int" where
  "plan_items br [] totalHeight = ([], totalHeight)"
| "plan_items br (img # imgs) totalHeight =
     (case plan_items br imgs (totalHeight + drawnHeight br img) of
        (itemsToDraw, planned) \<Rightarrow> ((img, drawnHeight br img) # itemsToDraw, planned))"

text \<open>The drawing loop: each image at the full width, below the one before.\<close>

fun draw_items :: "Browser \<Rightarrow> real \<Rightarrow> (Image \<times> int) list \<Rightarrow> int \<Rightarrow> draw_op list" where
  "draw_items br finalScale [] y = []"
| "draw_items br finalScale ((img, h) # rest) y =
     (let drawH = \<lfloor>fl br (real_of_int h * finalScale)\<rfloor>
      in DrawImage img 0 (real_of_int y) (real TARGET_WIDTH) (real_of_int drawH)
         # draw_items br finalScale rest (y + drawH))"

text \<open>The canvas that is built from the images that were loaded.\<close>

definition stitch_canvas :: "Browser \<Rightarrow> Image list \<Rightarrow> Canvas" where
  "stitch_canvas br validElements =
     (case plan_items br validElements 0 of
        (itemsToDraw, planned) \<Rightarrow>
          (let finalScale = (if planned > int MAX_HEIGHT
                             then fl br (real MAX_HEIGHT / real_of_int planned) else 1);
               totalHeight = (if planned > int MAX_HEIGHT then int MAX_HEIGHT else planned)
           in \<lparr>canvas_width = int TARGET_WIDTH, canvas_height = totalHeight,
               drawn = [SetFillStyle (str ''#ffffff''),
                        FillRect 0 0 (real TARGET_WIDTH) (real_of_int totalHeight)]
                       @ draw_items br finalScale itemsToDraw 0\<rparr>))"

text \<open>
  \<open>stitchImages\<close>; \<open>Inl\<close> would be a throw. Inside the \<^verbatim>\<open>try\<close> around the canvas the
  missing context is thrown and caught.
\<close>

definition stitch_export :: "Browser \<Rightarrow> Image list \<Rightarrow> js_error + jsstring" where
  "stitch_export br validElements =
     (let canvas = stitch_canvas br validElements
      in if \<not> getContext2d br (canvas_width canvas) (canvas_height canvas)
         then Inl (JsError (str ''Canvas Context Error''))
         else Inr (toDataURL br canvas (str ''image/jpeg'') 0.6))"

definition valid_sources :: "jsstring list \<Rightarrow> jsstring list" where
  "valid_sources images =
     filter (\<lambda>src. src \<noteq> [] \<and> length src > 100 \<and> \<not> js_includes src (str ''data:,'')) images"

definition stitchImages :: "Browser \<Rightarrow> jsstring list \<Rightarrow> js_error + jsstring" where
  "stitchImages br images =
     (if length images = 0 then Inr []
      else
        (let validSrcs = valid_sources images
         in if length validSrcs = 0 then Inr []
            else if load_timeout br validSrcs then Inr []
            else
              (let validElements = List.map_filter (loadImage br) validSrcs
               in if length validElements = 0 then Inr []
                  else (case stitch_export br validElements of
                          Inr url \<Rightarrow> Inr url
                        | Inl err \<Rightarrow> Inr []))))"

text \<open>
  The height as the specification words it: the floor of the total of the heights scaled
  to the target width, capped.
\<close>

definition spec_stitched_height :: "Image list \<Rightarrow> int" where
  "spec_stitched_height imgs =
     min \<lfloor>\<Sum>img\<leftarrow>imgs. real (img_height img) * (real TARGET_WIDTH / real (img_width img))\<rfloor>
         (int MAX_HEIGHT)"

subsection \<open>processImageToBlob (Workspace)\<close>

text \<open>
  The values of a loop \<^verbatim>\<open>for (v = start; v < bound; v += step)\<close>. The step of the loops
  below is a quarter of the target width, a whole number of pixels, so that every value
  is exact; a step that is not positive only occurs together with an empty range.
\<close>

function for_range :: "real \<Rightarrow> real \<Rightarrow> real \<Rightarrow> real list" where
  "for_range v bound step =
     (if v < bound \<and> 0 < step then v # for_range (v + step) bound step else [])"
  by pat_completeness auto
termination
proof (relation "measure (\<lambda>(v, bound, step). nat \<lceil>(bound - v) / step\<rceil>)")
  show "wf (measure (\<lambda>(v, bound, step). nat \<lceil>(bound - v) / step\<rceil>))"
    by simp
next
  fix v bound step :: real
  assume a: "v < bound \<and> 0 < step"
  then have "(bound - (v + step)) / step = (bound - v) / step - 1"
    by (simp add: field_simps)
  moreover have "0 < (bound - v) / step"
    using a by simp
  then have "0 < \<lceil>(bound - v) / step\<rceil>"
    by (simp add: less_ceiling_iff)
  ultimately show "((v + step, bound, step), (v, bound, step))
      \<in> measure (\<lambda>(v, bound, step). nat \<lceil>(bound - v) / step\<rceil>)"
    by simp
qed

text \<open>The remainder operator of JavaScript on integers: the sign is that of the dividend.\<close>

definition js_rem :: "int \<Rightarrow> int \<Rightarrow> int" where
  "js_rem a b = sgn a * (\<bar>a\<bar> mod \<bar>b\<bar>)"

text \<open>\<^verbatim>\<open>Math.PI\<close> is the double nearest to \<open>\<pi>\<close>.\<close>

definition Math_PI :: real where
  "Math_PI = 884279719003555 / 2 ^ 48"

definition watermark_pass :: "Browser \<Rightarrow> jsstring \<Rightarrow> real \<Rightarrow> real \<Rightarrow> draw_op list" where
  "watermark_pass br label targetWidth targetHeight =
     (let fontSize = max 10 (fl br (targetWidth / 60));
          step = targetWidth * 0.25
      in [SetFont fontSize,
          SetFillStyle (str ''rgba(255, 255, 255, 0.05)''),
          SetShadow (str ''rgba(0, 0, 0, 0.05)'') 0 1 1,
          SetTextAlign (str ''center'') (str ''middle''),
          Save,
          Rotate (fl br (fl br (- 20 * Math_PI) / 180))]
         @ concat (map (\<lambda>x. map (\<lambda>y. FillText label
                                      (x + real_of_int (js_rem \<lfloor>fl br (y / step)\<rfloor> 2) * (step / 2)) y)
                                 (for_range (- targetHeight) (targetHeight * 2) step))
                       (for_range (- targetWidth) (targetWidth * 2) step))
         @ [Restore])"

text \<open>The canvas of the \<^verbatim>\<open>onload\<close> handler, up to the export.\<close>

definition export_canvas :: "Browser \<Rightarrow> jsstring \<Rightarrow> Image \<Rightarrow> nat \<Rightarrow> Canvas" where
  "export_canvas br label img targetWidth =
     (let aspectRatio = fl br (real (img_height img) / real (img_width img));
          targetHeight = js_round (fl br (real targetWidth * aspectRatio))
      in \<lparr>canvas_width = int targetWidth, canvas_height = targetHeight,
          drawn = [SetImageSmoothing True (str ''high''),
                   DrawImage img 0 0 (real targetWidth) (real_of_int targetHeight)]
                  @ (if label \<noteq> [] \<and> trim label \<noteq> []
                     then watermark_pass br label (real targetWidth) (real_of_int targetHeight)
                     else [])\<rparr>)"

text \<open>
  \<open>processImageToBlob\<close> with the label \<^verbatim>\<open>marketName\<close> of the store: the promise
  resolves to the PNG bytes (\<open>Inr\<close>) or is rejected (\<open>Inl\<close>).
\<close>

definition processImageToBlob :: "Browser \<Rightarrow> jsstring \<Rightarrow> jsstring \<Rightarrow> nat \<Rightarrow> js_error + jsstring" where
  "processImageToBlob br label imgUrl targetWidth =
     (case loadImage br imgUrl of
        None \<Rightarrow> Inl (JsError (str ''Image load failed''))
      | Some img \<Rightarrow>
          (let canvas = export_canvas br label img targetWidth
           in if \<not> getContext2d br (canvas_width canvas) (canvas_height canvas)
              then Inl (JsError (str ''Canvas context failed''))
              else (case toBlob br canvas (str ''image/png'') 1.0 of
                      Some blob \<Rightarrow> Inr blob
                    | None \<Rightarrow> Inl (JsError (str ''Blob creation failed'')))))"

text \<open>The drawing commands that write text.\<close>

fun is_text_op :: "draw_op \<Rightarrow> bool" where
  "is_text_op (FillText label x y) = True"
| "is_text_op other = False"

section \<open>Session, logout and the exported service functions\<close>

text \<open>The truth value of an optional string: null and the empty string are false.\<close>

definition truthy :: "jsstring option \<Rightarrow> bool" where
  "truthy s = (case s of None \<Rightarrow> False | Some t \<Rightarrow> t \<noteq> [])"

text \<open>
  \<open>logout\<close> first starts \<open>serverLogout\<close>, which sends its request when a user and a
  session token are in the store, and then writes the logged-out state. (The removal of
  the saved credentials from the browser storage is not part of the model.)
\<close>

definition logout :: "World \<Rightarrow> World" where
  "logout w =
     (let w1 = (if truthy (userName (store w)) \<and> truthy (sessionToken (store w))
                then emit ServerLogoutRequest w else w)
      in emit LoggedOut (w1\<lparr>store := logout_state (store w1)\<rparr>))"

definition checkSession :: "Remote \<Rightarrow> World \<Rightarrow> bool \<times> World" where
  "checkSession remote w =
     (if \<not> truthy (userName (store w)) \<or> \<not> truthy (sessionToken (store w)) then (True, w)
      else
        (let w1 = emit SessionCheckRequest (w\<lparr>fetches := Suc (fetches w)\<rparr>)
         in case sessionReply remote (fetches w) of
              Mismatch \<Rightarrow> (False, logout (emit AlertSessionMismatch w1))
            | OtherReply \<Rightarrow> (True, w1)))"

definition logUsage :: "World \<Rightarrow> World" where
  "logUsage w = (if \<not> truthy (userName (store w)) then w else emit UsageLogRequest w)"

subsection \<open>analyzeImageForCopywriting\<close>

text \<open>The operation that \<open>analyzeAndGenerateCopywriting\<close> hands to \<open>withRetry\<close>.\<close>

definition analysis_attempt ::
  "Remote \<Rightarrow> jsstring \<Rightarrow> jsstring option \<Rightarrow> jsstring list \<Rightarrow> World
     \<Rightarrow> (js_error + CopywritingOption list) \<times> World" where
  "analysis_attempt remote base64Target base64Reference used w =
     (case getClient (store w) of
        Inl err \<Rightarrow> (Inl err, w)
      | Inr ai \<Rightarrow>
          (analyzeContent remote (requests w) base64Target base64Reference used,
           emit (GeminiRequest (str ''gemini-3-flash-preview'')) (w\<lparr>requests := Suc (requests w)\<rparr>)))"

text \<open>
  What the \<^verbatim>\<open>catch\<close> after \<open>withRetry\<close> throws. Were the caught value undefined, reading its
  message would raise a TypeError (here with the text of V8); with three retries this
  does not occur.
\<close>

definition rethrow :: "js_error option \<Rightarrow> js_error" where
  "rethrow caught =
     (case caught of
        Some err \<Rightarrow> handleGeminiError err
      | None \<Rightarrow> JsError (str ''Cannot read properties of undefined (reading '' @ [39]
                          @ str ''message'' @ [39] @ str '')''))"

definition analyzeImageForCopywriting ::
  "Remote \<Rightarrow> jsstring \<Rightarrow> jsstring option \<Rightarrow> jsstring list \<Rightarrow> World
     \<Rightarrow> (js_error + CopywritingOption list) \<times> World" where
  "analyzeImageForCopywriting remote base64Image referenceImg used w =
     (case withRetry (analysis_attempt remote base64Image referenceImg used) 3 2000 w of
        (Inr copywriting, w') \<Rightarrow> (Inr copywriting, w')
      | (Inl caught, w') \<Rightarrow> (Inl (rethrow caught), w'))"

subsection \<open>applyCopywritingToImage\<close>

definition detail_prompt :: "jsstring \<Rightarrow> jsstring" where
  "detail_prompt copy =
     [10] @ str ''        Task: E-commerce Localization (Chinese -> Korean).''
     @ [10] @ str ''        User Copy: '' @ [34] @ copy @ [34]
     @ [10] @ str ''        Rules: Replace Chinese text with Korean. Keep product integrity. High contrast text.''
     @ [10] @ str ''        ''"

definition generateDetailPageImage ::
  "Browser \<Rightarrow> Remote \<Rightarrow> jsstring \<Rightarrow> CopywritingOption \<Rightarrow> jsstring list \<Rightarrow> status_callback option
     \<Rightarrow> World \<Rightarrow> (js_error + jsstring) \<times> World" where
  "generateDetailPageImage br remote base64Image selected recognizedChineseTexts onStatusUpdate w =
     (let w1 = (case onStatusUpdate of None \<Rightarrow> w | Some callback \<Rightarrow> callback Optimizing w);
          cleanData = cleanBase64 base64Image;
          optimizedData = out_data (optimizeImageForAPI br cleanData 1024)
      in case generateImage remote (str ''image/jpeg'') optimizedData
                (detail_prompt (opt_text selected)) \<lparr>aspectRatio = None, imageSize = None\<rparr>
                onStatusUpdate w1 of
           (Inr url, w') \<Rightarrow> (Inr url, w')
         | (Inl err, w') \<Rightarrow> (Inl (handleGeminiError err), w'))"

definition applyCopywritingToImage ::
  "Browser \<Rightarrow> Remote \<Rightarrow> jsstring \<Rightarrow> CopywritingOption \<Rightarrow> bool
     \<Rightarrow> World \<Rightarrow> (js_error + jsstring) \<times> World" where
  "applyCopywritingToImage br remote base64Image selected isRetry w =
     generateDetailPageImage br remote base64Image selected [] None w"

section \<open>Batch processing (Workspace)\<close>

text \<open>
  The two service functions that the Workspace imports are parameters of its handlers;
  below the handlers are run on the services above.
\<close>

type_synonym analyze_service =
  "jsstring \<Rightarrow> jsstring option \<Rightarrow> jsstring list \<Rightarrow> World
     \<Rightarrow> (js_error + CopywritingOption list) \<times> World"

type_synonym apply_service =
  "jsstring \<Rightarrow> CopywritingOption \<Rightarrow> bool \<Rightarrow> World \<Rightarrow> (js_error + jsstring) \<times> World"

text \<open>\<^verbatim>\<open>e.message || e.toString()\<close>\<close>

definition error_text :: "js_error \<Rightarrow> jsstring" where
  "error_text e = (if message e = [] then str ''Error'' else message e)"

text \<open>
  \<open>handleServiceError\<close>. The test \<^verbatim>\<open>if (itemId)\<close> fails for an id that is undefined and
  for the empty string: both go to the global error.
\<close>

definition handleServiceError :: "js_error \<Rightarrow> jsstring option \<Rightarrow> World \<Rightarrow> World" where
  "handleServiceError e itemId w =
     (let msg = error_text e
      in if js_includes msg (str ''[AUTH_ERROR]'') then logout (emit AlertAuthFailed w)
         else (case itemId of
                 Some iid \<Rightarrow>
                   if iid \<noteq> []
                   then w\<lparr>store := updateItem iid (no_updates\<lparr>upd_status := Some Error,
                                                              upd_error := Some (Some msg)\<rparr>)
                                     (store w)\<rparr>
                   else w\<lparr>store := setGlobalError (Some msg) (store w)\<rparr>
               | None \<Rightarrow> w\<lparr>store := setGlobalError (Some msg) (store w)\<rparr>))"

text \<open>The loop of \<open>handleBatchAnalyze\<close> over its targets.\<close>

fun analyze_items :: "analyze_service \<Rightarrow> jsstring option \<Rightarrow> WorkItem list \<Rightarrow> World \<Rightarrow> World" where
  "analyze_items analyze reference [] w = w"
| "analyze_items analyze reference (item # rest) w =
     (case analyze (originalImage item) reference (usedCaptions (store w)) w of
        (Inr options, w') \<Rightarrow>
          analyze_items analyze reference rest
            (w'\<lparr>store :=
                  updateItem (item_id item) (no_updates\<lparr>upd_status := Some Selecting\<rparr>)
                    (setItemOptions (item_id item) options
                       (addUsedCaptions (map opt_text options) (store w')))\<rparr>)
      | (Inl e, w') \<Rightarrow>
          analyze_items analyze reference rest (handleServiceError e (Some (item_id item)) w'))"

definition handleBatchAnalyze :: "analyze_service \<Rightarrow> Remote \<Rightarrow> World \<Rightarrow> World" where
  "handleBatchAnalyze analyze remote w =
     (let targets = filter (\<lambda>i. status i = Idle \<or> status i = Error) (items (store w))
      in if length targets = 0 then w
         else
           (let w1 = w\<lparr>isBatchProcessing := True\<rparr>;
                targetIds = map item_id targets;
                w2 = w1\<lparr>store :=
                          updateMultipleItems targetIds
                            (no_updates\<lparr>upd_status := Some Analyzing, upd_error := Some None\<rparr>)
                            (store w1)\<rparr>
            in case checkSession remote w2 of
                 (isSessionValid, w3) \<Rightarrow>
                   if \<not> isSessionValid then w3\<lparr>isBatchProcessing := False\<rparr>
                   else (analyze_items analyze (referenceImage (store w)) targets w3)
                          \<lparr>isBatchProcessing := False\<rparr>))"

definition generateSingleItem :: "apply_service \<Rightarrow> Remote \<Rightarrow> WorkItem \<Rightarrow> bool \<Rightarrow> World \<Rightarrow> World" where
  "generateSingleItem applyCopy remote item isRetry w =
     (let w1 = w\<lparr>store :=
                   updateItem (item_id item)
                     (no_updates\<lparr>upd_status := Some Processing, upd_error := Some None\<rparr>)
                     (store w)\<rparr>
      in case checkSession remote w1 of
           (isSessionValid, w2) \<Rightarrow>
             if \<not> isSessionValid then w2
             else (case selectedOption item of
                     None \<Rightarrow> w2
                   | Some selected \<Rightarrow>
                       (case applyCopy (originalImage item) selected isRetry w2 of
                          (Inr result, w3) \<Rightarrow>
                            logUsage
                              (w3\<lparr>store :=
                                   updateItem (item_id item)
                                     (no_updates\<lparr>upd_status := Some Complete,
                                                upd_generatedImage := Some (Some result)\<rparr>)
                                     (store w3)\<rparr>)
                        | (Inl e, w3) \<Rightarrow> handleServiceError e (Some (item_id item)) w3)))"

text \<open>The loop of \<open>handleBatchGenerate\<close> over its targets.\<close>

fun generate_items :: "apply_service \<Rightarrow> Remote \<Rightarrow> WorkItem list \<Rightarrow> World \<Rightarrow> World" where
  "generate_items applyCopy remote [] w = w"
| "generate_items applyCopy remote (item # rest) w =
     generate_items applyCopy remote rest (generateSingleItem applyCopy remote item False w)"

definition handleBatchGenerate :: "apply_service \<Rightarrow> Remote \<Rightarrow> World \<Rightarrow> World" where
  "handleBatchGenerate applyCopy remote w =
     (let targets = filter (\<lambda>i. status i = Selecting \<and> selectedOption i \<noteq> None) (items (store w))
      in if length targets = 0 then w
         else
           (let w1 = w\<lparr>isBatchProcessing := True\<rparr>;
                targetIds = map item_id targets;
                w2 = w1\<lparr>store :=
                          updateMultipleItems targetIds
                            (no_updates\<lparr>upd_status := Some Processing, upd_error := Some None\<rparr>)
                            (store w1)\<rparr>
            in case checkSession remote w2 of
                 (isSessionValid, w3) \<Rightarrow>
                   if \<not> isSessionValid then w3\<lparr>isBatchProcessing := False\<rparr>
                   else (generate_items applyCopy remote targets w3)\<lparr>isBatchProcessing := False\<rparr>))"

fun auth_alerts :: "event list \<Rightarrow> nat" where
  "auth_alerts [] = 0"
| "auth_alerts (AlertAuthFailed # evs) = Suc (auth_alerts evs)"
| "auth_alerts (ev # evs) = auth_alerts evs"

text \<open>
  The error with which a call of either service ends when the store holds no key: the
  error of \<open>getClient\<close> as \<open>handleGeminiError\<close> passes it on.
\<close>

definition missing_key_error :: js_error where
  "missing_key_error = JsError (msg_error_prefix @ msg_no_api_key @ str ''...'')"

text \<open>The state after a logout: nobody is logged in, and no key and no item is left.\<close>

definition logged_out :: "World \<Rightarrow> bool" where
  "logged_out w = (store w = logout_state (store w))"

section \<open>Sample data\<close>

definition sample_option :: "int \<Rightarrow> string \<Rightarrow> CopywritingOption" where
  "sample_option i t = \<lparr>opt_index = i, tone = str ''tone'', opt_text = str t, replacements = []\<rparr>"

definition sample_item :: "string \<Rightarrow> item_status \<Rightarrow> WorkItem" where
  "sample_item i st =
     \<lparr>item_id = str i, originalImage = str i @ str ''.jpg'', generatedImage = None, status = st,
      error = None, copywritingOptions = [sample_option 1 ''one'', sample_option 2 ''two''],
      selectedOption = Some (sample_option 2 ''two'')\<rparr>"

definition sample_store :: "WorkItem list \<Rightarrow> StoreState" where
  "sample_store its =
     \<lparr>isAuthenticated = True, userName = Some (str ''user''),
      apiKey = Some (str ''AIzaSyExampleExampleExampleExample''),
      sessionToken = Some (str ''token''), thumbnail = empty_thumbnail,
      isThumbnailSkipped = True, referenceImage = None, isReferenceSkipped = True,
      items = its, marketName = str ''shop'', globalError = None, usedCaptions = []\<rparr>"

definition sample_world :: "WorkItem list \<Rightarrow> World" where
  "sample_world its =
     \<lparr>store = sample_store its, isBatchProcessing = False, events = [], requests = 0, fetches = 0\<rparr>"

definition image_response :: GenResponse where
  "image_response =
     Some [[Part None, Part (Some \<lparr>inline_mimeType = None, inline_data = Some (str ''QUJD'')\<rparr>)]]"

definition no_config :: ImageConfig where
  "no_config = \<lparr>aspectRatio = None, imageSize = None\<rparr>"

definition quota_error :: js_error where
  "quota_error = JsError (str ''429 RESOURCE_EXHAUSTED: You exceeded your current quota'')"

definition unauthorized_error :: js_error where
  "unauthorized_error = JsError (str ''401 UNAUTHENTICATED: invalid authentication credentials'')"

definition quota_twice :: Remote where
  "quota_twice =
     \<lparr>generateContent = (\<lambda>n req. if n < 2 then Inl quota_error else Inr image_response),
      analyzeContent = (\<lambda>n target reference used. Inr []),
      sessionReply = (\<lambda>n. OtherReply)\<rparr>"

definition unauthorized :: Remote where
  "unauthorized =
     \<lparr>generateContent = (\<lambda>n req. Inl unauthorized_error),
      analyzeContent = (\<lambda>n target reference used. Inl unauthorized_error),
      sessionReply = (\<lambda>n. OtherReply)\<rparr>"


text \<open>
  The effects of the attempts \<open>i\<close> up to \<open>retries\<close> of \<open>withRetry\<close> on a scripted
  operation when all of them fail: each is a request followed by the wait.
\<close>

definition failed_attempts :: "nat \<Rightarrow> nat \<Rightarrow> nat \<Rightarrow> event list" where
  "failed_attempts delayMs i retries =
     concat (map (\<lambda>j. [GeminiRequest (str ''mock''), Sleep (delayMs * (j + 1))]) [i..<retries])"

definition overloaded_error :: js_error where
  "overloaded_error = JsError (str ''503 UNAVAILABLE: The model is overloaded'')"

definition always_overloaded :: "nat \<Rightarrow> js_error + unit" where
  "always_overloaded n = Inl overloaded_error"

text \<open>
  A browser that computes exactly, loads what \<open>load\<close> says, has a 2D context or not,
  and encodes every canvas to the same bytes.
\<close>

definition sample_browser :: "(jsstring \<Rightarrow> Image option) \<Rightarrow> bool \<Rightarrow> bool \<Rightarrow> Browser" where
  "sample_browser load context late =
     \<lparr>fl = (\<lambda>x. x), loadImage = load, getContext2d = (\<lambda>width height. context),
      toDataURL = (\<lambda>canvas type quality. str ''data:image/jpeg;base64,QUJD''),
      toBlob = (\<lambda>canvas type quality. Some (str ''PNG'')),
      load_timeout = (\<lambda>srcs. late)\<rparr>"

definition sample_image :: "nat \<Rightarrow> nat \<Rightarrow> Image" where
  "sample_image width height = \<lparr>img_src = str ''data:image/jpeg;base64,QUJD'', img_width = width, img_height = height\<rparr>"

definition long_source :: jsstring where
  "long_source = replicate 200 65"

definition keyless_world :: "WorkItem list \<Rightarrow> World" where
  "keyless_world its =
     \<lparr>store = (sample_store its)\<lparr>apiKey := None\<rparr>, isBatchProcessing = False, events = [],
      requests = 0, fetches = 0\<rparr>"

text \<open>
  A browser that computes in binary64, loads what \<open>load\<close> says, has a 2D context or
  not, and whose encoders tell canvases apart: the bytes give the width, the height, the
  number of drawing commands and the number of those that write text.
\<close>

definition sample_bytes :: "Canvas \<Rightarrow> jsstring" where
  "sample_bytes canvas =
     [nat (canvas_width canvas), nat (canvas_height canvas), length (drawn canvas),
      length (filter is_text_op (drawn canvas))]"

definition double_browser :: "(jsstring \<Rightarrow> Image option) \<Rightarrow> bool \<Rightarrow> Browser" where
  "double_browser load context =
     \<lparr>fl = binary64, loadImage = load, getContext2d = (\<lambda>width height. context),
      toDataURL = (\<lambda>canvas type quality. str ''data:image/jpeg;base64,'' @ sample_bytes canvas),
      toBlob = (\<lambda>canvas type quality. Some (sample_bytes canvas)),
      load_timeout = (\<lambda>srcs. False)\<rparr>"


text \<open>
  A remote side on which the second of three items fails: of the requests of a batch,
  numbered from 0, the first is answered, the next twelve image requests and the next
  three analysis requests are answered with the error of an overloaded server, and every
  later one is answered again.
\<close>

definition second_item_fails :: Remote where
  "second_item_fails =
     \<lparr>generateContent = (\<lambda>n req. if 1 \<le> n \<and> n \<le> 12 then Inl overloaded_error
                                  else Inr image_response),
      analyzeContent = (\<lambda>n target reference used.
                          if 1 \<le> n \<and> n \<le> 3 then Inl overloaded_error
                          else Inr [sample_option 1 ''copy'']),
      sessionReply = (\<lambda>n. OtherReply)\<rparr>"

text \<open>
  A remote side that refuses every request because the key has expired, with the message
  of the Gemini API for this case.
\<close>

definition expired_key_error :: js_error where
  "expired_key_error = JsError (str ''API key expired. Please renew the API key.'')"

definition expired_key :: Remote where
  "expired_key =
     \<lparr>generateContent = (\<lambda>n req. Inl expired_key_error),
      analyzeContent = (\<lambda>n target reference used. Inl expired_key_error),
      sessionReply = (\<lambda>n. OtherReply)\<rparr>"

section \<open>Editing the text of a copywriting option\<close>

lemma edit_option_text_options:
  "copywritingOptions (edit_option_text index newText item) =
     (if index < length (copywritingOptions item)
      then (copywritingOptions item)[index := (copywritingOptions item ! index)\<lparr>opt_text := newText\<rparr>]
      else copywritingOptions item)"
  by (simp add: edit_option_text_def Let_def)

lemma edit_option_text_selected:
  "selectedOption (edit_option_text index newText item) =
     (case selectedOption item of
        None \<Rightarrow> None
      | Some sel \<Rightarrow>
          if index < length (copywritingOptions item)
             \<and> opt_index sel = opt_index (copywritingOptions item ! index)
          then Some ((copywritingOptions item ! index)\<lparr>opt_text := newText\<rparr>)
          else Some sel)"
  by (simp add: edit_option_text_def Let_def split: option.splits)

lemma edit_option_text_rest:
  "edit_option_text index newText item =
     item\<lparr>copywritingOptions := copywritingOptions (edit_option_text index newText item),
          selectedOption := selectedOption (edit_option_text index newText item)\<rparr>"
  by (simp add: edit_option_text_def Let_def)

text \<open>
  Claim C10. For every state, item id, option index and new text, \<open>updateItemOptionText\<close>
  touches only the item list, and in it: an item with another id is left as it is; in an
  item with the given id the option at the index gets the new text, every other option
  and every other field stay, and the selected option becomes the updated option when its
  \<open>index\<close> field equals that of the edited option, and stays as it is otherwise.
\<close>

theorem updateItemOptionText_spec:
  "let state' = updateItemOptionText iid index newText state in
     state' = state\<lparr>items := items state'\<rparr>
    \<and> length (items state') = length (items state)
    \<and> (\<forall>k < length (items state).
         let old = items state ! k; new = items state' ! k; opts = copywritingOptions old in
           (item_id old \<noteq> iid \<longrightarrow> new = old)
         \<and> (item_id old = iid \<longrightarrow>
               new = old\<lparr>copywritingOptions := copywritingOptions new,
                         selectedOption := selectedOption new\<rparr>
             \<and> length (copywritingOptions new) = length opts
             \<and> (\<forall>j < length opts. j \<noteq> index \<longrightarrow> copywritingOptions new ! j = opts ! j)
             \<and> (index < length opts \<longrightarrow>
                  copywritingOptions new ! index = (opts ! index)\<lparr>opt_text := newText\<rparr>
                  \<and> opt_text (copywritingOptions new ! index) = newText)
             \<and> (\<forall>sel. selectedOption old = Some sel \<longrightarrow>
                  (if index < length opts \<and> opt_index sel = opt_index (opts ! index)
                   then selectedOption new = Some ((opts ! index)\<lparr>opt_text := newText\<rparr>)
                   else selectedOption new = Some sel))
             \<and> (selectedOption old = None \<longrightarrow> selectedOption new = None)))"
proof -
  let ?s = "updateItemOptionText iid index newText state"
  have st: "?s = state\<lparr>items := items ?s\<rparr>"
    by (simp add: updateItemOptionText_def)
  have len: "length (items ?s) = length (items state)"
    by (simp add: updateItemOptionText_def)
  have each: "items ?s ! k =
      (if item_id (items state ! k) \<noteq> iid then items state ! k
       else edit_option_text index newText (items state ! k))"
    if "k < length (items state)" for k
    using that by (simp add: updateItemOptionText_def)
  have other: "items ?s ! k = items state ! k"
    if "k < length (items state)" "item_id (items state ! k) \<noteq> iid" for k
    using that each by simp
  have same: "items ?s ! k = edit_option_text index newText (items state ! k)"
    if "k < length (items state)" "item_id (items state ! k) = iid" for k
    using that each by simp
  show ?thesis
    unfolding Let_def
  proof (intro conjI allI impI)
    show "?s = state\<lparr>items := items ?s\<rparr>" by (rule st)
    show "length (items ?s) = length (items state)" by (rule len)
  next
    fix k assume "k < length (items state)" "item_id (items state ! k) \<noteq> iid"
    then show "items ?s ! k = items state ! k" by (rule other)
  next
    fix k assume k: "k < length (items state)" "item_id (items state ! k) = iid"
    note new = same [OF k]
    show "items ?s ! k = (items state ! k)\<lparr>copywritingOptions := copywritingOptions (items ?s ! k),
                         selectedOption := selectedOption (items ?s ! k)\<rparr>"
      unfolding new by (rule edit_option_text_rest)
    show "length (copywritingOptions (items ?s ! k)) = length (copywritingOptions (items state ! k))"
      unfolding new by (simp add: edit_option_text_options)
    show "selectedOption (items ?s ! k) = None" if "selectedOption (items state ! k) = None"
      unfolding new using that by (simp add: edit_option_text_selected)
    show "copywritingOptions (items ?s ! k) ! j = copywritingOptions (items state ! k) ! j"
      if "j < length (copywritingOptions (items state ! k))" "j \<noteq> index" for j
      unfolding new using that by (simp add: edit_option_text_options)
    show "if index < length (copywritingOptions (items state ! k))
             \<and> opt_index sel = opt_index (copywritingOptions (items state ! k) ! index)
          then selectedOption (items ?s ! k)
               = Some ((copywritingOptions (items state ! k) ! index)\<lparr>opt_text := newText\<rparr>)
          else selectedOption (items ?s ! k) = Some sel"
      if "selectedOption (items state ! k) = Some sel" for sel
      unfolding new using that by (simp add: edit_option_text_selected)
    assume i: "index < length (copywritingOptions (items state ! k))"
    show "copywritingOptions (items ?s ! k) ! index
          = (copywritingOptions (items state ! k) ! index)\<lparr>opt_text := newText\<rparr>"
      unfolding new using i by (simp add: edit_option_text_options)
    show "opt_text (copywritingOptions (items ?s ! k) ! index) = newText"
      unfolding new using i by (simp add: edit_option_text_options)
  qed
qed

theorem updateItemOptionText_witness:
  "(let state = sample_store [sample_item ''a'' Selecting, sample_item ''b'' Selecting];
        state' = updateItemOptionText (str ''a'') 1 (str ''neu'') state in
      (0::nat) < length (items state) \<and> item_id (items state ! 0) = str ''a''
    \<and> (1::nat) < length (copywritingOptions (items state ! 0))
    \<and> selectedOption (items state ! 0) = Some (sample_option 2 ''two'')
    \<and> opt_index (sample_option 2 ''two'') = opt_index (copywritingOptions (items state ! 0) ! 1)
    \<and> opt_text (copywritingOptions (items state' ! 0) ! 1) = str ''neu''
    \<and> selectedOption (items state' ! 0) = Some (sample_option 2 ''neu'')
    \<and> copywritingOptions (items state' ! 0) ! 0 = sample_option 1 ''one''
    \<and> (1::nat) < length (items state) \<and> item_id (items state ! 1) \<noteq> str ''a''
    \<and> items state' ! 1 = items state ! 1)"
  using updateItemOptionText_spec
    [of "str ''a''" 1 "str ''neu''" "sample_store [sample_item ''a'' Selecting, sample_item ''b'' Selecting]"]
  by (simp add: Let_def sample_store_def sample_item_def sample_option_def str_def)

section \<open>withRetry when every attempt fails\<close>

declare withRetry_from.simps [simp del]

lemma withRetry_from_all_fail:
  assumes "\<forall>j. i \<le> j \<and> j < retries \<longrightarrow>
             script (k + j) = Inl (errs j) \<and> \<not> non_retryable (message (errs j))"
    and "requests w = k + i"
  shows "withRetry_from (scripted script) retries delayMs i lastError w =
           (Inl (if i < retries then Some (errs (retries - 1)) else lastError),
            w\<lparr>requests := k + max i retries,
              events := events w @ failed_attempts delayMs i retries\<rparr>)"
  using assms
proof (induction "retries - i" arbitrary: i lastError w)
  case 0
  then have "\<not> i < retries" by simp
  then show ?case
    using 0 by (subst withRetry_from.simps) (simp add: failed_attempts_def max_def)
next
  case (Suc n)
  then have lt: "i < retries" by simp
  let ?w1 = "sleep (delayMs * (i + 1))
               (emit (GeminiRequest (str ''mock'')) (w\<lparr>requests := Suc (requests w)\<rparr>))"
  have here: "script (requests w) = Inl (errs i)" "\<not> non_retryable (message (errs i))"
    using Suc.prems lt by auto
  have step: "withRetry_from (scripted script) retries delayMs i lastError w =
      withRetry_from (scripted script) retries delayMs (i + 1) (Some (errs i)) ?w1"
    using lt here by (subst withRetry_from.simps) (simp add: scripted_def)
  have n: "n = retries - (i + 1)" using Suc.hyps(2) by simp
  have req: "requests ?w1 = k + (i + 1)"
    using Suc.prems(2) by (simp add: sleep_def emit_def)
  have rest: "\<forall>j. i + 1 \<le> j \<and> j < retries \<longrightarrow>
             script (k + j) = Inl (errs j) \<and> \<not> non_retryable (message (errs j))"
    using Suc.prems(1) by simp
  have ih: "withRetry_from (scripted script) retries delayMs (i + 1) (Some (errs i)) ?w1 =
           (Inl (if i + 1 < retries then Some (errs (retries - 1)) else Some (errs i)),
            ?w1\<lparr>requests := k + max (i + 1) retries,
              events := events ?w1 @ failed_attempts delayMs (i + 1) retries\<rparr>)"
    by (rule Suc.hyps(1) [OF n rest req])
  have last: "(if i + 1 < retries then Some (errs (retries - 1)) else Some (errs i))
      = Some (errs (retries - 1))"
    using lt by (cases "i + 1 < retries") (auto simp: not_less le_Suc_eq)
  have ev: "failed_attempts delayMs i retries =
      [GeminiRequest (str ''mock''), Sleep (delayMs * (i + 1))]
      @ failed_attempts delayMs (i + 1) retries"
    using lt by (simp add: failed_attempts_def upt_conv_Cons)
  show ?case
    unfolding step ih last ev
    using lt by (simp add: sleep_def emit_def max_def)
qed

text \<open>
  Claim C9. Let an operation fail on each of its first \<open>retries\<close> invocations, the
  \<open>j\<close>-th (from 0) with the error \<open>errs j\<close>, none of which carries one of the four
  markers that stop the retrying. Then \<open>withRetry\<close> invokes the operation exactly
  \<open>retries\<close> times, waits \<open>delayMs * (j + 1)\<close> after the \<open>j\<close>-th failure, the last one
  included, and then throws the error of the last invocation as it is. (With
  \<open>retries = 0\<close> nothing is invoked and the value thrown is undefined.)
\<close>

theorem withRetry_all_attempts_fail:
  assumes "\<forall>j < retries. script (requests w + j) = Inl (errs j)
                         \<and> \<not> non_retryable (message (errs j))"
  shows "withRetry (scripted script) retries delayMs w =
           (Inl (if 0 < retries then Some (errs (retries - 1)) else None),
            w\<lparr>requests := requests w + retries,
              events := events w @
                concat (map (\<lambda>j. [GeminiRequest (str ''mock''), Sleep (delayMs * (j + 1))])
                            [0..<retries])\<rparr>)"
  unfolding withRetry_def
  using withRetry_from_all_fail [of 0 retries script "requests w" errs w delayMs None] assms
  by (simp add: failed_attempts_def)

theorem withRetry_all_attempts_fail_witness:
  "requests (sample_world []) = 0
   \<and> always_overloaded 0 = Inl overloaded_error
   \<and> always_overloaded 1 = Inl overloaded_error
   \<and> always_overloaded 2 = Inl overloaded_error
   \<and> \<not> non_retryable (message overloaded_error)
   \<and> withRetry (scripted always_overloaded) 3 2000 (sample_world [])
       = (Inl (Some overloaded_error),
          (sample_world [])\<lparr>requests := 3,
             events := [GeminiRequest (str ''mock''), Sleep 2000,
                        GeminiRequest (str ''mock''), Sleep 4000,
                        GeminiRequest (str ''mock''), Sleep 6000]\<rparr>)"
proof -
  have retried: "\<not> non_retryable (message overloaded_error)"
    by (simp add: overloaded_error_def non_retryable_def needle_key_expired_def
          needle_permission_def str_def)
  have script: "always_overloaded n = Inl overloaded_error" for n
    by (simp add: always_overloaded_def)
  have hyp: "\<forall>j < 3. always_overloaded (requests (sample_world []) + j)
               = Inl ((\<lambda>j. overloaded_error) j)
             \<and> \<not> non_retryable (message ((\<lambda>j. overloaded_error) j))"
    using retried script by simp
  have three: "[0..<3] = [0, 1, 2]"
    by (simp add: upt_conv_Cons numeral_3_eq_3)
  have start: "requests (sample_world []) = 0"
    by (simp add: sample_world_def)
  have run: "withRetry (scripted always_overloaded) 3 2000 (sample_world [])
       = (Inl (Some overloaded_error),
          (sample_world [])\<lparr>requests := 3,
             events := [GeminiRequest (str ''mock''), Sleep 2000,
                        GeminiRequest (str ''mock''), Sleep 4000,
                        GeminiRequest (str ''mock''), Sleep 6000]\<rparr>)"
    using withRetry_all_attempts_fail [OF hyp, of 2000]
    by (simp add: three sample_world_def)
  show ?thesis
    using start script retried run by blast
qed

section \<open>generateImage: retries and immediate failure\<close>

declare attempts_from.simps [simp del]

lemma primary_is_pro: "js_includes (modelsToTry ! 0) (str ''pro'')"
  by (simp add: modelsToTry_def str_def)

lemma before_first_call:
  "before_call (Some record_status) (modelsToTry ! 0) 0 w
     = emit (StatusUpdate (Starting (str ''Pro''))) w"
  using primary_is_pro by (simp add: before_call_def announce_def record_status_def)

lemma before_first_call_silent: "before_call None modelName attempt w
     = (if attempt > 0 then sleep (retryDelays ! (attempt - 1)) w else w)"
  by (simp add: before_call_def announce_def)

lemma before_retry:
  "0 < attempt \<Longrightarrow> before_call (Some record_status) modelName attempt w =
     sleep (retryDelays ! (attempt - 1))
       (emit (StatusUpdate (Waiting (retryDelays ! (attempt - 1) div 1000) attempt
                (length retryDelays))) w)"
  by (simp add: before_call_def announce_def record_status_def)

lemma send_error:
  "generateContent remote (requests w) req = Inl err \<Longrightarrow>
     send remote req w = (Inl err, emit (GeminiRequest (req_model req)) (w\<lparr>requests := Suc (requests w)\<rparr>))"
  by (simp add: send_def)

lemma send_image:
  "generateContent remote (requests w) req = Inr response \<Longrightarrow> image_of_response response = Inr url \<Longrightarrow>
     send remote req w = (Inr url, emit (GeminiRequest (req_model req)) (w\<lparr>requests := Suc (requests w)\<rparr>))"
  by (simp add: send_def)

lemma attempt_transient:
  assumes "attempt \<le> length retryDelays"
    and "send remote (gen_request modelName mimeType cleanData prompt imageConfig)
           (before_call onStatusUpdate modelName attempt w) = (Inl err, w3)"
    and "is_transient (toLowerCase (message err))" "\<not> is_critical (toLowerCase (message err))"
  shows "attempts_from remote mimeType cleanData prompt imageConfig onStatusUpdate modelName attempt
           lastError w =
         attempts_from remote mimeType cleanData prompt imageConfig onStatusUpdate modelName
           (attempt + 1) (Some err) w3"
  using assms by (subst attempts_from.simps) simp

lemma attempt_critical:
  assumes "attempt \<le> length retryDelays"
    and "send remote (gen_request modelName mimeType cleanData prompt imageConfig)
           (before_call onStatusUpdate modelName attempt w) = (Inl err, w3)"
    and "is_critical (toLowerCase (message err))"
  shows "attempts_from remote mimeType cleanData prompt imageConfig onStatusUpdate modelName attempt
           lastError w = (Thrown err, w3)"
  using assms by (subst attempts_from.simps) simp

lemma attempt_image:
  assumes "attempt \<le> length retryDelays"
    and "send remote (gen_request modelName mimeType cleanData prompt imageConfig)
           (before_call onStatusUpdate modelName attempt w) = (Inr url, w3)"
  shows "attempts_from remote mimeType cleanData prompt imageConfig onStatusUpdate modelName attempt
           lastError w = (Returned url, w3)"
  using assms by (subst attempts_from.simps) simp

lemma requests_before_call:
  "requests (before_call (Some record_status) modelName attempt v) = requests v"
  by (simp add: before_call_def announce_def record_status_def emit_def sleep_def Let_def)

lemma recorded_attempt:
  "emit (GeminiRequest modelName)
     ((before_call (Some record_status) modelName attempt v)\<lparr>requests := Suc (requests v)\<rparr>)
   = v\<lparr>requests := Suc (requests v), events := events v @ attempt_events modelName attempt\<rparr>"
  by (simp add: before_call_def announce_def record_status_def attempt_events_def emit_def
      sleep_def Let_def)

lemma attempts_from_transient_run:
  assumes "k \<le> length retryDelays" "a \<le> k" "requests v = n + a"
    and "\<forall>j. a \<le> j \<and> j < k \<longrightarrow>
           generateContent remote (n + j)
             (gen_request modelName mimeType cleanData prompt imageConfig) = Inl (errs j)
           \<and> is_transient (toLowerCase (message (errs j)))
           \<and> \<not> is_critical (toLowerCase (message (errs j)))"
    and "generateContent remote (n + k)
           (gen_request modelName mimeType cleanData prompt imageConfig) = Inr response"
    and "image_of_response response = Inr url"
  shows "attempts_from remote mimeType cleanData prompt imageConfig (Some record_status) modelName
           a lastError v
         = (Returned url,
            v\<lparr>requests := n + k + 1,
              events := events v @ concat (map (attempt_events modelName) [a..<Suc k])\<rparr>)"
  using assms(2,3,4)
proof (induction "k - a" arbitrary: a v lastError)
  case 0
  then have a: "a = k" by simp
  let ?req = "gen_request modelName mimeType cleanData prompt imageConfig"
  have model: "req_model ?req = modelName" by (simp add: gen_request_def)
  have "generateContent remote (requests (before_call (Some record_status) modelName a v)) ?req
      = Inr response"
    using assms(5) "0.prems"(2) a by (simp add: requests_before_call)
  from send_image [OF this assms(6)]
  have "send remote ?req (before_call (Some record_status) modelName a v)
      = (Inr url, v\<lparr>requests := Suc (requests v),
                     events := events v @ attempt_events modelName a\<rparr>)"
    by (simp add: model recorded_attempt requests_before_call)
  from attempt_image [OF _ this, of lastError] show ?case
    using assms(1) a "0.prems"(2) by simp
next
  case (Suc d)
  then have lt: "a < k" by simp
  let ?req = "gen_request modelName mimeType cleanData prompt imageConfig"
  let ?v1 = "v\<lparr>requests := Suc (requests v), events := events v @ attempt_events modelName a\<rparr>"
  have model: "req_model ?req = modelName" by (simp add: gen_request_def)
  have here: "generateContent remote (n + a) ?req = Inl (errs a)"
    "is_transient (toLowerCase (message (errs a)))"
    "\<not> is_critical (toLowerCase (message (errs a)))"
    using Suc.prems(3) lt by auto
  have "generateContent remote (requests (before_call (Some record_status) modelName a v)) ?req
      = Inl (errs a)"
    using here(1) Suc.prems(2) by (simp add: requests_before_call)
  from send_error [OF this]
  have s: "send remote ?req (before_call (Some record_status) modelName a v) = (Inl (errs a), ?v1)"
    by (simp add: model recorded_attempt requests_before_call)
  have step: "attempts_from remote mimeType cleanData prompt imageConfig (Some record_status)
      modelName a lastError v
    = attempts_from remote mimeType cleanData prompt imageConfig (Some record_status)
      modelName (a + 1) (Some (errs a)) ?v1"
    using attempt_transient [OF _ s here(2,3), of lastError] lt assms(1) by simp
  have d: "d = k - (a + 1)" using Suc.hyps(2) by simp
  have r: "requests ?v1 = n + (a + 1)" using Suc.prems(2) by simp
  have rest: "\<forall>j. a + 1 \<le> j \<and> j < k \<longrightarrow>
           generateContent remote (n + j) ?req = Inl (errs j)
           \<and> is_transient (toLowerCase (message (errs j)))
           \<and> \<not> is_critical (toLowerCase (message (errs j)))"
    using Suc.prems(3) by simp
  have le: "a + 1 \<le> k" using lt by simp
  have range: "[a..<Suc k] = a # [a + 1..<Suc k]"
    using lt by (simp add: upt_conv_Cons)
  show ?case
    unfolding step Suc.hyps(1) [OF d le r rest] range
    by simp
qed

lemma transient_failures_then_image:
  assumes "getClient (store w) = Inr ai" and "k \<le> length retryDelays"
    and "\<forall>j < k. generateContent remote (requests w + j)
             (gen_request (modelsToTry ! 0) mimeType cleanData prompt imageConfig) = Inl (errs j)
           \<and> is_transient (toLowerCase (message (errs j)))
           \<and> \<not> is_critical (toLowerCase (message (errs j)))"
    and "generateContent remote (requests w + k)
           (gen_request (modelsToTry ! 0) mimeType cleanData prompt imageConfig) = Inr response"
    and "image_of_response response = Inr url"
  shows "generateImage remote mimeType cleanData prompt imageConfig (Some record_status) w
         = (Inr url,
            w\<lparr>requests := requests w + k + 1,
              events := events w @ concat (map (attempt_events (modelsToTry ! 0)) [0..<Suc k])\<rparr>)"
proof -
  have "attempts_from remote mimeType cleanData prompt imageConfig (Some record_status)
          (modelsToTry ! 0) 0 None w
      = (Returned url,
         w\<lparr>requests := requests w + k + 1,
           events := events w @ concat (map (attempt_events (modelsToTry ! 0)) [0..<Suc k])\<rparr>)"
    using attempts_from_transient_run [OF assms(2) _ _ _ assms(4,5), of 0 w errs None] assms(3)
    by simp
  moreover have "modelsToTry = modelsToTry ! 0 # tl modelsToTry"
    by (simp add: modelsToTry_def)
  ultimately have "models_from remote mimeType cleanData prompt imageConfig (Some record_status)
      modelsToTry None w
      = (Inr url,
         w\<lparr>requests := requests w + k + 1,
           events := events w @ concat (map (attempt_events (modelsToTry ! 0)) [0..<Suc k])\<rparr>)"
    by (metis (no_types, lifting) models_from.simps(2) attempt_result.simps(10) case_prod_conv)
  then show ?thesis
    using assms(1) by (simp add: generateImage_def)
qed

lemma first_three_attempts:
  "concat (map (attempt_events (modelsToTry ! 0)) [0..<Suc 2])
     = [StatusUpdate (Starting (str ''Pro'')), GeminiRequest (modelsToTry ! 0),
        StatusUpdate (Waiting 5 1 5), Sleep 5000, GeminiRequest (modelsToTry ! 0),
        StatusUpdate (Waiting 10 2 5), Sleep 10000, GeminiRequest (modelsToTry ! 0)]"
proof -
  have "[0..<Suc 2] = [0, 1, 2]"
    by (simp add: upt_conv_Cons numeral_2_eq_2)
  then show ?thesis
    using primary_is_pro by (simp add: attempt_events_def retryDelays_def)
qed

lemma sample_key: "getClient (store (sample_world its)) = Inr (str ''AIzaSyExampleExampleExampleExample'')"
  by (simp add: sample_world_def sample_store_def getClient_def str_def trim_def is_white_space_def)

lemma quota_error_class:
  "is_transient (toLowerCase (message quota_error))" "\<not> is_critical (toLowerCase (message quota_error))"
  by (simp_all add: quota_error_def is_transient_def is_critical_def toLowerCase_def lower_unit_def str_def)

lemma unauthorized_error_class:
  "js_includes (toLowerCase (message unauthorized_error)) (str ''auth'')"
  by (simp add: unauthorized_error_def toLowerCase_def lower_unit_def str_def)

lemma image_response_url: "image_of_response image_response = Inr (str ''data:image/png;base64,QUJD'')"
  by (simp add: image_response_def image_of_response_def or_default_def str_def)

text \<open>
  Claim C1, as the code has it. When the first two requests fail with an error of the
  retried class (quota, overload, server error) and the third returns an image,
  \<open>generateImage\<close> returns that image after three requests to the first model. The
  progress callback is invoked three times: with the start message before the first
  request, and with a countdown message before each retry, for 5 and then 10 seconds, as
  attempt 1 and 2 of 5; each countdown message is followed by the wait of that length
  (5000 and 10000 ms) and then by the request.
\<close>

theorem generateImage_quota_twice:
  assumes "getClient (store w) = Inr ai"
    and "generateContent remote (requests w)
           (gen_request (modelsToTry ! 0) mimeType cleanData prompt imageConfig) = Inl err1"
    and "generateContent remote (requests w + 1)
           (gen_request (modelsToTry ! 0) mimeType cleanData prompt imageConfig) = Inl err2"
    and "generateContent remote (requests w + 2)
           (gen_request (modelsToTry ! 0) mimeType cleanData prompt imageConfig) = Inr response"
    and "image_of_response response = Inr url"
    and "is_transient (toLowerCase (message err1))" "\<not> is_critical (toLowerCase (message err1))"
    and "is_transient (toLowerCase (message err2))" "\<not> is_critical (toLowerCase (message err2))"
  shows "generateImage remote mimeType cleanData prompt imageConfig (Some record_status) w =
           (Inr url,
            w\<lparr>requests := requests w + 3,
              events := events w @
                [StatusUpdate (Starting (str ''Pro'')), GeminiRequest (modelsToTry ! 0),
                 StatusUpdate (Waiting 5 1 5), Sleep 5000, GeminiRequest (modelsToTry ! 0),
                 StatusUpdate (Waiting 10 2 5), Sleep 10000, GeminiRequest (modelsToTry ! 0)]\<rparr>)"
proof -
  let ?req = "gen_request (modelsToTry ! 0) mimeType cleanData prompt imageConfig"
  let ?errs = "\<lambda>j :: nat. if j = 0 then err1 else err2"
  have fails: "\<forall>j < 2. generateContent remote (requests w + j) ?req = Inl (?errs j)
           \<and> is_transient (toLowerCase (message (?errs j)))
           \<and> \<not> is_critical (toLowerCase (message (?errs j)))"
  proof (intro allI impI)
    fix j :: nat assume "j < 2"
    then consider "j = 0" | "j = 1" by linarith
    then show "generateContent remote (requests w + j) ?req = Inl (?errs j)
           \<and> is_transient (toLowerCase (message (?errs j)))
           \<and> \<not> is_critical (toLowerCase (message (?errs j)))"
      using assms by cases simp_all
  qed
  have two: "(2 :: nat) \<le> length retryDelays" by (simp add: retryDelays_def)
  from transient_failures_then_image [OF assms(1) two fails assms(4,5)]
  show ?thesis
    by (simp only: first_three_attempts) simp
qed

theorem generateImage_quota_twice_witness:
  "getClient (store (sample_world [])) = Inr (str ''AIzaSyExampleExampleExampleExample'')
   \<and> generateContent quota_twice 0
        (gen_request (modelsToTry ! 0) (str ''image/jpeg'') (str ''QUJD'') (str ''prompt'') no_config)
       = Inl quota_error
   \<and> generateContent quota_twice 2
        (gen_request (modelsToTry ! 0) (str ''image/jpeg'') (str ''QUJD'') (str ''prompt'') no_config)
       = Inr image_response
   \<and> is_transient (toLowerCase (message quota_error))
   \<and> \<not> is_critical (toLowerCase (message quota_error))
   \<and> generateImage quota_twice (str ''image/jpeg'') (str ''QUJD'') (str ''prompt'') no_config
         (Some record_status) (sample_world [])
       = (Inr (str ''data:image/png;base64,QUJD''),
          (sample_world [])\<lparr>requests := 3,
             events :=
               [StatusUpdate (Starting (str ''Pro'')), GeminiRequest (modelsToTry ! 0),
                StatusUpdate (Waiting 5 1 5), Sleep 5000, GeminiRequest (modelsToTry ! 0),
                StatusUpdate (Waiting 10 2 5), Sleep 10000, GeminiRequest (modelsToTry ! 0)]\<rparr>)"
proof -
  let ?req = "gen_request (modelsToTry ! 0) (str ''image/jpeg'') (str ''QUJD'') (str ''prompt'') no_config"
  have r: "requests (sample_world []) = 0" "events (sample_world []) = []"
    by (simp_all add: sample_world_def)
  have g0: "generateContent quota_twice (requests (sample_world [])) ?req = Inl quota_error"
   and g1: "generateContent quota_twice (requests (sample_world []) + 1) ?req = Inl quota_error"
   and g2: "generateContent quota_twice (requests (sample_world []) + 2) ?req = Inr image_response"
    by (simp_all add: quota_twice_def r)
  have c0: "generateContent quota_twice 0 ?req = Inl quota_error"
   and c2: "generateContent quota_twice 2 ?req = Inr image_response"
    by (simp_all add: quota_twice_def)
  have run: "generateImage quota_twice (str ''image/jpeg'') (str ''QUJD'') (str ''prompt'') no_config
         (Some record_status) (sample_world [])
       = (Inr (str ''data:image/png;base64,QUJD''),
          (sample_world [])\<lparr>requests := 3,
             events :=
               [StatusUpdate (Starting (str ''Pro'')), GeminiRequest (modelsToTry ! 0),
                StatusUpdate (Waiting 5 1 5), Sleep 5000, GeminiRequest (modelsToTry ! 0),
                StatusUpdate (Waiting 10 2 5), Sleep 10000, GeminiRequest (modelsToTry ! 0)]\<rparr>)"
    using generateImage_quota_twice
            [OF sample_key g0 g1 g2 image_response_url quota_error_class quota_error_class]
    by (simp add: r)
  show ?thesis
    using sample_key c0 c2 quota_error_class run by blast
qed

text \<open>
  The claim as it was stated has the callback invoked exactly twice; on the scripted
  remote side that fails twice with a quota error it is invoked three times.
\<close>

theorem generateImage_callback_count_counterexample:
  "fst (generateImage quota_twice (str ''image/jpeg'') (str ''QUJD'') (str ''prompt'') no_config
          (Some record_status) (sample_world [])) = Inr (str ''data:image/png;base64,QUJD'')
   \<and> status_updates (events (snd (generateImage quota_twice (str ''image/jpeg'') (str ''QUJD'')
        (str ''prompt'') no_config (Some record_status) (sample_world []))))
       = [Starting (str ''Pro''), Waiting 5 1 5, Waiting 10 2 5]
   \<and> length (status_updates (events (snd (generateImage quota_twice (str ''image/jpeg'')
        (str ''QUJD'') (str ''prompt'') no_config (Some record_status) (sample_world [])))))
       \<noteq> 2"
proof -
  let ?req = "gen_request (modelsToTry ! 0) (str ''image/jpeg'') (str ''QUJD'') (str ''prompt'') no_config"
  have r: "requests (sample_world []) = 0" "events (sample_world []) = []"
    by (simp_all add: sample_world_def)
  have g0: "generateContent quota_twice (requests (sample_world [])) ?req = Inl quota_error"
   and g1: "generateContent quota_twice (requests (sample_world []) + 1) ?req = Inl quota_error"
   and g2: "generateContent quota_twice (requests (sample_world []) + 2) ?req = Inr image_response"
    by (simp_all add: quota_twice_def r)
  have fails: "\<forall>j < 2. generateContent quota_twice (requests (sample_world []) + j) ?req
                 = Inl ((\<lambda>j. quota_error) j)
           \<and> is_transient (toLowerCase (message ((\<lambda>j. quota_error) j)))
           \<and> \<not> is_critical (toLowerCase (message ((\<lambda>j. quota_error) j)))"
    using quota_error_class by (simp add: quota_twice_def r)
  have two: "(2 :: nat) \<le> length retryDelays" by (simp add: retryDelays_def)
  from transient_failures_then_image [OF sample_key two fails g2 image_response_url]
  show ?thesis
    by (simp only: first_three_attempts) (simp add: r)
qed

lemma critical_at_first_request:
  assumes key: "getClient (store w) = Inr ai"
    and first: "generateContent remote (requests (before_call onStatusUpdate (modelsToTry ! 0) 0 w))
                  (gen_request (modelsToTry ! 0) mimeType cleanData prompt imageConfig) = Inl err"
    and critical: "is_critical (toLowerCase (message err))"
  shows "generateImage remote mimeType cleanData prompt imageConfig onStatusUpdate w =
           (Inl err,
            emit (GeminiRequest (modelsToTry ! 0))
              ((before_call onStatusUpdate (modelsToTry ! 0) 0 w)
                 \<lparr>requests := Suc (requests (before_call onStatusUpdate (modelsToTry ! 0) 0 w))\<rparr>))"
proof -
  let ?m = "modelsToTry ! 0"
  let ?req = "gen_request ?m mimeType cleanData prompt imageConfig"
  have model: "req_model ?req = ?m" by (simp add: gen_request_def)
  have "attempts_from remote mimeType cleanData prompt imageConfig onStatusUpdate ?m 0 None w
      = (Thrown err, emit (GeminiRequest ?m)
              ((before_call onStatusUpdate ?m 0 w)
                 \<lparr>requests := Suc (requests (before_call onStatusUpdate ?m 0 w))\<rparr>))"
    using attempt_critical [OF _ send_error [OF first] critical, of None] model by simp
  moreover have "modelsToTry = ?m # tl modelsToTry" by (simp add: modelsToTry_def)
  ultimately show ?thesis
    using key by (simp add: generateImage_def modelsToTry_def)
qed

text \<open>
  Claim C2, as the code has it. When the first request fails with an authorization error
  (its message, in lower case, contains \<open>auth\<close>, \<open>key\<close> or \<open>permission\<close>),
  \<open>generateImage\<close> throws that error after this one request to the first model: there
  is no wait, no second request and no other model. A progress callback has by then been
  invoked exactly once, with the start message that precedes the first request, and never
  with a countdown message; without a callback nothing but the request happens.
\<close>

theorem generateImage_authorization_error:
  assumes "getClient (store w) = Inr ai"
    and "generateContent remote (requests w)
           (gen_request (modelsToTry ! 0) mimeType cleanData prompt imageConfig) = Inl err"
    and "js_includes (toLowerCase (message err)) (str ''auth'')
         \<or> js_includes (toLowerCase (message err)) (str ''key'')
         \<or> js_includes (toLowerCase (message err)) (str ''permission'')"
  shows "generateImage remote mimeType cleanData prompt imageConfig (Some record_status) w =
           (Inl err,
            w\<lparr>requests := requests w + 1,
              events := events w @
                [StatusUpdate (Starting (str ''Pro'')), GeminiRequest (modelsToTry ! 0)]\<rparr>)
       \<and> generateImage remote mimeType cleanData prompt imageConfig None w =
           (Inl err,
            w\<lparr>requests := requests w + 1,
              events := events w @ [GeminiRequest (modelsToTry ! 0)]\<rparr>)"
proof -
  have critical: "is_critical (toLowerCase (message err))"
    using assms(3) by (auto simp: is_critical_def)
  have with_cb: "requests (before_call (Some record_status) (modelsToTry ! 0) 0 w) = requests w"
    by (simp add: before_first_call emit_def)
  have without_cb: "before_call None (modelsToTry ! 0) 0 w = w"
    by (simp add: before_first_call_silent)
  show ?thesis
    using critical_at_first_request [OF assms(1) _ critical, of remote "Some record_status"
            mimeType cleanData prompt imageConfig]
          critical_at_first_request [OF assms(1) _ critical, of remote None
            mimeType cleanData prompt imageConfig]
          assms(2)
    by (simp add: with_cb without_cb before_first_call emit_def)
qed

theorem generateImage_authorization_error_witness:
  "getClient (store (sample_world [])) = Inr (str ''AIzaSyExampleExampleExampleExample'')
   \<and> generateContent unauthorized 0
        (gen_request (modelsToTry ! 0) (str ''image/jpeg'') (str ''QUJD'') (str ''prompt'') no_config)
       = Inl unauthorized_error
   \<and> js_includes (toLowerCase (message unauthorized_error)) (str ''auth'')
   \<and> generateImage unauthorized (str ''image/jpeg'') (str ''QUJD'') (str ''prompt'') no_config
         (Some record_status) (sample_world [])
       = (Inl unauthorized_error,
          (sample_world [])\<lparr>requests := 1,
             events := [StatusUpdate (Starting (str ''Pro'')), GeminiRequest (modelsToTry ! 0)]\<rparr>)
   \<and> generateImage unauthorized (str ''image/jpeg'') (str ''QUJD'') (str ''prompt'') no_config
         None (sample_world [])
       = (Inl unauthorized_error,
          (sample_world [])\<lparr>requests := 1, events := [GeminiRequest (modelsToTry ! 0)]\<rparr>)"
proof -
  let ?req = "gen_request (modelsToTry ! 0) (str ''image/jpeg'') (str ''QUJD'') (str ''prompt'') no_config"
  have r: "requests (sample_world []) = 0" "events (sample_world []) = []"
    by (simp_all add: sample_world_def)
  have g0: "generateContent unauthorized (requests (sample_world [])) ?req = Inl unauthorized_error"
    by (simp add: unauthorized_def)
  have c0: "generateContent unauthorized 0 ?req = Inl unauthorized_error"
    by (simp add: unauthorized_def)
  have run: "generateImage unauthorized (str ''image/jpeg'') (str ''QUJD'') (str ''prompt'') no_config
         (Some record_status) (sample_world [])
       = (Inl unauthorized_error,
          (sample_world [])\<lparr>requests := 1,
             events := [StatusUpdate (Starting (str ''Pro'')), GeminiRequest (modelsToTry ! 0)]\<rparr>)
   \<and> generateImage unauthorized (str ''image/jpeg'') (str ''QUJD'') (str ''prompt'') no_config
         None (sample_world [])
       = (Inl unauthorized_error,
          (sample_world [])\<lparr>requests := 1, events := [GeminiRequest (modelsToTry ! 0)]\<rparr>)"
    using generateImage_authorization_error
            [OF sample_key g0 disjI1 [OF unauthorized_error_class]]
    by (simp add: r)
  show ?thesis
    using sample_key c0 unauthorized_error_class run by blast
qed

text \<open>
  The claim as it was stated has the callback never invoked; on a remote side that
  rejects the key it is invoked once before the failing request.
\<close>

theorem generateImage_no_callback_counterexample:
  "fst (generateImage unauthorized (str ''image/jpeg'') (str ''QUJD'') (str ''prompt'') no_config
          (Some record_status) (sample_world [])) = Inl unauthorized_error
   \<and> status_updates (events (snd (generateImage unauthorized (str ''image/jpeg'') (str ''QUJD'')
        (str ''prompt'') no_config (Some record_status) (sample_world []))))
       = [Starting (str ''Pro'')]
   \<and> length (status_updates (events (snd (generateImage unauthorized (str ''image/jpeg'')
        (str ''QUJD'') (str ''prompt'') no_config (Some record_status) (sample_world [])))))
       \<noteq> 0"
proof -
  have r: "requests (sample_world []) = 0" "events (sample_world []) = []"
    by (simp_all add: sample_world_def)
  have critical: "is_critical (toLowerCase (message unauthorized_error))"
    using unauthorized_error_class by (simp add: is_critical_def)
  have g0: "generateContent unauthorized
      (requests (before_call (Some record_status) (modelsToTry ! 0) 0 (sample_world [])))
      (gen_request (modelsToTry ! 0) (str ''image/jpeg'') (str ''QUJD'') (str ''prompt'') no_config)
      = Inl unauthorized_error"
    by (simp add: unauthorized_def)
  show ?thesis
    using critical_at_first_request [OF sample_key g0 critical]
    by (simp add: r before_first_call emit_def)
qed

section \<open>optimizeImageForAPI: the size of the output\<close>

lemma round_to_even_error: "\<bar>of_int (round_to_even y) - y\<bar> \<le> 1 / 2"
proof -
  have "of_int \<lfloor>y\<rfloor> \<le> y" "y < of_int \<lfloor>y\<rfloor> + 1" by linarith+
  then show ?thesis
    by (auto simp: round_to_even_def Let_def)
qed

lemma pow2_powr: "pow2 e = 2 powr (of_int e)"
proof (cases "0 \<le> e")
  case True
  then have "(2 :: real) powr (of_int e) = 2 powr (of_nat (nat e))" by simp
  also have "\<dots> = 2 ^ nat e" by (rule powr_realpow) simp
  finally show ?thesis using True by (simp add: pow2_def)
next
  case False
  then have "(2 :: real) powr (of_int e) = 2 powr (- of_nat (nat (- e)))" by simp
  also have "\<dots> = 1 / 2 powr (of_nat (nat (- e)))" by (rule powr_minus_divide)
  also have "\<dots> = 1 / 2 ^ nat (- e)" by (simp add: powr_realpow)
  finally show ?thesis using False by (simp add: pow2_def)
qed

lemma pow2_pos: "0 < pow2 e"
  by (simp add: pow2_powr)

lemma pow2_less: "pow2 a < pow2 b \<longleftrightarrow> a < b"
  by (simp add: pow2_powr)

lemma pow2_add: "pow2 (a + b) = pow2 a * pow2 b"
  by (simp add: pow2_powr powr_add)

lemma binade_from_lower:
  "e - int n = - 1022 \<Longrightarrow> min_normal \<le> x \<Longrightarrow> pow2 (binade_from n e x) \<le> x"
proof (induction n arbitrary: e)
  case 0
  then show ?case by (simp add: pow2_def min_normal_def)
next
  case (Suc n)
  then show ?case by simp
qed

lemma binade_from_found:
  "pow2 k \<le> x \<Longrightarrow> x < pow2 (k + 1) \<Longrightarrow> k \<le> e \<Longrightarrow> e - int n \<le> k \<Longrightarrow> binade_from n e x = k"
proof (induction n arbitrary: e)
  case 0
  then show ?case by simp
next
  case (Suc n)
  show ?case
  proof (cases "pow2 e \<le> x")
    case True
    then have "pow2 e < pow2 (k + 1)" using Suc.prems(2) by simp
    then have "e \<le> k" by (simp add: pow2_less)
    then show ?thesis using True Suc.prems(3) by simp
  next
    case False
    then have "e \<noteq> k" using Suc.prems(1) by auto
    then have "k \<le> e - 1" using Suc.prems(3) by simp
    moreover have "e - 1 - int n \<le> k" using Suc.prems(4) by simp
    ultimately have "binade_from n (e - 1) x = k"
      using Suc.prems(1,2) by (intro Suc.IH)
    then show ?thesis using False by simp
  qed
qed

lemma binary64_error:
  assumes "min_normal \<le> \<bar>x\<bar>"
  shows "\<bar>binary64 x - x\<bar> \<le> \<bar>x\<bar> * unit_roundoff"
proof -
  let ?e = "binade x"
  let ?ulp = "pow2 (?e - 52)"
  have ulp: "0 < ?ulp" by (rule pow2_pos)
  have low: "pow2 ?e \<le> \<bar>x\<bar>"
    unfolding binade_def using assms by (intro binade_from_lower) simp_all
  have "\<bar>binary64 x - x\<bar> = \<bar>?ulp * (of_int (round_to_even (x / ?ulp)) - x / ?ulp)\<bar>"
    using ulp by (simp add: binary64_def Let_def algebra_simps)
  also have "\<dots> = ?ulp * \<bar>of_int (round_to_even (x / ?ulp)) - x / ?ulp\<bar>"
    using ulp by (simp add: abs_mult)
  also have "\<dots> \<le> ?ulp * (1 / 2)"
    using ulp round_to_even_error by (intro mult_left_mono) auto
  also have "\<dots> = pow2 ?e * unit_roundoff"
  proof -
    have "?ulp = pow2 ?e * pow2 (- 52)"
      using pow2_add [of ?e "- 52"] by simp
    then show ?thesis by (simp add: unit_roundoff_def pow2_def)
  qed
  also have "\<dots> \<le> \<bar>x\<bar> * unit_roundoff"
    using low by (intro mult_right_mono) (auto simp: unit_roundoff_def)
  finally show ?thesis .
qed

text \<open>The rounding of binary64 is correct in the sense above.\<close>

lemma binary64_rounds_correctly: "rounds_correctly binary64"
  by (simp add: rounds_correctly_def binary64_error) (simp add: binary64_def round_to_even_def)

text \<open>The double of a number, given the power of two at or below it.\<close>

lemma binary64_in_binade:
  assumes "pow2 k \<le> x" "x < pow2 (k + 1)" "- 1022 \<le> k" "k \<le> 1023"
  shows "binary64 x = pow2 (k - 52) * of_int (round_to_even (x / pow2 (k - 52)))"
proof -
  have "0 < x" using pow2_pos assms(1) by (rule less_le_trans)
  then have "\<bar>x\<bar> = x" by simp
  then have "binade x = k"
    unfolding binade_def using assms by (simp add: binade_from_found)
  then show ?thesis
    by (simp add: binary64_def Let_def)
qed

lemma rounded_bounds:
  assumes "rounds_correctly f" and "x = 0 \<or> (min_normal \<le> x \<and> x \<le> max_double)"
  shows "x * (1 - unit_roundoff) \<le> f x" and "f x \<le> x * (1 + unit_roundoff)"
proof -
  have "x * (1 - unit_roundoff) \<le> f x \<and> f x \<le> x * (1 + unit_roundoff)"
  proof (cases "x = 0")
    case True
    then show ?thesis using assms(1) by (simp add: rounds_correctly_def)
  next
    case False
    then have range: "min_normal \<le> x" "x \<le> max_double" using assms(2) by auto
    then have pos: "0 < x" by (simp add: min_normal_def)
    have "min_normal \<le> \<bar>x\<bar> \<and> \<bar>x\<bar> \<le> max_double" using range pos by simp
    then have "\<bar>f x - x\<bar> \<le> \<bar>x\<bar> * unit_roundoff"
      using assms(1) unfolding rounds_correctly_def by blast
    then have "\<bar>f x - x\<bar> \<le> x * unit_roundoff" using pos by simp
    then show ?thesis by (simp add: algebra_simps) linarith
  qed
  then show "x * (1 - unit_roundoff) \<le> f x" and "f x \<le> x * (1 + unit_roundoff)"
    by simp_all
qed

lemma scaled_edge_bounds:
  fixes a b m :: nat
  assumes f: "rounds_correctly f" and ab: "a \<le> b" and b: "0 < b" "b < 2 ^ 32"
    and m: "m \<le> 2 ^ 32"
  shows "0 \<le> js_round (f (real a * f (real m / real b)))"
    and "js_round (f (real a * f (real m / real b))) \<le> int m"
proof -
  let ?u = unit_roundoff
  let ?q = "f (real m / real b)"
  let ?p = "f (real a * ?q)"
  have u: "0 \<le> ?u" "?u \<le> 1 / 2" by (simp_all add: unit_roundoff_def)
  have m': "real m \<le> 2 ^ 32" using m by (metis of_nat_le_iff of_nat_numeral of_nat_power)
  have "b \<le> 2 ^ 32" using b by simp
  then have b': "real b \<le> 2 ^ 32"
    by (metis of_nat_le_iff of_nat_numeral of_nat_power)
  have b1: "1 \<le> real b" using b by simp
  have qr: "real m / real b = 0 \<or> (min_normal \<le> real m / real b \<and> real m / real b \<le> max_double)"
  proof (cases "m = 0")
    case True
    then show ?thesis by simp
  next
    case False
    then have "1 \<le> real m" by simp
    then have "1 / real b \<le> real m / real b"
      using b by (intro divide_right_mono) auto
    moreover have "1 / 2 ^ 32 \<le> 1 / real b"
      using b' b by (intro divide_left_mono) auto
    moreover have "real m / real b \<le> real m"
      using b1 by (simp add: divide_le_eq mult_le_cancel_left1)
    moreover have "min_normal \<le> 1 / 2 ^ 32"
      by (simp add: min_normal_def)
    moreover have "(2 :: real) ^ 32 \<le> max_double"
      by (simp add: max_double_def)
    ultimately show ?thesis
      using m' by linarith
  qed
  have q0: "real m / real b * (1 - ?u) \<le> ?q" and q1: "?q \<le> real m / real b * (1 + ?u)"
    using rounded_bounds [OF f qr] by auto
  have qn: "0 \<le> ?q"
  proof -
    have "0 \<le> real m / real b * (1 - ?u)" using u by simp
    then show ?thesis using q0 by linarith
  qed
  have "real a * ?q \<le> real a * (real m / real b * (1 + ?u))"
    using q1 by (intro mult_left_mono) auto
  also have "\<dots> = (real a / real b) * (real m * (1 + ?u))"
    by simp
  also have "\<dots> \<le> 1 * (real m * (1 + ?u))"
    using ab b u by (intro mult_right_mono) (auto simp: divide_le_eq)
  finally have t1: "real a * ?q \<le> real m * (1 + ?u)" by simp
  have pr: "real a * ?q = 0 \<or> (min_normal \<le> real a * ?q \<and> real a * ?q \<le> max_double)"
  proof (cases "a = 0 \<or> m = 0")
    case True
    then show ?thesis using f by (auto simp: rounds_correctly_def)
  next
    case False
    then have a1: "1 \<le> real a" and m1: "1 \<le> real m" by simp_all
    have "1 / 2 ^ 32 \<le> 1 / real b"
      using b' b by (intro divide_left_mono) auto
    also have "\<dots> \<le> real m / real b"
      using m1 b by (intro divide_right_mono) auto
    finally have "1 / 2 ^ 32 * (1 - ?u) \<le> real m / real b * (1 - ?u)"
      using u by (intro mult_right_mono) auto
    then have "1 / 2 ^ 32 * (1 - ?u) \<le> ?q" using q0 by linarith
    moreover have "1 * ?q \<le> real a * ?q"
      using a1 qn by (intro mult_right_mono) auto
    ultimately have lo: "1 / 2 ^ 32 * (1 - ?u) \<le> real a * ?q" by simp
    have "min_normal \<le> 1 / 2 ^ 32 * (1 - ?u)"
      by (simp add: min_normal_def unit_roundoff_def)
    moreover have "real m * (1 + ?u) \<le> 2 ^ 32 * (1 + ?u)"
      using m' u by (intro mult_right_mono) auto
    moreover have "2 ^ 32 * (1 + ?u) \<le> max_double"
      by (simp add: max_double_def unit_roundoff_def)
    ultimately show ?thesis using lo t1 by linarith
  qed
  have p0: "real a * ?q * (1 - ?u) \<le> ?p" and p1: "?p \<le> real a * ?q * (1 + ?u)"
    using rounded_bounds [OF f pr] by auto
  have pn: "0 \<le> ?p"
  proof -
    have "0 \<le> real a * ?q * (1 - ?u)" using u qn by simp
    then show ?thesis using p0 by linarith
  qed
  have "?p \<le> real a * ?q * (1 + ?u)" by (rule p1)
  also have "\<dots> \<le> real m * (1 + ?u) * (1 + ?u)"
    using t1 u by (intro mult_right_mono) auto
  also have "\<dots> = real m + real m * (2 * ?u + ?u * ?u)"
    by (simp add: algebra_simps)
  also have "\<dots> \<le> real m + 2 ^ 32 * (2 * ?u + ?u * ?u)"
  proof -
    have "0 \<le> 2 * ?u + ?u * ?u" using u by simp
    then have "real m * (2 * ?u + ?u * ?u) \<le> 2 ^ 32 * (2 * ?u + ?u * ?u)"
      using m' by (intro mult_right_mono) auto
    then show ?thesis by simp
  qed
  also have "\<dots> < real m + 1 / 2"
    by (simp add: unit_roundoff_def)
  finally have "?p + 1 / 2 < real_of_int (int m + 1)" by simp
  then have "\<lfloor>?p + 1 / 2\<rfloor> < int m + 1"
    by (simp only: floor_less_iff)
  then show "js_round ?p \<le> int m" by (simp add: js_round_def)
  have "0 \<le> ?p + 1 / 2" using pn by simp
  then show "0 \<le> js_round ?p" by (simp add: js_round_def)
qed

text \<open>
  The size of the canvas: no side exceeds the maximum dimension, and the longer side is
  the longer side of the image or, when that is larger, the maximum dimension.
\<close>

lemma optimized_size_bounds:
  assumes f: "rounds_correctly (fl br)" and m: "maxDimension \<le> 2 ^ 32"
    and sides: "img_width img < 2 ^ 32" "img_height img < 2 ^ 32"
    and size: "optimized_size br img maxDimension = (width, height)"
  shows "0 \<le> width \<and> width \<le> int maxDimension \<and> 0 \<le> height \<and> height \<le> int maxDimension
         \<and> max width height = int (min (max (img_width img) (img_height img)) maxDimension)"
proof -
  let ?w = "img_width img" and ?h = "img_height img"
  consider (small) "\<not> (?w > maxDimension \<or> ?h > maxDimension)"
    | (wide) "?w > maxDimension \<or> ?h > maxDimension" "?w > ?h"
    | (tall) "?w > maxDimension \<or> ?h > maxDimension" "\<not> ?w > ?h"
    by blast
  then show ?thesis
  proof cases
    case small
    then have "width = int ?w" "height = int ?h"
      using size by (simp_all add: optimized_size_def Let_def)
    then show ?thesis using small by auto
  next
    case wide
    then have le: "?h \<le> ?w" "0 < ?w" by auto
    have "width = int maxDimension"
      and "height = js_round (fl br (real ?h * fl br (real maxDimension / real ?w)))"
      using size wide by (simp_all add: optimized_size_def Let_def)
    moreover have "maxDimension < ?w" using wide by auto
    ultimately show ?thesis
      using scaled_edge_bounds [OF f le sides(1) m] by auto
  next
    case tall
    then have le: "?w \<le> ?h" "0 < ?h" by auto
    have "height = int maxDimension"
      and "width = js_round (fl br (real ?w * fl br (real maxDimension / real ?h)))"
      using size tall by (simp_all add: optimized_size_def Let_def)
    moreover have "maxDimension < ?h" using tall by auto
    ultimately show ?thesis
      using scaled_edge_bounds [OF f le sides(2) m] by auto
  qed
qed

text \<open>
  Claim C5, as the code has it. Let the input decode to an image whose sides are below
  \<open>2\<^sup>3\<^sup>2\<close>, the range of the width and height of an image element, let the maximum
  dimension be below \<open>2\<^sup>3\<^sup>1\<close>, the range of the sides of a canvas, and let \<open>width\<close> and
  \<open>height\<close> be the size that the handler computes for the canvas under double arithmetic.
  Then neither side of the canvas exceeds the maximum dimension, and its longer side is
  the longer side of the image or, when that is larger, the maximum dimension. When the
  canvas yields a 2D context the output is the JPEG export, at quality 0.8, of this canvas
  with the image drawn over it, without the prefix of the data URL; when it yields none,
  the output is the input string as it was given, whatever the size of the image. The
  code consults nothing but the decoder, the context and the encoder: on another
  occasion, on which the browser decodes the input to the same image, yields or refuses
  the context alike and encodes this canvas to the same bytes, the same input and maximum
  dimension give the same output.
\<close>

theorem optimizeImageForAPI_bounded:
  assumes "rounds_correctly (fl br)" and "maxDimension < 2 ^ 31"
    and "loadImage br (image_source base64Str) = Some img"
    and "img_width img < 2 ^ 32" and "img_height img < 2 ^ 32"
    and "optimized_size br img maxDimension = (width, height)"
  shows "0 \<le> width \<and> width \<le> int maxDimension \<and> 0 \<le> height \<and> height \<le> int maxDimension
    \<and> max width height = int (min (max (img_width img) (img_height img)) maxDimension)
    \<and> optimizeImageForAPI br base64Str maxDimension =
        (if getContext2d br width height
         then \<lparr>out_data =
                 strip_image_prefix
                   (toDataURL br
                      \<lparr>canvas_width = width, canvas_height = height,
                       drawn = [DrawImage img 0 0 (real_of_int width) (real_of_int height)]\<rparr>
                      (str ''image/jpeg'') 0.8),
               out_size = Some (width, height)\<rparr>
         else \<lparr>out_data = base64Str,
               out_size = Some (int (img_width img), int (img_height img))\<rparr>)
    \<and> (\<forall>other.
          fl other = fl br
          \<and> loadImage other (image_source base64Str) = Some img
          \<and> getContext2d other width height = getContext2d br width height
          \<and> toDataURL other
               \<lparr>canvas_width = width, canvas_height = height,
                drawn = [DrawImage img 0 0 (real_of_int width) (real_of_int height)]\<rparr>
               (str ''image/jpeg'') 0.8
             = toDataURL br
                 \<lparr>canvas_width = width, canvas_height = height,
                  drawn = [DrawImage img 0 0 (real_of_int width) (real_of_int height)]\<rparr>
                 (str ''image/jpeg'') 0.8
          \<longrightarrow> optimizeImageForAPI other base64Str maxDimension
                = optimizeImageForAPI br base64Str maxDimension)"
proof -
  let ?canvas = "\<lparr>canvas_width = width, canvas_height = height,
                   drawn = [DrawImage img 0 0 (real_of_int width) (real_of_int height)]\<rparr>"
  have bounds: "0 \<le> width \<and> width \<le> int maxDimension \<and> 0 \<le> height \<and> height \<le> int maxDimension
      \<and> max width height = int (min (max (img_width img) (img_height img)) maxDimension)"
  proof -
    have "maxDimension \<le> 2 ^ 32" using assms(2) by simp
    from optimized_size_bounds [OF assms(1) this assms(4,5,6)] show ?thesis .
  qed
  have run: "optimizeImageForAPI b base64Str maxDimension =
        (if getContext2d b width height
         then \<lparr>out_data = strip_image_prefix (toDataURL b ?canvas (str ''image/jpeg'') 0.8),
               out_size = Some (width, height)\<rparr>
         else \<lparr>out_data = base64Str,
               out_size = Some (int (img_width img), int (img_height img))\<rparr>)"
    if "loadImage b (image_source base64Str) = Some img"
      and "optimized_size b img maxDimension = (width, height)" for b
    using that by (simp add: optimizeImageForAPI_def)
  have same_size: "optimized_size other img maxDimension = (width, height)"
    if "fl other = fl br" for other
    using assms(6) unfolding optimized_size_def that .
  have "optimizeImageForAPI other base64Str maxDimension
          = optimizeImageForAPI br base64Str maxDimension"
    if "fl other = fl br" "loadImage other (image_source base64Str) = Some img"
      "getContext2d other width height = getContext2d br width height"
      "toDataURL other ?canvas (str ''image/jpeg'') 0.8 = toDataURL br ?canvas (str ''image/jpeg'') 0.8"
    for other
    using that run [OF that(2) same_size [OF that(1)]] run [OF assms(3,6)] by simp
  then show ?thesis
    using bounds run [OF assms(3,6)] by blast
qed

lemma sample_double_size:
  "optimized_size (double_browser load context) (sample_image 2000 1000) 1024 = (1024, 512)"
proof -
  have q: "binary64 (1024 / 2000) = 4611686018427388 / 2 ^ 53"
    using binary64_in_binade [of "- 1" "1024 / 2000"]
    by (simp add: pow2_def round_to_even_def Let_def)
  have p: "binary64 (1000 * (4611686018427388 / 2 ^ 53)) = 512"
    using binary64_in_binade [of 9 "1000 * (4611686018427388 / 2 ^ 53)"]
    by (simp add: pow2_def round_to_even_def Let_def)
  have "js_round (binary64 (1000 * binary64 (1024 / 2000))) = 512"
    unfolding q p by (simp add: js_round_def)
  then show ?thesis
    by (simp add: optimized_size_def double_browser_def sample_image_def Let_def)
qed

theorem optimizeImageForAPI_bounded_witness:
  "rounds_correctly (fl (double_browser (\<lambda>src. Some (sample_image 2000 1000)) True))
   \<and> (1024 :: nat) < 2 ^ 31
   \<and> loadImage (double_browser (\<lambda>src. Some (sample_image 2000 1000)) True)
        (image_source (str ''QUJD'')) = Some (sample_image 2000 1000)
   \<and> img_width (sample_image 2000 1000) < 2 ^ 32
   \<and> img_height (sample_image 2000 1000) < 2 ^ 32
   \<and> optimized_size (double_browser (\<lambda>src. Some (sample_image 2000 1000)) True)
        (sample_image 2000 1000) 1024 = (1024, 512)
   \<and> optimizeImageForAPI (double_browser (\<lambda>src. Some (sample_image 2000 1000)) True)
        (str ''QUJD'') 1024
     = \<lparr>out_data = [1024, 512, 1, 0], out_size = Some (1024, 512)\<rparr>
   \<and> optimizeImageForAPI
        ((double_browser (\<lambda>src. Some (sample_image 2000 1000)) True)
           \<lparr>toBlob := (\<lambda>canvas type quality. None), load_timeout := (\<lambda>srcs. True)\<rparr>)
        (str ''QUJD'') 1024
     = \<lparr>out_data = [1024, 512, 1, 0], out_size = Some (1024, 512)\<rparr>"
proof -
  let ?img = "sample_image 2000 1000"
  let ?br = "double_browser (\<lambda>src. Some ?img) True"
  let ?other = "?br\<lparr>toBlob := (\<lambda>canvas type quality. None), load_timeout := (\<lambda>srcs. True)\<rparr>"
  let ?canvas = "\<lparr>canvas_width = 1024, canvas_height = 512,
                   drawn = [DrawImage ?img 0 0 (real_of_int 1024) (real_of_int 512)]\<rparr>"
  have a1: "rounds_correctly (fl ?br)"
    using binary64_rounds_correctly by (simp add: double_browser_def)
  have a2: "(1024 :: nat) < 2 ^ 31" by simp
  have a3: "loadImage ?br (image_source (str ''QUJD'')) = Some ?img"
    by (simp add: double_browser_def)
  have a4: "img_width ?img < 2 ^ 32" "img_height ?img < 2 ^ 32"
    by (simp_all add: sample_image_def)
  have a5: "optimized_size ?br ?img 1024 = (1024, 512)"
    by (rule sample_double_size)
  note run = optimizeImageForAPI_bounded [OF a1 a2 a3 a4 a5]
  have ctx: "getContext2d ?br 1024 512" "getContext2d ?other 1024 512"
    by (simp_all add: double_browser_def)
  have bytes: "strip_image_prefix (toDataURL ?br ?canvas (str ''image/jpeg'') 0.8) = [1024, 512, 1, 0]"
    by (simp add: double_browser_def sample_bytes_def strip_image_prefix_def
        is_lower_def str_def Let_def)
  from run have "optimizeImageForAPI ?br (str ''QUJD'') 1024 =
        (if getContext2d ?br 1024 512
         then \<lparr>out_data = strip_image_prefix (toDataURL ?br ?canvas (str ''image/jpeg'') 0.8),
               out_size = Some (1024, 512)\<rparr>
         else \<lparr>out_data = str ''QUJD'',
               out_size = Some (int (img_width ?img), int (img_height ?img))\<rparr>)"
    by blast
  then have out: "optimizeImageForAPI ?br (str ''QUJD'') 1024
      = \<lparr>out_data = [1024, 512, 1, 0], out_size = Some (1024, 512)\<rparr>"
    using ctx(1) bytes by simp
  have agree: "fl ?other = fl ?br
      \<and> loadImage ?other (image_source (str ''QUJD'')) = Some ?img
      \<and> getContext2d ?other 1024 512 = getContext2d ?br 1024 512
      \<and> toDataURL ?other ?canvas (str ''image/jpeg'') 0.8
          = toDataURL ?br ?canvas (str ''image/jpeg'') 0.8"
    by (simp add: double_browser_def)
  from run have "\<forall>other. fl other = fl ?br
      \<and> loadImage other (image_source (str ''QUJD'')) = Some ?img
      \<and> getContext2d other 1024 512 = getContext2d ?br 1024 512
      \<and> toDataURL other ?canvas (str ''image/jpeg'') 0.8
          = toDataURL ?br ?canvas (str ''image/jpeg'') 0.8
      \<longrightarrow> optimizeImageForAPI other (str ''QUJD'') 1024
            = optimizeImageForAPI ?br (str ''QUJD'') 1024"
    by blast
  with agree have "optimizeImageForAPI ?other (str ''QUJD'') 1024
      = optimizeImageForAPI ?br (str ''QUJD'') 1024"
    by blast
  with out have "optimizeImageForAPI ?other (str ''QUJD'') 1024
      = \<lparr>out_data = [1024, 512, 1, 0], out_size = Some (1024, 512)\<rparr>"
    by simp
  with a1 a2 a3 a4 a5 out show ?thesis by blast
qed

lemma sample_optimized_size:
  "optimized_size (sample_browser load context late) (sample_image 2000 1000) 1024 = (1024, 512)"
  by (simp add: optimized_size_def sample_browser_def sample_image_def js_round_def Let_def)

text \<open>
  The claim as it was stated fails when the canvas gives no 2D context: an input of 2000
  by 1000 pixels is then returned as it is, wider than 1024.
\<close>

theorem optimizeImageForAPI_fallback_counterexample:
  "loadImage (sample_browser (\<lambda>src. Some (sample_image 2000 1000)) False False)
        (image_source (str ''QUJD'')) = Some (sample_image 2000 1000)
   \<and> optimizeImageForAPI (sample_browser (\<lambda>src. Some (sample_image 2000 1000)) False False)
        (str ''QUJD'') 1024 = \<lparr>out_data = str ''QUJD'', out_size = Some (2000, 1000)\<rparr>
   \<and> \<not> (2000 :: int) \<le> int 1024"
  by (simp add: optimizeImageForAPI_def sample_optimized_size)
     (simp add: sample_browser_def sample_image_def)

section \<open>stitchImages\<close>

lemma plan_items_total:
  "snd (plan_items br imgs t) = t + (\<Sum>img\<leftarrow>imgs. drawnHeight br img)"
proof (induction imgs arbitrary: t)
  case Nil
  show ?case by simp
next
  case (Cons img imgs)
  obtain itemsToDraw planned
    where p: "plan_items br imgs (t + drawnHeight br img) = (itemsToDraw, planned)"
    by (cases "plan_items br imgs (t + drawnHeight br img)")
  then have "planned = t + drawnHeight br img + (\<Sum>img\<leftarrow>imgs. drawnHeight br img)"
    using Cons.IH [of "t + drawnHeight br img"] by simp
  then show ?case using p by simp
qed

lemma stitch_canvas_size:
  "canvas_width (stitch_canvas br imgs) = 1000"
  "canvas_height (stitch_canvas br imgs) = min (\<Sum>img\<leftarrow>imgs. drawnHeight br img) 20000"
proof -
  obtain itemsToDraw planned where p: "plan_items br imgs 0 = (itemsToDraw, planned)"
    by (cases "plan_items br imgs 0")
  then have "planned = (\<Sum>img\<leftarrow>imgs. drawnHeight br img)"
    using plan_items_total [of br imgs 0] by simp
  then show "canvas_width (stitch_canvas br imgs) = 1000"
    and "canvas_height (stitch_canvas br imgs) = min (\<Sum>img\<leftarrow>imgs. drawnHeight br img) 20000"
    using p by (simp_all add: stitch_canvas_def Let_def TARGET_WIDTH_def MAX_HEIGHT_def min_def)
qed

lemma stitchImages_loaded:
  assumes "\<not> load_timeout br (valid_sources images)"
    and "List.map_filter (loadImage br) (valid_sources images) = imgs" and "imgs \<noteq> []"
    and "getContext2d br (canvas_width (stitch_canvas br imgs)) (canvas_height (stitch_canvas br imgs))"
  shows "stitchImages br images = Inr (toDataURL br (stitch_canvas br imgs) (str ''image/jpeg'') 0.6)"
proof -
  have "valid_sources images \<noteq> []"
    using assms(2,3) by (auto simp: List.map_filter_def)
  moreover from this have "images \<noteq> []"
    by (auto simp: valid_sources_def)
  ultimately show ?thesis
    using assms by (simp add: stitchImages_def stitch_export_def Let_def)
qed

text \<open>
  Claim C6, as the code has it. When images of positive width are loaded in time and the
  canvas yields a 2D context, the result is the export of a canvas of width 1000 whose
  height is the sum, over the images, of the floor of each height scaled to the width
  1000, capped at 20000: each image is floored by itself, before the sum is taken. When
  this sum exceeds 20000 the height of the canvas is 20000 exactly.
\<close>

theorem stitchImages_canvas_height:
  assumes "\<not> load_timeout br (valid_sources images)"
    and "List.map_filter (loadImage br) (valid_sources images) = imgs" and "imgs \<noteq> []"
    and "\<forall>img \<in> set imgs. 0 < img_width img"
    and "getContext2d br 1000
           (min (\<Sum>img\<leftarrow>imgs. \<lfloor>fl br (real (img_height img) * fl br (1000 / real (img_width img)))\<rfloor>)
                20000)"
  shows "stitchImages br images = Inr (toDataURL br (stitch_canvas br imgs) (str ''image/jpeg'') 0.6)
    \<and> canvas_width (stitch_canvas br imgs) = 1000
    \<and> canvas_height (stitch_canvas br imgs)
        = min (\<Sum>img\<leftarrow>imgs. \<lfloor>fl br (real (img_height img) * fl br (1000 / real (img_width img)))\<rfloor>)
              20000
    \<and> ((\<Sum>img\<leftarrow>imgs. \<lfloor>fl br (real (img_height img) * fl br (1000 / real (img_width img)))\<rfloor>) > 20000
         \<longrightarrow> canvas_height (stitch_canvas br imgs) = 20000)"
proof -
  have each: "drawnHeight br img = \<lfloor>fl br (real (img_height img) * fl br (1000 / real (img_width img)))\<rfloor>"
    for img
    by (simp add: drawnHeight_def TARGET_WIDTH_def Let_def)
  have height: "canvas_height (stitch_canvas br imgs)
        = min (\<Sum>img\<leftarrow>imgs. \<lfloor>fl br (real (img_height img) * fl br (1000 / real (img_width img)))\<rfloor>)
              20000"
    using stitch_canvas_size(2) [of br imgs] by (simp add: each)
  have "getContext2d br (canvas_width (stitch_canvas br imgs)) (canvas_height (stitch_canvas br imgs))"
    using assms(5) by (simp add: height stitch_canvas_size(1))
  from stitchImages_loaded [OF assms(1,2,3) this] height stitch_canvas_size(1) [of br imgs]
  show ?thesis by simp
qed

lemma startsWith_set: "startsWith xs needle \<Longrightarrow> set needle \<subseteq> set xs"
  by (induction xs needle rule: startsWith.induct) auto

lemma js_includes_set: "js_includes xs needle \<Longrightarrow> set needle \<subseteq> set xs"
proof (induction xs)
  case Nil
  then show ?case by simp
next
  case (Cons x xs)
  from Cons.prems have "startsWith (x # xs) needle \<or> js_includes xs needle" by simp
  then show ?case
  proof
    assume "startsWith (x # xs) needle"
    then show ?thesis by (rule startsWith_set)
  next
    assume "js_includes xs needle"
    then have "set needle \<subseteq> set xs" by (rule Cons.IH)
    then show ?thesis by auto
  qed
qed

lemma long_source_valid: "valid_sources [long_source] = [long_source]"
proof -
  have "\<not> js_includes long_source (str ''data:,'')"
  proof
    assume "js_includes long_source (str ''data:,'')"
    then have "set (str ''data:,'') \<subseteq> set long_source" by (rule js_includes_set)
    moreover have "100 \<in> set (str ''data:,'')" by (simp add: str_def)
    ultimately show False by (auto simp: long_source_def)
  qed
  then show ?thesis by (simp add: valid_sources_def) (simp add: long_source_def)
qed

theorem stitchImages_canvas_height_witness:
  "\<not> load_timeout (sample_browser (\<lambda>src. Some (sample_image 1 21)) True False)
        (valid_sources [long_source])
   \<and> List.map_filter (loadImage (sample_browser (\<lambda>src. Some (sample_image 1 21)) True False))
        (valid_sources [long_source]) = [sample_image 1 21]
   \<and> 0 < img_width (sample_image 1 21)
   \<and> getContext2d (sample_browser (\<lambda>src. Some (sample_image 1 21)) True False) 1000 20000
   \<and> (\<Sum>img\<leftarrow>[sample_image 1 21]. \<lfloor>real (img_height img) * (1000 / real (img_width img))\<rfloor>)
       = (21000 :: int)
   \<and> canvas_height (stitch_canvas (sample_browser (\<lambda>src. Some (sample_image 1 21)) True False)
        [sample_image 1 21]) = 20000
   \<and> stitchImages (sample_browser (\<lambda>src. Some (sample_image 1 21)) True False) [long_source]
       = Inr (str ''data:image/jpeg;base64,QUJD'')"
proof -
  let ?br = "sample_browser (\<lambda>src. Some (sample_image 1 21)) True False"
  have a1: "\<not> load_timeout ?br (valid_sources [long_source])"
    by (simp add: sample_browser_def)
  have a2: "List.map_filter (loadImage ?br) (valid_sources [long_source]) = [sample_image 1 21]"
    by (simp add: long_source_valid List.map_filter_def) (simp add: sample_browser_def)
  have a3: "[sample_image 1 21] \<noteq> []" by simp
  have a4: "\<forall>img \<in> set [sample_image 1 21]. 0 < img_width img"
    by (simp add: sample_image_def)
  have ctx: "getContext2d ?br width height" for width height
    by (simp add: sample_browser_def)
  have fl: "fl ?br = (\<lambda>x. x)" by (simp add: sample_browser_def)
  have sum: "(\<Sum>img\<leftarrow>[sample_image 1 21]. \<lfloor>real (img_height img) * (1000 / real (img_width img))\<rfloor>)
       = (21000 :: int)"
    by (simp add: sample_image_def)
  have url: "toDataURL ?br canvas type quality = str ''data:image/jpeg;base64,QUJD''"
    for canvas type quality
    by (simp add: sample_browser_def)
  have run: "stitchImages ?br [long_source]
               = Inr (toDataURL ?br (stitch_canvas ?br [sample_image 1 21]) (str ''image/jpeg'') 0.6)"
    and height: "canvas_height (stitch_canvas ?br [sample_image 1 21])
        = min (\<Sum>img\<leftarrow>[sample_image 1 21].
                 \<lfloor>fl ?br (real (img_height img) * fl ?br (1000 / real (img_width img)))\<rfloor>)
              20000"
    using stitchImages_canvas_height [OF a1 a2 a3 a4 ctx] by blast+
  have "canvas_height (stitch_canvas ?br [sample_image 1 21]) = 20000"
    unfolding height fl using sum by simp
  moreover have "stitchImages ?br [long_source] = Inr (str ''data:image/jpeg;base64,QUJD'')"
    unfolding run url ..
  ultimately have "canvas_height (stitch_canvas ?br [sample_image 1 21]) = 20000
      \<and> stitchImages ?br [long_source] = Inr (str ''data:image/jpeg;base64,QUJD'')"
    by blast
  moreover have "0 < img_width (sample_image 1 21)"
    by (simp add: sample_image_def)
  ultimately show ?thesis
    using a1 a2 ctx sum by blast
qed

text \<open>
  The claim as it was stated takes the floor of the scaled total. Two images of 16 by 1
  pixels are each planned at \<open>\<lfloor>62.5\<rfloor> = 62\<close> rows, so that the canvas has 124 rows, and
  not the \<open>\<lfloor>125\<rfloor> = 125\<close> rows of the claim; all the arithmetic is exact here.
\<close>

theorem stitch_height_counterexample:
  "canvas_height (stitch_canvas (sample_browser (\<lambda>src. Some (sample_image 16 1)) True False)
      [sample_image 16 1, sample_image 16 1]) = 124
   \<and> spec_stitched_height [sample_image 16 1, sample_image 16 1] = 125"
proof -
  have "drawnHeight (sample_browser (\<lambda>src. Some (sample_image 16 1)) True False) (sample_image 16 1)
      = 62"
    by (simp add: drawnHeight_def sample_browser_def sample_image_def TARGET_WIDTH_def)
  then have "canvas_height (stitch_canvas (sample_browser (\<lambda>src. Some (sample_image 16 1)) True False)
      [sample_image 16 1, sample_image 16 1]) = 124"
    by (simp add: stitch_canvas_size)
  moreover have "spec_stitched_height [sample_image 16 1, sample_image 16 1] = 125"
    by (simp add: spec_stitched_height_def sample_image_def TARGET_WIDTH_def MAX_HEIGHT_def)
  ultimately show ?thesis by simp
qed

text \<open>
  Claim C7. For an empty list, for a list none of whose images loads, and when the timer
  fires before the loading is over, \<open>stitchImages\<close> returns the empty string and does
  not throw.
\<close>

theorem stitchImages_nothing_loaded:
  assumes "images = [] \<or> (\<forall>src \<in> set images. loadImage br src = None)
           \<or> load_timeout br (valid_sources images)"
  shows "stitchImages br images = Inr []"
proof -
  consider (empty) "images = []"
    | (failed) "\<forall>src \<in> set images. loadImage br src = None"
    | (late) "load_timeout br (valid_sources images)"
    using assms by blast
  then show ?thesis
  proof cases
    case empty
    then show ?thesis by (simp add: stitchImages_def)
  next
    case failed
    have "set (valid_sources images) \<subseteq> set images"
      by (auto simp: valid_sources_def)
    with failed have "List.map_filter (loadImage br) (valid_sources images) = []"
      by (auto simp: List.map_filter_def filter_empty_conv)
    then show ?thesis by (simp add: stitchImages_def Let_def)
  next
    case late
    then show ?thesis by (simp add: stitchImages_def Let_def)
  qed
qed

theorem stitchImages_nothing_loaded_witness:
  "stitchImages (sample_browser (\<lambda>src. Some (sample_image 1 21)) True False) [] = Inr []
   \<and> loadImage (sample_browser (\<lambda>src. None) True False) long_source = None
   \<and> stitchImages (sample_browser (\<lambda>src. None) True False) [long_source] = Inr []
   \<and> load_timeout (sample_browser (\<lambda>src. Some (sample_image 1 21)) True True)
       (valid_sources [long_source])
   \<and> stitchImages (sample_browser (\<lambda>src. Some (sample_image 1 21)) True True) [long_source]
       = Inr []"
proof -
  have none: "\<forall>src \<in> set [long_source]. loadImage (sample_browser (\<lambda>src. None) True False) src = None"
    by (simp add: sample_browser_def)
  have late: "load_timeout (sample_browser (\<lambda>src. Some (sample_image 1 21)) True True)
       (valid_sources [long_source])"
    by (simp add: sample_browser_def)
  show ?thesis
    using stitchImages_nothing_loaded
            [of "[]" "sample_browser (\<lambda>src. Some (sample_image 1 21)) True False"]
          stitchImages_nothing_loaded [OF disjI2 [OF disjI1 [OF none]]]
          stitchImages_nothing_loaded [OF disjI2 [OF disjI2 [OF late]]]
          none late
    by simp
qed

section \<open>processImageToBlob: the watermark\<close>

declare for_range.simps [simp del]

lemma for_range_first: "v < bound \<Longrightarrow> 0 < step \<Longrightarrow> hd (for_range v bound step) = v
    \<and> for_range v bound step \<noteq> []"
  by (subst for_range.simps, simp)+

lemma watermark_pass_writes:
  assumes "0 < targetWidth" "0 < targetHeight"
  shows "\<exists>x y. FillText label x y \<in> set (watermark_pass br label targetWidth targetHeight)"
proof -
  let ?step = "targetWidth * 0.25"
  have step: "0 < ?step" using assms(1) by simp
  have xs: "for_range (- targetWidth) (targetWidth * 2) ?step \<noteq> []"
    using for_range_first [of "- targetWidth" "targetWidth * 2" ?step] assms(1) step by simp
  have ys: "for_range (- targetHeight) (targetHeight * 2) ?step \<noteq> []"
    using for_range_first [of "- targetHeight" "targetHeight * 2" ?step] assms(2) step by simp
  from xs obtain x where x: "x \<in> set (for_range (- targetWidth) (targetWidth * 2) ?step)"
    by (meson last_in_set)
  from ys obtain y where y: "y \<in> set (for_range (- targetHeight) (targetHeight * 2) ?step)"
    by (meson last_in_set)
  have "FillText label (x + real_of_int (js_rem \<lfloor>fl br (y / ?step)\<rfloor> 2) * (?step / 2)) y
      \<in> set (watermark_pass br label targetWidth targetHeight)"
    using x y by (simp add: watermark_pass_def Let_def) blast
  then show ?thesis by blast
qed

lemma labelled_export_writes:
  assumes "trim label \<noteq> []" "0 < targetWidth"
    and "0 < canvas_height (export_canvas br label img targetWidth)"
  shows "filter is_text_op (drawn (export_canvas br label img targetWidth)) \<noteq> []"
proof -
  let ?h = "js_round (fl br (real targetWidth * fl br (real (img_height img) / real (img_width img))))"
  have h: "0 < real_of_int ?h"
    using assms(3) by (simp add: export_canvas_def Let_def)
  have "label \<noteq> []" using assms(1) by (auto simp: trim_def)
  then have d: "drawn (export_canvas br label img targetWidth) =
      [SetImageSmoothing True (str ''high''), DrawImage img 0 0 (real targetWidth) (real_of_int ?h)]
      @ watermark_pass br label (real targetWidth) (real_of_int ?h)"
    using assms(1) by (simp add: export_canvas_def Let_def)
  obtain x y where "FillText label x y \<in> set (watermark_pass br label (real targetWidth) (real_of_int ?h))"
    using watermark_pass_writes [OF _ h, of "real targetWidth" label br] assms(2) by auto
  then have "FillText label x y \<in> set (filter is_text_op (drawn (export_canvas br label img targetWidth)))"
    by (simp add: d)
  then show ?thesis by (metis empty_iff empty_set)
qed

text \<open>
  Claim C8. The code has no switch for the watermark other than the label, so the export
  with the watermark disabled is the export of the canvas that holds the resized image
  and nothing else. With a label that is empty or consists of white space only, and for
  every image source and target width, \<open>processImageToBlob\<close> delivers exactly that. When
  the image fails to load, the promise is rejected. When it loads, with a width that is
  not zero, the canvas is given the target width and the rounded height, the smoothing is
  set and the image is drawn, and no text is written; the result is the PNG encoding of
  this canvas, or a rejection when the context is missing or the encoder delivers nothing.
  It is also the result for the empty label.
\<close>

theorem processImageToBlob_blank_label:
  assumes "trim label = []"
  shows "(case loadImage br imgUrl of
         None \<Rightarrow>
           processImageToBlob br label imgUrl targetWidth = Inl (JsError (str ''Image load failed''))
       | Some img \<Rightarrow>
           0 < img_width img \<longrightarrow>
           (let targetHeight =
                  js_round (fl br (real targetWidth
                                   * fl br (real (img_height img) / real (img_width img))));
                resized =
                  \<lparr>canvas_width = int targetWidth, canvas_height = targetHeight,
                   drawn = [SetImageSmoothing True (str ''high''),
                            DrawImage img 0 0 (real targetWidth) (real_of_int targetHeight)]\<rparr>
            in filter is_text_op (drawn resized) = []
               \<and> processImageToBlob br label imgUrl targetWidth =
                   (if \<not> getContext2d br (int targetWidth) targetHeight
                    then Inl (JsError (str ''Canvas context failed''))
                    else (case toBlob br resized (str ''image/png'') 1.0 of
                            Some blob \<Rightarrow> Inr blob
                          | None \<Rightarrow> Inl (JsError (str ''Blob creation failed''))))))
    \<and> processImageToBlob br label imgUrl targetWidth = processImageToBlob br [] imgUrl targetWidth"
proof -
  have plain: "export_canvas br l img targetWidth =
      \<lparr>canvas_width = int targetWidth,
       canvas_height = js_round (fl br (real targetWidth
                                        * fl br (real (img_height img) / real (img_width img)))),
       drawn = [SetImageSmoothing True (str ''high''),
                DrawImage img 0 0 (real targetWidth)
                  (real_of_int (js_round (fl br (real targetWidth
                                   * fl br (real (img_height img) / real (img_width img))))))]\<rparr>"
    if "trim l = []" for l img
    using that by (simp add: export_canvas_def Let_def)
  have empty: "trim [] = []"
    by (simp add: trim_def)
  have same: "processImageToBlob br label imgUrl targetWidth = processImageToBlob br [] imgUrl targetWidth"
    by (cases "loadImage br imgUrl")
       (simp_all add: processImageToBlob_def plain [OF assms] plain [OF empty])
  show ?thesis
  proof (cases "loadImage br imgUrl")
    case None
    then show ?thesis using same by (simp add: processImageToBlob_def)
  next
    case (Some img)
    then show ?thesis
      using same by (simp add: processImageToBlob_def plain [OF assms] Let_def)
  qed
qed

lemma sample_double_height:
  "js_round (binary64 (860 * binary64 (500 / 1000))) = 430"
proof -
  have q: "binary64 (500 / 1000) = 1 / 2"
    using binary64_in_binade [of "- 1" "500 / 1000"]
    by (simp add: pow2_def round_to_even_def Let_def)
  have p: "binary64 (860 * (1 / 2)) = 430"
    using binary64_in_binade [of 8 "860 * (1 / 2)"]
    by (simp add: pow2_def round_to_even_def Let_def)
  show ?thesis
    unfolding q p by (simp add: js_round_def)
qed

theorem processImageToBlob_blank_label_witness:
  "trim (str ''  '') = []
   \<and> loadImage (double_browser (\<lambda>src. Some (sample_image 1000 500)) True)
       (str ''data:image/png;base64,QUJD'') = Some (sample_image 1000 500)
   \<and> 0 < img_width (sample_image 1000 500)
   \<and> processImageToBlob (double_browser (\<lambda>src. Some (sample_image 1000 500)) True)
       (str ''  '') (str ''data:image/png;base64,QUJD'') 860
     = Inr [860, 430, 2, 0]
   \<and> processImageToBlob (double_browser (\<lambda>src. Some (sample_image 1000 500)) True)
       [] (str ''data:image/png;base64,QUJD'') 860
     = Inr [860, 430, 2, 0]"
proof -
  have blank: "trim (str ''  '') = []"
    by (simp add: trim_def str_def is_white_space_def)
  let ?br = "double_browser (\<lambda>src. Some (sample_image 1000 500)) True"
  note run = processImageToBlob_blank_label
               [OF blank, of ?br "str ''data:image/png;base64,QUJD''" 860]
  have height: "js_round (fl ?br (real 860
      * fl ?br (real (img_height (sample_image 1000 500)) / real (img_width (sample_image 1000 500)))))
      = 430"
    using sample_double_height by (simp add: double_browser_def sample_image_def)
  have load: "loadImage ?br (str ''data:image/png;base64,QUJD'') = Some (sample_image 1000 500)"
    by (simp add: double_browser_def)
  have width: "0 < img_width (sample_image 1000 500)"
    by (simp add: sample_image_def)
  from run have "processImageToBlob ?br (str ''  '') (str ''data:image/png;base64,QUJD'') 860
      = Inr [860, 430, 2, 0]"
    unfolding load option.case Let_def height
    using width by (simp add: double_browser_def sample_bytes_def)
  moreover from run have "processImageToBlob ?br (str ''  '') (str ''data:image/png;base64,QUJD'') 860
      = processImageToBlob ?br [] (str ''data:image/png;base64,QUJD'') 860"
    by blast
  ultimately show ?thesis
    using blank load width by simp
qed

text \<open>
  With the label \<open>shop\<close> the same call writes text, so the bytes delivered for a blank
  label are not those of every label.
\<close>

lemma labelled_sample_differs:
  "processImageToBlob (double_browser (\<lambda>src. Some (sample_image 1000 500)) True)
       (str ''shop'') (str ''data:image/png;base64,QUJD'') 860
     \<noteq> Inr [860, 430, 2, 0]"
proof -
  let ?br = "double_browser (\<lambda>src. Some (sample_image 1000 500)) True"
  let ?canvas = "export_canvas ?br (str ''shop'') (sample_image 1000 500) 860"
  have height: "canvas_height ?canvas = 430"
    using sample_double_height
    by (simp add: export_canvas_def double_browser_def sample_image_def Let_def)
  have "trim (str ''shop'') \<noteq> []"
    by (simp add: trim_def str_def is_white_space_def)
  then have "filter is_text_op (drawn ?canvas) \<noteq> []"
    by (rule labelled_export_writes) (simp_all add: height)
  then have "sample_bytes ?canvas \<noteq> [860, 430, 2, 0]"
    by (simp add: sample_bytes_def)
  then show ?thesis
    by (simp add: processImageToBlob_def double_browser_def Let_def)
qed

section \<open>The services on a remote side that answers\<close>

text \<open>
  One call of each service with a key in the store, as a function of what the remote
  side answers to the requests of this call. A call leaves the store as it is.
\<close>

lemma analysis_succeeds:
  assumes "getClient (store w) = Inr key"
    and "analyzeContent remote (requests w) base64Image referenceImg used = Inr options"
  shows "analyzeImageForCopywriting remote base64Image referenceImg used w
           = (Inr options,
              w\<lparr>requests := Suc (requests w),
                events := events w @ [GeminiRequest (str ''gemini-3-flash-preview'')]\<rparr>)"
  using assms
  by (simp add: analyzeImageForCopywriting_def withRetry_def withRetry_from.simps [of _ 3 _ 0]
      analysis_attempt_def emit_def)

lemma analysis_fails_once:
  assumes "getClient (store w) = Inr key"
    and "analyzeContent remote (requests w) base64Image referenceImg used = Inl e"
    and "non_retryable (message e)"
  shows "analyzeImageForCopywriting remote base64Image referenceImg used w
           = (Inl (handleGeminiError e),
              w\<lparr>requests := Suc (requests w),
                events := events w @ [GeminiRequest (str ''gemini-3-flash-preview'')]\<rparr>)"
  using assms
  by (simp add: analyzeImageForCopywriting_def withRetry_def withRetry_from.simps [of _ 3 _ 0]
      analysis_attempt_def emit_def rethrow_def)

lemma analysis_fails_thrice:
  assumes key: "getClient (store w) = Inr key"
    and fails: "\<forall>n. requests w \<le> n \<and> n < requests w + 3
                  \<longrightarrow> analyzeContent remote n base64Image referenceImg used = Inl e"
    and retried: "\<not> non_retryable (message e)"
  shows "analyzeImageForCopywriting remote base64Image referenceImg used w
           = (Inl (handleGeminiError e),
              w\<lparr>requests := requests w + 3,
                events := events w @
                  [GeminiRequest (str ''gemini-3-flash-preview''), Sleep 2000,
                   GeminiRequest (str ''gemini-3-flash-preview''), Sleep 4000,
                   GeminiRequest (str ''gemini-3-flash-preview''), Sleep 6000]\<rparr>)"
proof -
  let ?op = "analysis_attempt remote base64Image referenceImg used"
  let ?req = "GeminiRequest (str ''gemini-3-flash-preview'')"
  have attempt: "?op v = (Inl e, v\<lparr>requests := Suc (requests v), events := events v @ [?req]\<rparr>)"
    if "store v = store w" "requests w \<le> requests v" "requests v < requests w + 3" for v
    using that key fails by (simp add: analysis_attempt_def emit_def)
  define w1 where "w1 = w\<lparr>requests := requests w + 1, events := events w @ [?req, Sleep 2000]\<rparr>"
  define w2 where "w2 = w\<lparr>requests := requests w + 2,
                          events := events w @ [?req, Sleep 2000, ?req, Sleep 4000]\<rparr>"
  define w3 where "w3 = w\<lparr>requests := requests w + 3,
                          events := events w @ [?req, Sleep 2000, ?req, Sleep 4000, ?req, Sleep 6000]\<rparr>"
  have a0: "?op w = (Inl e, w\<lparr>requests := Suc (requests w), events := events w @ [?req]\<rparr>)"
    by (rule attempt) simp_all
  have a1: "?op w1 = (Inl e, w1\<lparr>requests := Suc (requests w1), events := events w1 @ [?req]\<rparr>)"
    by (rule attempt) (simp_all add: w1_def)
  have a2: "?op w2 = (Inl e, w2\<lparr>requests := Suc (requests w2), events := events w2 @ [?req]\<rparr>)"
    by (rule attempt) (simp_all add: w2_def)
  have s0: "withRetry_from ?op 3 2000 0 None w = withRetry_from ?op 3 2000 1 (Some e) w1"
    by (subst withRetry_from.simps) (simp add: a0 retried sleep_def emit_def w1_def)
  have s1: "withRetry_from ?op 3 2000 1 (Some e) w1 = withRetry_from ?op 3 2000 2 (Some e) w2"
    by (subst withRetry_from.simps) (simp add: a1 retried sleep_def emit_def, simp add: w1_def w2_def numeral_2_eq_2)
  have s2: "withRetry_from ?op 3 2000 2 (Some e) w2 = withRetry_from ?op 3 2000 3 (Some e) w3"
    by (subst withRetry_from.simps) (simp add: a2 retried sleep_def emit_def, simp add: w2_def w3_def numeral_2_eq_2 numeral_3_eq_3)
  have s3: "withRetry_from ?op 3 2000 3 (Some e) w3 = (Inl (Some e), w3)"
    by (subst withRetry_from.simps) simp
  have "withRetry ?op 3 2000 w = (Inl (Some e), w3)"
    unfolding withRetry_def by (simp only: s0 s1 s2 s3)
  then show ?thesis
    by (simp add: analyzeImageForCopywriting_def rethrow_def w3_def)
qed


lemma silent_attempt:
  "emit (GeminiRequest modelName)
     ((before_call None modelName attempt v)\<lparr>requests := Suc (requests v)\<rparr>)
   = v\<lparr>requests := Suc (requests v),
       events := events v @ (if attempt > 0 then [Sleep (retryDelays ! (attempt - 1))] else [])
                 @ [GeminiRequest modelName]\<rparr>"
  by (simp add: before_call_def announce_def emit_def sleep_def)

lemma silent_send_error:
  assumes "generateContent remote (requests v) req = Inl e"
  shows "send remote req (before_call None (req_model req) attempt v)
           = (Inl e,
              v\<lparr>requests := Suc (requests v),
                events := events v @ (if attempt > 0 then [Sleep (retryDelays ! (attempt - 1))] else [])
                          @ [GeminiRequest (req_model req)]\<rparr>)"
proof -
  have "requests (before_call None (req_model req) attempt v) = requests v"
    by (simp add: before_call_def announce_def sleep_def emit_def)
  then have "send remote req (before_call None (req_model req) attempt v)
      = (Inl e, emit (GeminiRequest (req_model req))
                  ((before_call None (req_model req) attempt v)\<lparr>requests := Suc (requests v)\<rparr>))"
    using assms by (simp add: send_def)
  then show ?thesis by (simp only: silent_attempt)
qed

lemma req_model_gen_request [simp]:
  "req_model (gen_request modelName mimeType cleanData prompt imageConfig) = modelName"
  by (simp add: gen_request_def)

lemma attempts_from_all_transient:
  assumes "a \<le> Suc (length retryDelays)" "requests v = n + a"
    and "\<forall>j req. a \<le> j \<and> j \<le> length retryDelays \<longrightarrow> generateContent remote (n + j) req = Inl e"
    and "is_transient (toLowerCase (message e))" "\<not> is_critical (toLowerCase (message e))"
  shows "\<exists>evs. attempts_from remote mimeType cleanData prompt imageConfig None modelName a lastError v
           = (NextModel (if a \<le> length retryDelays then Some e else lastError),
              v\<lparr>requests := n + Suc (length retryDelays), events := events v @ evs\<rparr>)"
  using assms(1,2,3)
proof (induction "Suc (length retryDelays) - a" arbitrary: a v lastError)
  case 0
  then have a: "a = Suc (length retryDelays)" by simp
  then have "attempts_from remote mimeType cleanData prompt imageConfig None modelName a lastError v
      = (NextModel lastError, v)"
    by (subst attempts_from.simps) simp
  moreover have "v = v\<lparr>requests := n + Suc (length retryDelays), events := events v @ []\<rparr>"
    using 0(3) a by simp
  ultimately show ?case using a by (metis Suc_n_not_le_n)
next
  case (Suc d)
  then have le: "a \<le> length retryDelays" by simp
  let ?req = "gen_request modelName mimeType cleanData prompt imageConfig"
  let ?evs0 = "(if a > 0 then [Sleep (retryDelays ! (a - 1))] else []) @ [GeminiRequest modelName]"
  let ?v1 = "v\<lparr>requests := Suc (requests v), events := events v @ ?evs0\<rparr>"
  have "generateContent remote (requests v) ?req = Inl e"
    using Suc.prems(2,3) le by simp
  then have sent: "send remote ?req (before_call None modelName a v) = (Inl e, ?v1)"
    using silent_send_error [of remote v ?req e a] by simp
  have step: "attempts_from remote mimeType cleanData prompt imageConfig None modelName a lastError v
      = attempts_from remote mimeType cleanData prompt imageConfig None modelName (a + 1) (Some e) ?v1"
    by (rule attempt_transient [OF le sent assms(4,5)])
  have d: "d = Suc (length retryDelays) - (a + 1)" using Suc.hyps(2) by simp
  have "\<exists>evs. attempts_from remote mimeType cleanData prompt imageConfig None modelName (a + 1) (Some e) ?v1
           = (NextModel (if a + 1 \<le> length retryDelays then Some e else Some e),
              ?v1\<lparr>requests := n + Suc (length retryDelays), events := events ?v1 @ evs\<rparr>)"
    using Suc.prems(2,3) le by (intro Suc.hyps(1) [OF d]) auto
  then obtain evs where rest:
    "attempts_from remote mimeType cleanData prompt imageConfig None modelName (a + 1) (Some e) ?v1
       = (NextModel (Some e),
          ?v1\<lparr>requests := n + Suc (length retryDelays), events := events ?v1 @ evs\<rparr>)"
    by auto
  have "?v1\<lparr>requests := n + Suc (length retryDelays), events := events ?v1 @ evs\<rparr>
      = v\<lparr>requests := n + Suc (length retryDelays), events := events v @ (?evs0 @ evs)\<rparr>"
    by simp
  with step rest
  have "attempts_from remote mimeType cleanData prompt imageConfig None modelName a lastError v
      = (NextModel (Some e),
         v\<lparr>requests := n + Suc (length retryDelays), events := events v @ (?evs0 @ evs)\<rparr>)"
    by simp
  then show ?case
    using le by (intro exI [of _ "?evs0 @ evs"]) simp
qed

text \<open>
  \<open>generateImage\<close> without a callback when every request it sends is answered with the
  same error: it sends one request when the error is of the class that is thrown at
  once, twelve (six to each model) when it is of the class that is retried, and two (one
  to each model) otherwise; in each case it throws this error.
\<close>

lemma generateImage_all_fail:
  assumes key: "getClient (store w) = Inr ai"
    and count: "k = (if is_critical (toLowerCase (message e)) then 1
                     else if is_transient (toLowerCase (message e)) then 12 else 2)"
    and fails: "\<forall>n req. requests w \<le> n \<and> n < requests w + k \<longrightarrow> generateContent remote n req = Inl e"
  shows "\<exists>evs. generateImage remote mimeType cleanData prompt imageConfig None w
           = (Inl e, w\<lparr>requests := requests w + k, events := events w @ evs\<rparr>)"
proof -
  let ?pro = "str ''gemini-3-pro-image-preview''" and ?flash = "str ''gemini-2.5-flash-image''"
  let ?msg = "toLowerCase (message e)"
  have len: "length retryDelays = 5" by (simp add: retryDelays_def)
  have run: "generateImage remote mimeType cleanData prompt imageConfig None w
      = models_from remote mimeType cleanData prompt imageConfig None [?pro, ?flash] None w"
    using key by (simp add: generateImage_def modelsToTry_def)
  consider (critical) "is_critical ?msg" | (transient) "\<not> is_critical ?msg" "is_transient ?msg"
    | (other) "\<not> is_critical ?msg" "\<not> is_transient ?msg"
    by blast
  then show ?thesis
  proof cases
    case critical
    then have k: "k = 1" using count by simp
    let ?req = "gen_request ?pro mimeType cleanData prompt imageConfig"
    let ?w1 = "w\<lparr>requests := Suc (requests w), events := events w @ [GeminiRequest ?pro]\<rparr>"
    have "generateContent remote (requests w) ?req = Inl e" using fails k by simp
    then have "send remote ?req (before_call None ?pro 0 w) = (Inl e, ?w1)"
      using silent_send_error [of remote w ?req e 0] by simp
    then have "attempts_from remote mimeType cleanData prompt imageConfig None ?pro 0 None w
        = (Thrown e, ?w1)"
      using critical by (intro attempt_critical) simp_all
    then have "generateImage remote mimeType cleanData prompt imageConfig None w = (Inl e, ?w1)"
      by (simp add: run)
    then show ?thesis using k by (metis Suc_eq_plus1)
  next
    case transient
    then have k: "k = 12" using count by simp
    have f1: "\<forall>j req. 0 \<le> j \<and> j \<le> length retryDelays
                \<longrightarrow> generateContent remote (requests w + j) req = Inl e"
      using fails k len by simp
    obtain evs1 where a1:
      "attempts_from remote mimeType cleanData prompt imageConfig None ?pro 0 None w
         = (NextModel (Some e), w\<lparr>requests := requests w + 6, events := events w @ evs1\<rparr>)"
      using attempts_from_all_transient [OF _ _ f1 transient(2,1), of w mimeType cleanData prompt
          imageConfig ?pro None] len
      by auto
    let ?w1 = "w\<lparr>requests := requests w + 6, events := events w @ evs1\<rparr>"
    have f2: "\<forall>j req. 0 \<le> j \<and> j \<le> length retryDelays
                \<longrightarrow> generateContent remote (requests w + 6 + j) req = Inl e"
      using fails k len by simp
    obtain evs2 where a2:
      "attempts_from remote mimeType cleanData prompt imageConfig None ?flash 0 (Some e) ?w1
         = (NextModel (Some e), ?w1\<lparr>requests := requests w + 6 + 6, events := events ?w1 @ evs2\<rparr>)"
      using attempts_from_all_transient [OF _ _ f2 transient(2,1), of ?w1 mimeType cleanData prompt
          imageConfig ?flash "Some e"] len
      by auto
    have "generateImage remote mimeType cleanData prompt imageConfig None w
        = (Inl e, w\<lparr>requests := requests w + 12, events := events w @ (evs1 @ evs2)\<rparr>)"
      by (simp add: run a1 a2)
    then show ?thesis using k by blast
  next
    case other
    then have k: "k = 2" using count by simp
    let ?req1 = "gen_request ?pro mimeType cleanData prompt imageConfig"
    let ?req2 = "gen_request ?flash mimeType cleanData prompt imageConfig"
    let ?w1 = "w\<lparr>requests := Suc (requests w), events := events w @ [GeminiRequest ?pro]\<rparr>"
    let ?w2 = "w\<lparr>requests := requests w + 2,
                 events := events w @ [GeminiRequest ?pro, GeminiRequest ?flash]\<rparr>"
    have "generateContent remote (requests w) ?req1 = Inl e" using fails k by simp
    then have s1: "send remote ?req1 (before_call None ?pro 0 w) = (Inl e, ?w1)"
      using silent_send_error [of remote w ?req1 e 0] by simp
    have a1: "attempts_from remote mimeType cleanData prompt imageConfig None ?pro 0 None w
        = (NextModel (Some e), ?w1)"
      using other by (subst attempts_from.simps) (simp add: s1 len)
    have "generateContent remote (requests ?w1) ?req2 = Inl e" using fails k by simp
    then have s2: "send remote ?req2 (before_call None ?flash 0 ?w1) = (Inl e, ?w2)"
      using silent_send_error [of remote ?w1 ?req2 e 0] by simp
    have a2: "attempts_from remote mimeType cleanData prompt imageConfig None ?flash 0 (Some e) ?w1
        = (NextModel (Some e), ?w2)"
      using other by (subst attempts_from.simps) (simp add: s2 len)
    have "generateImage remote mimeType cleanData prompt imageConfig None w = (Inl e, ?w2)"
      by (simp add: run a1 a2)
    then show ?thesis using k by blast
  qed
qed

lemma generation_succeeds:
  assumes key: "getClient (store w) = Inr ai"
    and answer: "generateContent remote (requests w)
        (gen_request (modelsToTry ! 0) (str ''image/jpeg'')
           (out_data (optimizeImageForAPI br (cleanBase64 base64Image) 1024))
           (detail_prompt (opt_text selected)) \<lparr>aspectRatio = None, imageSize = None\<rparr>)
        = Inr response"
    and url: "image_of_response response = Inr url"
  shows "applyCopywritingToImage br remote base64Image selected isRetry w
           = (Inr url,
              w\<lparr>requests := Suc (requests w),
                events := events w @ [GeminiRequest (modelsToTry ! 0)]\<rparr>)"
proof -
  let ?req = "gen_request (modelsToTry ! 0) (str ''image/jpeg'')
           (out_data (optimizeImageForAPI br (cleanBase64 base64Image) 1024))
           (detail_prompt (opt_text selected)) \<lparr>aspectRatio = None, imageSize = None\<rparr>"
  let ?w1 = "w\<lparr>requests := Suc (requests w), events := events w @ [GeminiRequest (modelsToTry ! 0)]\<rparr>"
  have "send remote ?req (before_call None (modelsToTry ! 0) 0 w) = (Inr url, ?w1)"
    using answer url by (simp add: send_def before_call_def announce_def emit_def)
  then have "attempts_from remote (str ''image/jpeg'')
      (out_data (optimizeImageForAPI br (cleanBase64 base64Image) 1024))
      (detail_prompt (opt_text selected)) \<lparr>aspectRatio = None, imageSize = None\<rparr> None
      (modelsToTry ! 0) 0 None w = (Returned url, ?w1)"
    by (intro attempt_image) simp_all
  then show ?thesis
    using key
    by (simp add: applyCopywritingToImage_def generateDetailPageImage_def generateImage_def
        modelsToTry_def)
qed

lemma generation_fails:
  assumes key: "getClient (store w) = Inr ai"
    and count: "k = (if is_critical (toLowerCase (message e)) then 1
                     else if is_transient (toLowerCase (message e)) then 12 else 2)"
    and fails: "\<forall>n req. requests w \<le> n \<and> n < requests w + k \<longrightarrow> generateContent remote n req = Inl e"
  shows "\<exists>evs. applyCopywritingToImage br remote base64Image selected isRetry w
           = (Inl (handleGeminiError e), w\<lparr>requests := requests w + k, events := events w @ evs\<rparr>)"
proof -
  obtain evs where "generateImage remote (str ''image/jpeg'')
      (out_data (optimizeImageForAPI br (cleanBase64 base64Image) 1024))
      (detail_prompt (opt_text selected)) \<lparr>aspectRatio = None, imageSize = None\<rparr> None w
      = (Inl e, w\<lparr>requests := requests w + k, events := events w @ evs\<rparr>)"
    using generateImage_all_fail [OF key count fails] by blast
  then have "applyCopywritingToImage br remote base64Image selected isRetry w
      = (Inl (handleGeminiError e), w\<lparr>requests := requests w + k, events := events w @ evs\<rparr>)"
    by (simp add: applyCopywritingToImage_def generateDetailPageImage_def)
  then show ?thesis by blast
qed


lemma analysis_fails:
  assumes key: "getClient (store w) = Inr key"
    and count: "k = (if non_retryable (message e) then 1 else 3)"
    and fails: "\<forall>n. requests w \<le> n \<and> n < requests w + k
                  \<longrightarrow> analyzeContent remote n base64Image referenceImg used = Inl e"
  shows "\<exists>evs. analyzeImageForCopywriting remote base64Image referenceImg used w
           = (Inl (handleGeminiError e), w\<lparr>requests := requests w + k, events := events w @ evs\<rparr>)"
proof (cases "non_retryable (message e)")
  case True
  then have k: "k = 1" using count by simp
  then have "analyzeContent remote (requests w) base64Image referenceImg used = Inl e"
    using fails by simp
  from analysis_fails_once [OF key this True] show ?thesis
    using k by (metis Suc_eq_plus1)
next
  case False
  then have k: "k = 3" using count by simp
  then have "\<forall>n. requests w \<le> n \<and> n < requests w + 3
               \<longrightarrow> analyzeContent remote n base64Image referenceImg used = Inl e"
    using fails by simp
  from analysis_fails_thrice [OF key this False] show ?thesis
    using k by blast
qed

text \<open>The store functions of the batch handlers leave the key alone.\<close>

lemma getClient_updateItem [simp]: "getClient (updateItem iid updates s) = getClient s"
  by (simp add: getClient_def updateItem_def)

lemma getClient_updateMultipleItems [simp]:
  "getClient (updateMultipleItems ids updates s) = getClient s"
  by (simp add: getClient_def updateMultipleItems_def)

lemma getClient_setItemOptions [simp]: "getClient (setItemOptions iid options s) = getClient s"
  by (simp add: getClient_def setItemOptions_def)

lemma getClient_addUsedCaptions [simp]: "getClient (addUsedCaptions captions s) = getClient s"
  by (simp add: getClient_def addUsedCaptions_def)

lemma usedCaptions_updateItem [simp]: "usedCaptions (updateItem iid updates s) = usedCaptions s"
  by (simp add: updateItem_def)

lemma usedCaptions_updateMultipleItems [simp]:
  "usedCaptions (updateMultipleItems ids updates s) = usedCaptions s"
  by (simp add: updateMultipleItems_def)

lemma usedCaptions_setItemOptions [simp]:
  "usedCaptions (setItemOptions iid options s) = usedCaptions s"
  by (simp add: setItemOptions_def)

lemma usedCaptions_addUsedCaptions [simp]:
  "usedCaptions (addUsedCaptions captions s) = usedCaptions s @ captions"
  by (simp add: addUsedCaptions_def)

section \<open>Batches: an authorization failure\<close>

text \<open>The error that every service call ends with once the store holds no key.\<close>

lemma no_key_not_retried: "non_retryable msg_no_api_key"
  by (simp add: non_retryable_def msg_no_api_key_def str_def)

lemma no_key_rethrown:
  "handleGeminiError (JsError msg_no_api_key)
     = JsError (msg_error_prefix @ msg_no_api_key @ str ''...'')"
  by (simp add: handleGeminiError_def msg_no_api_key_def substring0_def str_def)

lemma no_key_is_auth_error:
  "js_includes (error_text (JsError (msg_error_prefix @ msg_no_api_key @ str ''...'')))
     (str ''[AUTH_ERROR]'')"
  by (simp add: error_text_def msg_error_prefix_def msg_no_api_key_def str_def)

lemma getClient_no_key: "apiKey state = None \<Longrightarrow> getClient state = Inl (JsError msg_no_api_key)"
  by (simp add: getClient_def)

lemma analysis_without_key:
  assumes "apiKey (store w) = None"
  shows "analyzeImageForCopywriting remote base64Image referenceImg used w = (Inl missing_key_error, w)"
proof -
  have "analysis_attempt remote base64Image referenceImg used w = (Inl (JsError msg_no_api_key), w)"
    using assms by (simp add: analysis_attempt_def getClient_no_key)
  then have "withRetry (analysis_attempt remote base64Image referenceImg used) 3 2000 w
      = (Inl (Some (JsError msg_no_api_key)), w)"
    using no_key_not_retried
    by (simp add: withRetry_def withRetry_from.simps [of _ 3 _ 0])
  then show ?thesis
    by (simp add: analyzeImageForCopywriting_def rethrow_def no_key_rethrown missing_key_error_def)
qed

lemma generation_without_key:
  assumes "apiKey (store w) = None"
  shows "applyCopywritingToImage br remote base64Image selected isRetry w = (Inl missing_key_error, w)"
  using assms
  by (simp add: applyCopywritingToImage_def generateDetailPageImage_def generateImage_def
      getClient_no_key no_key_rethrown missing_key_error_def)

lemma logout_state_idem: "logout_state (logout_state s) = logout_state s"
  by (simp add: logout_state_def)

lemma logged_out_fields:
  assumes "logged_out w"
  shows "apiKey (store w) = None" "userName (store w) = None" "items (store w) = []"
proof -
  have "store w = logout_state (store w)" using assms by (simp add: logged_out_def)
  then have "apiKey (store w) = apiKey (logout_state (store w))"
    "userName (store w) = userName (logout_state (store w))"
    "items (store w) = items (logout_state (store w))"
    by simp_all
  then show "apiKey (store w) = None" "userName (store w) = None" "items (store w) = []"
    by (simp_all add: logout_state_def)
qed

lemma logout_events:
  "logout w = w\<lparr>store := logout_state (store w),
               events := events w @
                 (if truthy (userName (store w)) \<and> truthy (sessionToken (store w))
                  then [ServerLogoutRequest] else []) @ [LoggedOut]\<rparr>"
  by (simp add: logout_def emit_def Let_def)

lemma logged_out_logout: "logged_out (logout w)"
  by (simp add: logged_out_def logout_events logout_state_idem)

lemma auth_failure_handled:
  assumes "js_includes (error_text e) (str ''[AUTH_ERROR]'')"
  shows "handleServiceError e itemId w = logout (emit AlertAuthFailed w)"
  using assms by (simp add: handleServiceError_def Let_def)

lemma auth_failure_when_logged_out:
  assumes "logged_out w"
  shows "handleServiceError missing_key_error itemId w
           = w\<lparr>events := events w @ [AlertAuthFailed, LoggedOut]\<rparr>"
proof -
  have auth: "js_includes (error_text missing_key_error) (str ''[AUTH_ERROR]'')"
    using no_key_is_auth_error by (simp add: missing_key_error_def)
  have st: "store w = logout_state (store w)" using assms by (simp add: logged_out_def)
  have "logout (emit AlertAuthFailed w)
      = w\<lparr>store := logout_state (store w), events := events w @ [AlertAuthFailed, LoggedOut]\<rparr>"
    using logged_out_fields(2) [OF assms]
    by (simp add: logout_events emit_def truthy_def)
  also have "\<dots> = w\<lparr>events := events w @ [AlertAuthFailed, LoggedOut]\<rparr>"
    using st by (metis World.surjective World.update_convs(1) World.update_convs(3))
  finally show ?thesis
    by (simp add: auth_failure_handled [OF auth])
qed

lemma logged_out_events: "logged_out w \<Longrightarrow> logged_out (w\<lparr>events := evs\<rparr>)"
  by (simp add: logged_out_def)

lemma analyze_items_logged_out:
  "logged_out w \<Longrightarrow>
     analyze_items (analyzeImageForCopywriting remote) reference rest w
       = w\<lparr>events := events w @ concat (replicate (length rest) [AlertAuthFailed, LoggedOut])\<rparr>"
proof (induction rest arbitrary: w)
  case Nil
  show ?case by simp
next
  case (Cons item rest)
  let ?w1 = "w\<lparr>events := events w @ [AlertAuthFailed, LoggedOut]\<rparr>"
  have call: "analyzeImageForCopywriting remote (originalImage item) reference
                (usedCaptions (store w)) w = (Inl missing_key_error, w)"
    using logged_out_fields(1) [OF Cons.prems] by (rule analysis_without_key)
  have "analyze_items (analyzeImageForCopywriting remote) reference (item # rest) w
      = analyze_items (analyzeImageForCopywriting remote) reference rest ?w1"
    by (simp add: call auth_failure_when_logged_out [OF Cons.prems])
  also have "\<dots> = ?w1\<lparr>events := events ?w1
                        @ concat (replicate (length rest) [AlertAuthFailed, LoggedOut])\<rparr>"
    by (rule Cons.IH) (rule logged_out_events [OF Cons.prems])
  finally show ?case by simp
qed

lemma generateSingleItem_logged_out:
  assumes "logged_out w" "selectedOption item \<noteq> None"
  shows "generateSingleItem (applyCopywritingToImage br remote) remote item isRetry w
           = w\<lparr>events := events w @ [AlertAuthFailed, LoggedOut]\<rparr>"
proof -
  obtain selected where sel: "selectedOption item = Some selected"
    using assms(2) by blast
  have "updateItem (item_id item) updates (store w) = store w" for updates
    using logged_out_fields(3) [OF assms(1)] by (simp add: updateItem_def)
  then have same: "w\<lparr>store := updateItem (item_id item) updates (store w)\<rparr> = w" for updates
    by simp
  have session: "checkSession remote w = (True, w)"
    using logged_out_fields(2) [OF assms(1)] by (simp add: checkSession_def truthy_def)
  show ?thesis
    by (simp add: generateSingleItem_def Let_def same session sel
        generation_without_key [OF logged_out_fields(1) [OF assms(1)]]
        auth_failure_when_logged_out [OF assms(1)])
qed

lemma generate_items_logged_out:
  "logged_out w \<Longrightarrow> \<forall>i \<in> set rest. selectedOption i \<noteq> None \<Longrightarrow>
     generate_items (applyCopywritingToImage br remote) remote rest w
       = w\<lparr>events := events w @ concat (replicate (length rest) [AlertAuthFailed, LoggedOut])\<rparr>"
proof (induction rest arbitrary: w)
  case Nil
  show ?case by simp
next
  case (Cons item rest)
  let ?w1 = "w\<lparr>events := events w @ [AlertAuthFailed, LoggedOut]\<rparr>"
  have "generate_items (applyCopywritingToImage br remote) remote (item # rest) w
      = generate_items (applyCopywritingToImage br remote) remote rest ?w1"
    using Cons.prems by (simp add: generateSingleItem_logged_out)
  also have "\<dots> = ?w1\<lparr>events := events ?w1
                        @ concat (replicate (length rest) [AlertAuthFailed, LoggedOut])\<rparr>"
    using Cons.prems by (intro Cons.IH logged_out_events) auto
  finally show ?case by simp
qed

lemma after_forced_logout:
  "logged_out (logout (emit AlertAuthFailed w))"
  "(logout (emit AlertAuthFailed w))\<lparr>events := events (logout (emit AlertAuthFailed w)) @ evs\<rparr>
     = w\<lparr>store := logout_state (store w),
         events := events w @ [AlertAuthFailed]
           @ (if truthy (userName (store w)) \<and> truthy (sessionToken (store w))
              then [ServerLogoutRequest] else [])
           @ [LoggedOut] @ evs\<rparr>"
  by (simp_all add: logged_out_logout) (simp add: logout_events emit_def)

text \<open>
  What the loops do once a service call has failed with an error whose text contains
  \<open>[AUTH_ERROR]\<close>: the alert is shown and the logout is forced, which clears the key, the
  user, the session and the items. The loop is not left: for each remaining target the
  service is called again, fails for want of a key before any request is sent, and the
  alert and the logout are repeated.
\<close>

lemma auth_error_in_loop:
  "(analyzeImageForCopywriting remote (originalImage item) reference (usedCaptions (store w)) w
      = (Inl e, w')
    \<and> js_includes (error_text e) (str ''[AUTH_ERROR]'')
    \<longrightarrow> analyze_items (analyzeImageForCopywriting remote) reference (item # rest) w
        = w'\<lparr>store := logout_state (store w'),
             events := events w' @ [AlertAuthFailed]
               @ (if truthy (userName (store w')) \<and> truthy (sessionToken (store w'))
                  then [ServerLogoutRequest] else [])
               @ [LoggedOut]
               @ concat (replicate (length rest) [AlertAuthFailed, LoggedOut])\<rparr>)
   \<and> (checkSession remote
        (v\<lparr>store := updateItem (item_id item)
                       (no_updates\<lparr>upd_status := Some Processing, upd_error := Some None\<rparr>)
                       (store v)\<rparr>) = (True, v2)
      \<and> selectedOption item = Some selected
      \<and> applyCopywritingToImage br remote (originalImage item) selected False v2 = (Inl e, v')
      \<and> js_includes (error_text e) (str ''[AUTH_ERROR]'')
      \<and> (\<forall>i \<in> set rest. selectedOption i \<noteq> None)
    \<longrightarrow> generate_items (applyCopywritingToImage br remote) remote (item # rest) v
        = v'\<lparr>store := logout_state (store v'),
             events := events v' @ [AlertAuthFailed]
               @ (if truthy (userName (store v')) \<and> truthy (sessionToken (store v'))
                  then [ServerLogoutRequest] else [])
               @ [LoggedOut]
               @ concat (replicate (length rest) [AlertAuthFailed, LoggedOut])\<rparr>)"
proof (intro conjI impI)
  assume a: "analyzeImageForCopywriting remote (originalImage item) reference
               (usedCaptions (store w)) w = (Inl e, w')
             \<and> js_includes (error_text e) (str ''[AUTH_ERROR]'')"
  then have "analyze_items (analyzeImageForCopywriting remote) reference (item # rest) w
      = analyze_items (analyzeImageForCopywriting remote) reference rest
          (logout (emit AlertAuthFailed w'))"
    by (simp add: auth_failure_handled)
  then show "analyze_items (analyzeImageForCopywriting remote) reference (item # rest) w
        = w'\<lparr>store := logout_state (store w'),
             events := events w' @ [AlertAuthFailed]
               @ (if truthy (userName (store w')) \<and> truthy (sessionToken (store w'))
                  then [ServerLogoutRequest] else [])
               @ [LoggedOut]
               @ concat (replicate (length rest) [AlertAuthFailed, LoggedOut])\<rparr>"
    by (simp only: analyze_items_logged_out [OF after_forced_logout(1)] after_forced_logout(2))
next
  assume g: "checkSession remote
        (v\<lparr>store := updateItem (item_id item)
                       (no_updates\<lparr>upd_status := Some Processing, upd_error := Some None\<rparr>)
                       (store v)\<rparr>) = (True, v2)
      \<and> selectedOption item = Some selected
      \<and> applyCopywritingToImage br remote (originalImage item) selected False v2 = (Inl e, v')
      \<and> js_includes (error_text e) (str ''[AUTH_ERROR]'')
      \<and> (\<forall>i \<in> set rest. selectedOption i \<noteq> None)"
  then have "generateSingleItem (applyCopywritingToImage br remote) remote item False v
      = logout (emit AlertAuthFailed v')"
    by (simp add: generateSingleItem_def Let_def auth_failure_handled)
  then have "generate_items (applyCopywritingToImage br remote) remote (item # rest) v
      = generate_items (applyCopywritingToImage br remote) remote rest
          (logout (emit AlertAuthFailed v'))"
    by simp
  moreover have "\<forall>i \<in> set rest. selectedOption i \<noteq> None" using g by blast
  ultimately show "generate_items (applyCopywritingToImage br remote) remote (item # rest) v
        = v'\<lparr>store := logout_state (store v'),
             events := events v' @ [AlertAuthFailed]
               @ (if truthy (userName (store v')) \<and> truthy (sessionToken (store v'))
                  then [ServerLogoutRequest] else [])
               @ [LoggedOut]
               @ concat (replicate (length rest) [AlertAuthFailed, LoggedOut])\<rparr>"
    by (simp only: generate_items_logged_out [OF after_forced_logout(1)] after_forced_logout(2))
qed

lemma handleBatchAnalyze_run:
  assumes "filter (\<lambda>i. status i = Idle \<or> status i = Error) (items (store w)) = targets"
    and "targets \<noteq> []"
    and "checkSession remote
           (w\<lparr>isBatchProcessing := True,
              store := updateMultipleItems (map item_id targets)
                         (no_updates\<lparr>upd_status := Some Analyzing, upd_error := Some None\<rparr>)
                         (store w)\<rparr>) = (True, w3)"
  shows "handleBatchAnalyze analyze remote w
           = (analyze_items analyze (referenceImage (store w)) targets w3)\<lparr>isBatchProcessing := False\<rparr>"
  using assms by (simp add: handleBatchAnalyze_def Let_def)

lemma handleBatchGenerate_run:
  assumes "filter (\<lambda>i. status i = Selecting \<and> selectedOption i \<noteq> None) (items (store w)) = targets"
    and "targets \<noteq> []"
    and "checkSession remote
           (w\<lparr>isBatchProcessing := True,
              store := updateMultipleItems (map item_id targets)
                         (no_updates\<lparr>upd_status := Some Processing, upd_error := Some None\<rparr>)
                         (store w)\<rparr>) = (True, w3)"
  shows "handleBatchGenerate applyCopy remote w
           = (generate_items applyCopy remote targets w3)\<lparr>isBatchProcessing := False\<rparr>"
  using assms by (simp add: handleBatchGenerate_def Let_def)

lemma sample_targets:
  "filter (\<lambda>i. status i = Idle \<or> status i = Error) [sample_item ''a'' Idle, sample_item ''b'' Idle]
     = [sample_item ''a'' Idle, sample_item ''b'' Idle]"
  by (simp add: sample_item_def)

lemma sample_session:
  "truthy (userName (sample_store its))" "truthy (sessionToken (sample_store its))"
  by (simp_all add: sample_store_def truthy_def str_def)

lemma expired_key_class:
  "\<not> non_retryable (message expired_key_error)"
  "is_critical (toLowerCase (message expired_key_error))"
  "handleGeminiError expired_key_error = JsError msg_key_expired"
  "\<not> js_includes (error_text (JsError msg_key_expired)) (str ''[AUTH_ERROR]'')"
  "error_text (JsError msg_key_expired) = msg_key_expired"
  by (simp_all add: non_retryable_def is_critical_def handleGeminiError_def expired_key_error_def
      error_text_def msg_key_expired_def needle_key_expired_def needle_permission_def
      toLowerCase_def lower_unit_def str_def)

text \<open>
  Claim C3, at an input on which it fails. The store holds a well-formed key that has
  expired, and two items; the remote side refuses every request with the error of an
  expired key. \<open>handleGeminiError\<close> turns this error into the message of the expired key,
  whose text does not contain \<open>[AUTH_ERROR]\<close>, the one mark that the Workspace looks for.
  So no alert is shown and no logout is forced: the first item is marked as failed, the
  loop goes on, and the requests of the second item are sent, three of them by
  \<open>handleBatchAnalyze\<close> and one by \<open>handleBatchGenerate\<close>; at the end the user is still
  logged in with the expired key. And where the text does contain \<open>[AUTH_ERROR]\<close>, with no
  key in the store, the loop is not left either: the alert is shown once for each of the
  two items.
\<close>

theorem expired_key_does_not_halt_batch:
  "handleBatchAnalyze (analyzeImageForCopywriting expired_key) expired_key
       (sample_world [sample_item ''a'' Idle, sample_item ''b'' Idle])
     = (sample_world [(sample_item ''a'' Idle)\<lparr>status := Error, error := Some msg_key_expired\<rparr>,
                      (sample_item ''b'' Idle)\<lparr>status := Error, error := Some msg_key_expired\<rparr>])
         \<lparr>events := [SessionCheckRequest,
                     GeminiRequest (str ''gemini-3-flash-preview''), Sleep 2000,
                     GeminiRequest (str ''gemini-3-flash-preview''), Sleep 4000,
                     GeminiRequest (str ''gemini-3-flash-preview''), Sleep 6000,
                     GeminiRequest (str ''gemini-3-flash-preview''), Sleep 2000,
                     GeminiRequest (str ''gemini-3-flash-preview''), Sleep 4000,
                     GeminiRequest (str ''gemini-3-flash-preview''), Sleep 6000],
          requests := 6, fetches := 1\<rparr>
   \<and> handleBatchGenerate
       (applyCopywritingToImage (sample_browser (\<lambda>src. None) True False) expired_key) expired_key
       (sample_world [sample_item ''a'' Selecting, sample_item ''b'' Selecting])
     = (sample_world [(sample_item ''a'' Selecting)\<lparr>status := Error, error := Some msg_key_expired\<rparr>,
                      (sample_item ''b'' Selecting)\<lparr>status := Error, error := Some msg_key_expired\<rparr>])
         \<lparr>events := [SessionCheckRequest,
                     SessionCheckRequest, GeminiRequest (str ''gemini-3-pro-image-preview''),
                     SessionCheckRequest, GeminiRequest (str ''gemini-3-pro-image-preview'')],
          requests := 2, fetches := 3\<rparr>
   \<and> isAuthenticated (store (handleBatchAnalyze (analyzeImageForCopywriting expired_key) expired_key
        (sample_world [sample_item ''a'' Idle, sample_item ''b'' Idle])))
   \<and> apiKey (store (handleBatchAnalyze (analyzeImageForCopywriting expired_key) expired_key
        (sample_world [sample_item ''a'' Idle, sample_item ''b'' Idle])))
       = Some (str ''AIzaSyExampleExampleExampleExample'')
   \<and> auth_alerts (events (handleBatchAnalyze (analyzeImageForCopywriting expired_key) expired_key
        (sample_world [sample_item ''a'' Idle, sample_item ''b'' Idle]))) = 0
   \<and> auth_alerts (events (handleBatchAnalyze (analyzeImageForCopywriting expired_key) expired_key
        (keyless_world [sample_item ''a'' Idle, sample_item ''b'' Idle]))) = 2"
proof -
  let ?flash = "GeminiRequest (str ''gemini-3-flash-preview'')"
  let ?pro = "GeminiRequest (str ''gemini-3-pro-image-preview'')"
  let ?thrice = "[?flash, Sleep 2000, ?flash, Sleep 4000, ?flash, Sleep 6000]"
  let ?br = "sample_browser (\<lambda>src. None) True False"
  let ?key = "str ''AIzaSyExampleExampleExampleExample''"
  have first: "handleBatchAnalyze (analyzeImageForCopywriting expired_key) expired_key
       (sample_world [sample_item ''a'' Idle, sample_item ''b'' Idle])
     = (sample_world [(sample_item ''a'' Idle)\<lparr>status := Error, error := Some msg_key_expired\<rparr>,
                      (sample_item ''b'' Idle)\<lparr>status := Error, error := Some msg_key_expired\<rparr>])
         \<lparr>events := SessionCheckRequest # ?thrice @ ?thrice, requests := 6, fetches := 1\<rparr>"
  proof -
    let ?its = "[sample_item ''a'' Idle, sample_item ''b'' Idle]"
    let ?upd = "no_updates\<lparr>upd_status := Some Analyzing, upd_error := Some None\<rparr>"
    let ?failed = "no_updates\<lparr>upd_status := Some Error, upd_error := Some (Some msg_key_expired)\<rparr>"
    define w3 where "w3 = emit SessionCheckRequest
        ((sample_world ?its)\<lparr>isBatchProcessing := True,
            store := updateMultipleItems (map item_id ?its) ?upd (store (sample_world ?its)),
            fetches := 1\<rparr>)"
    define w4 where "w4 = w3\<lparr>requests := requests w3 + 3, events := events w3 @ ?thrice,
        store := updateItem (str ''a'') ?failed (store w3)\<rparr>"
    define w5 where "w5 = w4\<lparr>requests := requests w4 + 3, events := events w4 @ ?thrice,
        store := updateItem (str ''b'') ?failed (store w4)\<rparr>"
    have its: "items (store (sample_world ?its)) = ?its"
      by (simp add: sample_world_def sample_store_def)
    have s: "checkSession expired_key
        ((sample_world ?its)\<lparr>isBatchProcessing := True,
            store := updateMultipleItems (map item_id ?its) ?upd (store (sample_world ?its))\<rparr>)
        = (True, w3)"
      using sample_session [of ?its]
      by (simp add: checkSession_def updateMultipleItems_def expired_key_def w3_def Let_def
          sample_world_def truthy_def)
    have t: "filter (\<lambda>i. status i = Idle \<or> status i = Error) (items (store (sample_world ?its)))
        = ?its"
      unfolding its by (rule sample_targets)
    have run: "handleBatchAnalyze (analyzeImageForCopywriting expired_key) expired_key (sample_world ?its)
        = (analyze_items (analyzeImageForCopywriting expired_key)
             (referenceImage (store (sample_world ?its))) ?its w3)\<lparr>isBatchProcessing := False\<rparr>"
      by (rule handleBatchAnalyze_run [OF t _ s]) simp
    have key: "getClient (store w3) = Inr ?key" "getClient (store w4) = Inr ?key"
      using sample_key [of ?its] by (simp_all add: w4_def w3_def emit_def)
    have refused: "\<forall>n. requests v \<le> n \<and> n < requests v + 3
        \<longrightarrow> analyzeContent expired_key n target reference used = Inl expired_key_error"
      for v target reference used
      by (simp add: expired_key_def)
    have call: "analyzeImageForCopywriting expired_key target reference used v
        = (Inl (JsError msg_key_expired),
           v\<lparr>requests := requests v + 3, events := events v @ ?thrice\<rparr>)"
      if "getClient (store v) = Inr ?key" for target reference used v
      using analysis_fails_thrice [OF that refused expired_key_class(1)]
      by (simp add: expired_key_class(3))
    have handled: "handleServiceError (JsError msg_key_expired) (Some iid) v
        = v\<lparr>store := updateItem iid ?failed (store v)\<rparr>" if "iid \<noteq> []" for iid v
      using that expired_key_class(4,5) by (simp add: handleServiceError_def Let_def)
    have ids: "item_id (sample_item ''a'' Idle) = str ''a''" "item_id (sample_item ''b'' Idle) = str ''b''"
      "str ''a'' \<noteq> []" "str ''b'' \<noteq> []"
      by (simp_all add: sample_item_def str_def)
    have "analyze_items (analyzeImageForCopywriting expired_key)
             (referenceImage (store (sample_world ?its))) ?its w3
        = analyze_items (analyzeImageForCopywriting expired_key)
             (referenceImage (store (sample_world ?its))) [sample_item ''b'' Idle] w4"
      by (simp add: call [OF key(1)] handled ids w4_def)
    also have "\<dots> = w5"
      by (simp add: call [OF key(2)] handled ids w5_def)
    finally have loop: "analyze_items (analyzeImageForCopywriting expired_key)
             (referenceImage (store (sample_world ?its))) ?its w3 = w5" .
    have "w5\<lparr>isBatchProcessing := False\<rparr>
        = (sample_world [(sample_item ''a'' Idle)\<lparr>status := Error, error := Some msg_key_expired\<rparr>,
                         (sample_item ''b'' Idle)\<lparr>status := Error, error := Some msg_key_expired\<rparr>])
            \<lparr>events := SessionCheckRequest # ?thrice @ ?thrice, requests := 6, fetches := 1\<rparr>"
      by (simp add: w5_def w4_def w3_def emit_def sample_world_def sample_store_def
          updateItem_def updateMultipleItems_def merge_updates_def no_updates_def
          sample_item_def str_def)
    then show ?thesis
      unfolding run loop .
  qed
  have second: "handleBatchGenerate (applyCopywritingToImage ?br expired_key) expired_key
       (sample_world [sample_item ''a'' Selecting, sample_item ''b'' Selecting])
     = (sample_world [(sample_item ''a'' Selecting)\<lparr>status := Error, error := Some msg_key_expired\<rparr>,
                      (sample_item ''b'' Selecting)\<lparr>status := Error, error := Some msg_key_expired\<rparr>])
         \<lparr>events := [SessionCheckRequest, SessionCheckRequest, ?pro, SessionCheckRequest, ?pro],
          requests := 2, fetches := 3\<rparr>"
  proof -
    let ?its = "[sample_item ''a'' Selecting, sample_item ''b'' Selecting]"
    let ?apply = "applyCopywritingToImage ?br expired_key"
    let ?upd = "no_updates\<lparr>upd_status := Some Processing, upd_error := Some None\<rparr>"
    let ?failed = "no_updates\<lparr>upd_status := Some Error, upd_error := Some (Some msg_key_expired)\<rparr>"
    define w3 where "w3 = emit SessionCheckRequest
        ((sample_world ?its)\<lparr>isBatchProcessing := True,
            store := updateMultipleItems (map item_id ?its) ?upd (store (sample_world ?its)),
            fetches := 1\<rparr>)"
    have its: "items (store (sample_world ?its)) = ?its"
      by (simp add: sample_world_def sample_store_def)
    have s: "checkSession expired_key
        ((sample_world ?its)\<lparr>isBatchProcessing := True,
            store := updateMultipleItems (map item_id ?its) ?upd (store (sample_world ?its))\<rparr>)
        = (True, w3)"
      using sample_session [of ?its]
      by (simp add: checkSession_def updateMultipleItems_def expired_key_def w3_def Let_def
          sample_world_def truthy_def)
    have t: "filter (\<lambda>i. status i = Selecting \<and> selectedOption i \<noteq> None)
        (items (store (sample_world ?its))) = ?its"
      unfolding its by (simp add: sample_item_def)
    have run: "handleBatchGenerate ?apply expired_key (sample_world ?its)
        = (generate_items ?apply expired_key ?its w3)\<lparr>isBatchProcessing := False\<rparr>"
      by (rule handleBatchGenerate_run [OF t _ s]) simp
    have call: "applyCopywritingToImage ?br expired_key base64Image selected False v
        = (Inl (JsError msg_key_expired),
           v\<lparr>requests := Suc (requests v), events := events v @ [?pro]\<rparr>)"
      if "getClient (store v) = Inr ?key" for base64Image selected v
    proof -
      have "generateContent expired_key
          (requests (before_call None (modelsToTry ! 0) 0 v)) req = Inl expired_key_error" for req
        by (simp add: expired_key_def)
      from critical_at_first_request [OF that this expired_key_class(2)]
      show ?thesis
        by (simp add: applyCopywritingToImage_def generateDetailPageImage_def
            expired_key_class(3) before_call_def announce_def emit_def modelsToTry_def)
    qed
    have handled: "handleServiceError (JsError msg_key_expired) (Some iid) v
        = v\<lparr>store := updateItem iid ?failed (store v)\<rparr>" if "iid \<noteq> []" for iid v
      using that expired_key_class(4,5) by (simp add: handleServiceError_def Let_def)
    have single: "generateSingleItem ?apply expired_key (sample_item i Selecting) False v
        = v\<lparr>fetches := Suc (fetches v), requests := Suc (requests v),
            events := events v @ [SessionCheckRequest, ?pro],
            store := updateItem (str i) ?failed
                       (updateItem (str i) ?upd (store v))\<rparr>"
      if "getClient (store v) = Inr ?key" "truthy (userName (store v))"
         "truthy (sessionToken (store v))" "str i \<noteq> []" for i v
    proof -
      let ?v1 = "v\<lparr>store := updateItem (str i) ?upd (store v)\<rparr>"
      let ?v2 = "emit SessionCheckRequest (?v1\<lparr>fetches := Suc (fetches v)\<rparr>)"
      have cs: "checkSession expired_key ?v1 = (True, ?v2)"
        using that(2,3) by (simp add: checkSession_def expired_key_def Let_def updateItem_def)
      have k2: "getClient (store ?v2) = Inr ?key"
        using that(1) by (simp add: emit_def)
      show ?thesis
        using that(4)
        by (simp add: generateSingleItem_def Let_def sample_item_def cs call [OF k2] handled)
           (simp add: emit_def)
    qed
    define w4 where "w4 = generateSingleItem ?apply expired_key (sample_item ''a'' Selecting) False w3"
    define w5 where "w5 = generateSingleItem ?apply expired_key (sample_item ''b'' Selecting) False w4"
    have loop: "generate_items ?apply expired_key ?its w3 = w5"
      by (simp add: w4_def w5_def)
    have "getClient (store w3) = Inr ?key"
      using sample_key [of ?its] by (simp add: w3_def emit_def)
    moreover have "truthy (userName (store w3))" "truthy (sessionToken (store w3))"
      using sample_session [of ?its]
      by (simp_all add: w3_def emit_def sample_world_def updateMultipleItems_def)
    ultimately have p3: "getClient (store w3) = Inr ?key" "truthy (userName (store w3))"
      "truthy (sessionToken (store w3))"
      by simp_all
    have ne: "str ''a'' \<noteq> []" "str ''b'' \<noteq> []" by (simp_all add: str_def)
    have e4: "w4 = w3\<lparr>fetches := Suc (fetches w3), requests := Suc (requests w3),
            events := events w3 @ [SessionCheckRequest, ?pro],
            store := updateItem (str ''a'') ?failed (updateItem (str ''a'') ?upd (store w3))\<rparr>"
      unfolding w4_def by (rule single [OF p3 ne(1)])
    have "getClient (store w4) = Inr ?key"
      using p3(1) by (simp add: e4)
    moreover have "truthy (userName (store w4))" "truthy (sessionToken (store w4))"
      using p3(2,3) by (simp_all add: e4 updateItem_def)
    ultimately have p4: "getClient (store w4) = Inr ?key" "truthy (userName (store w4))"
      "truthy (sessionToken (store w4))"
      by simp_all
    have e5: "w5 = w4\<lparr>fetches := Suc (fetches w4), requests := Suc (requests w4),
            events := events w4 @ [SessionCheckRequest, ?pro],
            store := updateItem (str ''b'') ?failed (updateItem (str ''b'') ?upd (store w4))\<rparr>"
      unfolding w5_def by (rule single [OF p4 ne(2)])
    have "w5\<lparr>isBatchProcessing := False\<rparr>
        = (sample_world [(sample_item ''a'' Selecting)\<lparr>status := Error, error := Some msg_key_expired\<rparr>,
                         (sample_item ''b'' Selecting)\<lparr>status := Error, error := Some msg_key_expired\<rparr>])
            \<lparr>events := [SessionCheckRequest, SessionCheckRequest, ?pro, SessionCheckRequest, ?pro],
             requests := 2, fetches := 3\<rparr>"
      by (simp add: e5 e4 w3_def emit_def sample_world_def sample_store_def
          updateItem_def updateMultipleItems_def merge_updates_def no_updates_def
          sample_item_def str_def)
    then show ?thesis
      unfolding run loop .
  qed
  have third: "auth_alerts (events (handleBatchAnalyze (analyzeImageForCopywriting expired_key) expired_key
        (keyless_world [sample_item ''a'' Idle, sample_item ''b'' Idle]))) = 2"
  proof -
    let ?its = "[sample_item ''a'' Idle, sample_item ''b'' Idle]"
    let ?upd = "no_updates\<lparr>upd_status := Some Analyzing, upd_error := Some None\<rparr>"
    define w3 where "w3 = emit SessionCheckRequest
        ((keyless_world ?its)\<lparr>isBatchProcessing := True,
            store := updateMultipleItems (map item_id ?its) ?upd (store (keyless_world ?its)),
            fetches := 1\<rparr>)"
    have its: "items (store (keyless_world ?its)) = ?its"
      by (simp add: keyless_world_def sample_store_def)
    have s: "checkSession expired_key
        ((keyless_world ?its)\<lparr>isBatchProcessing := True,
            store := updateMultipleItems (map item_id ?its) ?upd (store (keyless_world ?its))\<rparr>)
        = (True, w3)"
      using sample_session [of ?its]
      by (simp add: checkSession_def updateMultipleItems_def expired_key_def w3_def Let_def
          keyless_world_def truthy_def)
    have t: "filter (\<lambda>i. status i = Idle \<or> status i = Error) (items (store (keyless_world ?its)))
        = ?its"
      unfolding its by (rule sample_targets)
    have run: "handleBatchAnalyze (analyzeImageForCopywriting expired_key) expired_key (keyless_world ?its)
        = (analyze_items (analyzeImageForCopywriting expired_key)
             (referenceImage (store (keyless_world ?its))) ?its w3)\<lparr>isBatchProcessing := False\<rparr>"
      by (rule handleBatchAnalyze_run [OF t _ s]) simp
    have key: "apiKey (store w3) = None"
      by (simp add: w3_def emit_def updateMultipleItems_def keyless_world_def)
    have call: "analyzeImageForCopywriting expired_key (originalImage (sample_item ''a'' Idle))
        (referenceImage (store (keyless_world ?its))) (usedCaptions (store w3)) w3
        = (Inl missing_key_error, w3)"
      by (rule analysis_without_key [OF key])
    have auth: "js_includes (error_text missing_key_error) (str ''[AUTH_ERROR]'')"
      using no_key_is_auth_error by (simp add: missing_key_error_def)
    have "analyze_items (analyzeImageForCopywriting expired_key)
             (referenceImage (store (keyless_world ?its))) ?its w3
        = analyze_items (analyzeImageForCopywriting expired_key)
             (referenceImage (store (keyless_world ?its))) [sample_item ''b'' Idle]
             (logout (emit AlertAuthFailed w3))"
      by (simp add: call auth_failure_handled [OF auth])
    also have "\<dots> = (logout (emit AlertAuthFailed w3))
        \<lparr>events := events (logout (emit AlertAuthFailed w3)) @ [AlertAuthFailed, LoggedOut]\<rparr>"
      using analyze_items_logged_out [OF after_forced_logout(1), of expired_key _ "[sample_item ''b'' Idle]" w3]
      by simp
    finally have e1: "events (handleBatchAnalyze (analyzeImageForCopywriting expired_key) expired_key
        (keyless_world ?its))
        = events (logout (emit AlertAuthFailed w3)) @ [AlertAuthFailed, LoggedOut]"
      by (simp add: run)
    have "events (logout (emit AlertAuthFailed w3))
        = [SessionCheckRequest, AlertAuthFailed, ServerLogoutRequest, LoggedOut]"
      using sample_session [of ?its]
      by (simp add: logout_events emit_def w3_def updateMultipleItems_def keyless_world_def truthy_def)
    with e1 show ?thesis by simp
  qed
  have still: "isAuthenticated (store (handleBatchAnalyze (analyzeImageForCopywriting expired_key)
        expired_key (sample_world [sample_item ''a'' Idle, sample_item ''b'' Idle])))
      \<and> apiKey (store (handleBatchAnalyze (analyzeImageForCopywriting expired_key) expired_key
            (sample_world [sample_item ''a'' Idle, sample_item ''b'' Idle])))
          = Some ?key
      \<and> auth_alerts (events (handleBatchAnalyze (analyzeImageForCopywriting expired_key) expired_key
            (sample_world [sample_item ''a'' Idle, sample_item ''b'' Idle]))) = 0"
    unfolding first by (simp add: sample_world_def sample_store_def)
  from first second still third show ?thesis by simp
qed

section \<open>Batches: a failure that is no authorization failure\<close>

lemma checkSession_valid:
  assumes "\<forall>n. sessionReply remote n \<noteq> Mismatch"
  obtains v' where "checkSession remote v = (True, v')" "store v' = store v"
    "requests v' = requests v"
proof -
  have "sessionReply remote (fetches v) = OtherReply"
    using assms by (cases "sessionReply remote (fetches v)") auto
  then have "checkSession remote v = (True, snd (checkSession remote v))
      \<and> store (snd (checkSession remote v)) = store v
      \<and> requests (snd (checkSession remote v)) = requests v"
    by (simp add: checkSession_def emit_def Let_def)
  then show ?thesis using that by blast
qed

lemma other_failure_handled:
  assumes "\<not> js_includes (error_text e) (str ''[AUTH_ERROR]'')" and "iid \<noteq> []"
  shows "handleServiceError e (Some iid) v
           = v\<lparr>store := updateItem iid (no_updates\<lparr>upd_status := Some Error,
                                                   upd_error := Some (Some (error_text e))\<rparr>)
                            (store v)\<rparr>"
  using assms by (simp add: handleServiceError_def Let_def)

lemma items_updateItem:
  "items (updateItem iid updates s)
     = map (\<lambda>item. if item_id item = iid then merge_updates item updates else item) (items s)"
  by (simp add: updateItem_def)

lemma items_setItemOptions:
  "items (setItemOptions iid options s)
     = map (\<lambda>item. if item_id item = iid then item\<lparr>copywritingOptions := options\<rparr> else item) (items s)"
  by (simp add: setItemOptions_def)

lemma items_addUsedCaptions: "items (addUsedCaptions captions s) = items s"
  by (simp add: addUsedCaptions_def)

lemma items_updateMultipleItems:
  "items (updateMultipleItems ids updates s)
     = map (\<lambda>item. if item_id item \<in> set ids then merge_updates item updates else item) (items s)"
  by (simp add: updateMultipleItems_def)

lemma analyze_three:
  assumes its: "items (store w) = [i1, i2, i3]"
    and ids: "distinct [item_id i1, item_id i2, item_id i3]"
    and id2: "item_id i2 \<noteq> []"
    and key: "getClient (store w) = Inr key"
    and session: "\<forall>n. sessionReply remote n \<noteq> Mismatch"
    and nonauth: "\<not> js_includes (error_text (handleGeminiError e)) (str ''[AUTH_ERROR]'')"
    and idle: "\<forall>i \<in> set [i1, i2, i3]. status i = Idle \<or> status i = Error"
    and count: "k = (if non_retryable (message e) then 1 else 3)"
    and ok1: "analyzeContent remote (requests w) (originalImage i1) (referenceImage (store w))
                (usedCaptions (store w)) = Inr opts1"
    and bad2: "\<forall>n target reference used. requests w < n \<and> n \<le> requests w + k
                 \<longrightarrow> analyzeContent remote n target reference used = Inl e"
    and ok3: "analyzeContent remote (requests w + k + 1) (originalImage i3) (referenceImage (store w))
                (usedCaptions (store w) @ map opt_text opts1) = Inr opts3"
  shows "items (store (handleBatchAnalyze (analyzeImageForCopywriting remote) remote w))
           = [i1\<lparr>status := Selecting, error := None, copywritingOptions := opts1\<rparr>,
              i2\<lparr>status := Error, error := Some (error_text (handleGeminiError e))\<rparr>,
              i3\<lparr>status := Selecting, error := None, copywritingOptions := opts3\<rparr>]"
    and "\<not> isBatchProcessing (handleBatchAnalyze (analyzeImageForCopywriting remote) remote w)"
    and "requests (handleBatchAnalyze (analyzeImageForCopywriting remote) remote w)
           = requests w + k + 2"
proof -
  let ?analyze = "analyzeImageForCopywriting remote"
  let ?upd = "no_updates\<lparr>upd_status := Some Analyzing, upd_error := Some None\<rparr>"
  let ?w2 = "w\<lparr>isBatchProcessing := True,
               store := updateMultipleItems (map item_id [i1, i2, i3]) ?upd (store w)\<rparr>"
  let ?ref = "referenceImage (store w)"
  let ?flash = "GeminiRequest (str ''gemini-3-flash-preview'')"
  have targets: "filter (\<lambda>i. status i = Idle \<or> status i = Error) (items (store w)) = [i1, i2, i3]"
    using idle by (simp add: its)
  obtain w3 where s: "checkSession remote ?w2 = (True, w3)" and st3: "store w3 = store ?w2"
    and rq3: "requests w3 = requests ?w2"
    by (rule checkSession_valid [OF session])
  have run: "handleBatchAnalyze ?analyze remote w
      = (analyze_items ?analyze ?ref [i1, i2, i3] w3)\<lparr>isBatchProcessing := False\<rparr>"
    by (rule handleBatchAnalyze_run [OF targets _ s]) simp
  then show "\<not> isBatchProcessing (handleBatchAnalyze ?analyze remote w)"
    by simp
  have key3: "getClient (store w3) = Inr key" using key by (simp add: st3)
  have "analyzeContent remote (requests w3) (originalImage i1) ?ref (usedCaptions (store w3))
      = Inr opts1"
    using ok1 by (simp add: st3 rq3)
  from analysis_succeeds [OF key3 this]
  have c1: "?analyze (originalImage i1) ?ref (usedCaptions (store w3)) w3
      = (Inr opts1, w3\<lparr>requests := Suc (requests w3), events := events w3 @ [?flash]\<rparr>)" .
  define w4 where "w4 = w3\<lparr>requests := Suc (requests w3), events := events w3 @ [?flash],
      store := updateItem (item_id i1) (no_updates\<lparr>upd_status := Some Selecting\<rparr>)
                 (setItemOptions (item_id i1) opts1
                    (addUsedCaptions (map opt_text opts1) (store w3)))\<rparr>"
  have rq4: "requests w4 = requests w + 1" by (simp add: w4_def rq3)
  have key4: "getClient (store w4) = Inr key" using key3 by (simp add: w4_def)
  have used4: "usedCaptions (store w4) = usedCaptions (store w) @ map opt_text opts1"
    by (simp add: w4_def st3)
  have "\<forall>n. requests w4 \<le> n \<and> n < requests w4 + k
      \<longrightarrow> analyzeContent remote n (originalImage i2) ?ref (usedCaptions (store w4)) = Inl e"
    using bad2 by (simp add: rq4)
  from analysis_fails [OF key4 count this]
  obtain evs where c2: "?analyze (originalImage i2) ?ref (usedCaptions (store w4)) w4
      = (Inl (handleGeminiError e), w4\<lparr>requests := requests w4 + k, events := events w4 @ evs\<rparr>)"
    by blast
  define w5 where "w5 = w4\<lparr>requests := requests w4 + k, events := events w4 @ evs,
      store := updateItem (item_id i2)
                 (no_updates\<lparr>upd_status := Some Error,
                            upd_error := Some (Some (error_text (handleGeminiError e)))\<rparr>)
                 (store w4)\<rparr>"
  have h5: "handleServiceError (handleGeminiError e) (Some (item_id i2))
      (w4\<lparr>requests := requests w4 + k, events := events w4 @ evs\<rparr>) = w5"
    by (simp add: other_failure_handled [OF nonauth id2] w5_def)
  have rq5: "requests w5 = requests w + k + 1" by (simp add: w5_def rq4)
  have key5: "getClient (store w5) = Inr key" using key4 by (simp add: w5_def)
  have used5: "usedCaptions (store w5) = usedCaptions (store w) @ map opt_text opts1"
    by (simp add: w5_def used4)
  have "analyzeContent remote (requests w5) (originalImage i3) ?ref (usedCaptions (store w5))
      = Inr opts3"
    using ok3 by (simp add: rq5 used5)
  from analysis_succeeds [OF key5 this]
  have c3: "?analyze (originalImage i3) ?ref (usedCaptions (store w5)) w5
      = (Inr opts3, w5\<lparr>requests := Suc (requests w5), events := events w5 @ [?flash]\<rparr>)" .
  define w6 where "w6 = w5\<lparr>requests := Suc (requests w5), events := events w5 @ [?flash],
      store := updateItem (item_id i3) (no_updates\<lparr>upd_status := Some Selecting\<rparr>)
                 (setItemOptions (item_id i3) opts3
                    (addUsedCaptions (map opt_text opts3) (store w5)))\<rparr>"
  have "analyze_items ?analyze ?ref [i1, i2, i3] w3 = analyze_items ?analyze ?ref [i2, i3] w4"
    by (simp add: c1 w4_def)
  also have "\<dots> = analyze_items ?analyze ?ref [i3] w5"
    by (simp add: c2 h5)
  also have "\<dots> = w6"
    by (simp add: c3 w6_def)
  finally have loop: "analyze_items ?analyze ?ref [i1, i2, i3] w3 = w6" .
  have d: "item_id i1 \<noteq> item_id i2" "item_id i1 \<noteq> item_id i3" "item_id i2 \<noteq> item_id i3"
    "item_id i2 \<noteq> item_id i1" "item_id i3 \<noteq> item_id i1" "item_id i3 \<noteq> item_id i2"
    using ids by auto
  have "items (store w6)
           = [i1\<lparr>status := Selecting, error := None, copywritingOptions := opts1\<rparr>,
              i2\<lparr>status := Error, error := Some (error_text (handleGeminiError e))\<rparr>,
              i3\<lparr>status := Selecting, error := None, copywritingOptions := opts3\<rparr>]"
    by (simp add: w6_def w5_def w4_def st3
        items_updateItem items_setItemOptions items_addUsedCaptions items_updateMultipleItems
        its d merge_updates_def no_updates_def)
  then show "items (store (handleBatchAnalyze ?analyze remote w))
           = [i1\<lparr>status := Selecting, error := None, copywritingOptions := opts1\<rparr>,
              i2\<lparr>status := Error, error := Some (error_text (handleGeminiError e))\<rparr>,
              i3\<lparr>status := Selecting, error := None, copywritingOptions := opts3\<rparr>]"
    unfolding run loop by simp
  have "requests w6 = requests w + k + 2" by (simp add: w6_def rq5)
  then show "requests (handleBatchAnalyze ?analyze remote w) = requests w + k + 2"
    unfolding run loop by simp
qed


lemma store_logUsage: "store (logUsage v) = store v"
  by (simp add: logUsage_def emit_def)

lemma requests_logUsage: "requests (logUsage v) = requests v"
  by (simp add: logUsage_def emit_def)

lemma generateSingleItem_success:
  assumes session: "\<forall>n. sessionReply remote n \<noteq> Mismatch"
    and sel: "selectedOption item = Some selected"
    and key: "getClient (store w) = Inr key"
    and answer: "generateContent remote (requests w)
        (gen_request (modelsToTry ! 0) (str ''image/jpeg'')
           (out_data (optimizeImageForAPI br (cleanBase64 (originalImage item)) 1024))
           (detail_prompt (opt_text selected)) \<lparr>aspectRatio = None, imageSize = None\<rparr>)
        = Inr response"
    and url: "image_of_response response = Inr result"
  shows "store (generateSingleItem (applyCopywritingToImage br remote) remote item False w)
           = updateItem (item_id item)
               (no_updates\<lparr>upd_status := Some Complete, upd_generatedImage := Some (Some result)\<rparr>)
               (updateItem (item_id item)
                  (no_updates\<lparr>upd_status := Some Processing, upd_error := Some None\<rparr>) (store w))"
    and "requests (generateSingleItem (applyCopywritingToImage br remote) remote item False w)
           = Suc (requests w)"
proof -
  let ?w1 = "w\<lparr>store := updateItem (item_id item)
                   (no_updates\<lparr>upd_status := Some Processing, upd_error := Some None\<rparr>) (store w)\<rparr>"
  obtain w2 where s: "checkSession remote ?w1 = (True, w2)" and st2: "store w2 = store ?w1"
    and rq2: "requests w2 = requests ?w1"
    by (rule checkSession_valid [OF session])
  have key2: "getClient (store w2) = Inr key" using key by (simp add: st2)
  have "generateContent remote (requests w2)
        (gen_request (modelsToTry ! 0) (str ''image/jpeg'')
           (out_data (optimizeImageForAPI br (cleanBase64 (originalImage item)) 1024))
           (detail_prompt (opt_text selected)) \<lparr>aspectRatio = None, imageSize = None\<rparr>)
        = Inr response"
    using answer by (simp add: rq2)
  from generation_succeeds [OF key2 this url]
  have c: "applyCopywritingToImage br remote (originalImage item) selected False w2
      = (Inr result, w2\<lparr>requests := Suc (requests w2),
                        events := events w2 @ [GeminiRequest (modelsToTry ! 0)]\<rparr>)" .
  show "store (generateSingleItem (applyCopywritingToImage br remote) remote item False w)
           = updateItem (item_id item)
               (no_updates\<lparr>upd_status := Some Complete, upd_generatedImage := Some (Some result)\<rparr>)
               (updateItem (item_id item)
                  (no_updates\<lparr>upd_status := Some Processing, upd_error := Some None\<rparr>) (store w))"
    by (simp add: generateSingleItem_def Let_def s sel c store_logUsage st2)
  show "requests (generateSingleItem (applyCopywritingToImage br remote) remote item False w)
           = Suc (requests w)"
    by (simp add: generateSingleItem_def Let_def s sel c requests_logUsage rq2)
qed

lemma generateSingleItem_failure:
  assumes session: "\<forall>n. sessionReply remote n \<noteq> Mismatch"
    and sel: "selectedOption item = Some selected"
    and key: "getClient (store w) = Inr key"
    and count: "k = (if is_critical (toLowerCase (message e)) then 1
                     else if is_transient (toLowerCase (message e)) then 12 else 2)"
    and fails: "\<forall>n req. requests w \<le> n \<and> n < requests w + k \<longrightarrow> generateContent remote n req = Inl e"
    and nonauth: "\<not> js_includes (error_text (handleGeminiError e)) (str ''[AUTH_ERROR]'')"
    and iid: "item_id item \<noteq> []"
  shows "store (generateSingleItem (applyCopywritingToImage br remote) remote item False w)
           = updateItem (item_id item)
               (no_updates\<lparr>upd_status := Some Error,
                          upd_error := Some (Some (error_text (handleGeminiError e)))\<rparr>)
               (updateItem (item_id item)
                  (no_updates\<lparr>upd_status := Some Processing, upd_error := Some None\<rparr>) (store w))"
    and "requests (generateSingleItem (applyCopywritingToImage br remote) remote item False w)
           = requests w + k"
proof -
  let ?w1 = "w\<lparr>store := updateItem (item_id item)
                   (no_updates\<lparr>upd_status := Some Processing, upd_error := Some None\<rparr>) (store w)\<rparr>"
  obtain w2 where s: "checkSession remote ?w1 = (True, w2)" and st2: "store w2 = store ?w1"
    and rq2: "requests w2 = requests ?w1"
    by (rule checkSession_valid [OF session])
  have key2: "getClient (store w2) = Inr key" using key by (simp add: st2)
  have "\<forall>n req. requests w2 \<le> n \<and> n < requests w2 + k \<longrightarrow> generateContent remote n req = Inl e"
    using fails by (simp add: rq2)
  from generation_fails [OF key2 count this]
  obtain evs where c: "applyCopywritingToImage br remote (originalImage item) selected False w2
      = (Inl (handleGeminiError e), w2\<lparr>requests := requests w2 + k, events := events w2 @ evs\<rparr>)"
    by blast
  show "store (generateSingleItem (applyCopywritingToImage br remote) remote item False w)
           = updateItem (item_id item)
               (no_updates\<lparr>upd_status := Some Error,
                          upd_error := Some (Some (error_text (handleGeminiError e)))\<rparr>)
               (updateItem (item_id item)
                  (no_updates\<lparr>upd_status := Some Processing, upd_error := Some None\<rparr>) (store w))"
    by (simp add: generateSingleItem_def Let_def s sel c other_failure_handled [OF nonauth iid] st2)
  show "requests (generateSingleItem (applyCopywritingToImage br remote) remote item False w)
           = requests w + k"
    by (simp add: generateSingleItem_def Let_def s sel c other_failure_handled [OF nonauth iid] rq2)
qed

lemma generate_three:
  assumes its: "items (store w) = [i1, i2, i3]"
    and ids: "distinct [item_id i1, item_id i2, item_id i3]"
    and id2: "item_id i2 \<noteq> []"
    and key: "getClient (store w) = Inr key"
    and session: "\<forall>n. sessionReply remote n \<noteq> Mismatch"
    and nonauth: "\<not> js_includes (error_text (handleGeminiError e)) (str ''[AUTH_ERROR]'')"
    and selecting: "\<forall>i \<in> set [i1, i2, i3]. status i = Selecting"
    and sel: "selectedOption i1 = Some s1" "selectedOption i2 = Some s2" "selectedOption i3 = Some s3"
    and count: "k = (if is_critical (toLowerCase (message e)) then 1
                     else if is_transient (toLowerCase (message e)) then 12 else 2)"
    and ok1: "generateContent remote (requests w)
        (gen_request (modelsToTry ! 0) (str ''image/jpeg'')
           (out_data (optimizeImageForAPI br (cleanBase64 (originalImage i1)) 1024))
           (detail_prompt (opt_text s1)) \<lparr>aspectRatio = None, imageSize = None\<rparr>)
        = Inr response1"
      "image_of_response response1 = Inr r1"
    and bad2: "\<forall>n req. requests w < n \<and> n \<le> requests w + k \<longrightarrow> generateContent remote n req = Inl e"
    and ok3: "generateContent remote (requests w + k + 1)
        (gen_request (modelsToTry ! 0) (str ''image/jpeg'')
           (out_data (optimizeImageForAPI br (cleanBase64 (originalImage i3)) 1024))
           (detail_prompt (opt_text s3)) \<lparr>aspectRatio = None, imageSize = None\<rparr>)
        = Inr response3"
      "image_of_response response3 = Inr r3"
  shows "items (store (handleBatchGenerate (applyCopywritingToImage br remote) remote w))
           = [i1\<lparr>status := Complete, error := None, generatedImage := Some r1\<rparr>,
              i2\<lparr>status := Error, error := Some (error_text (handleGeminiError e))\<rparr>,
              i3\<lparr>status := Complete, error := None, generatedImage := Some r3\<rparr>]"
    and "\<not> isBatchProcessing (handleBatchGenerate (applyCopywritingToImage br remote) remote w)"
    and "requests (handleBatchGenerate (applyCopywritingToImage br remote) remote w)
           = requests w + k + 2"
proof -
  let ?apply = "applyCopywritingToImage br remote"
  let ?upd = "no_updates\<lparr>upd_status := Some Processing, upd_error := Some None\<rparr>"
  let ?w2 = "w\<lparr>isBatchProcessing := True,
               store := updateMultipleItems (map item_id [i1, i2, i3]) ?upd (store w)\<rparr>"
  have targets: "filter (\<lambda>i. status i = Selecting \<and> selectedOption i \<noteq> None) (items (store w))
      = [i1, i2, i3]"
    using selecting sel by (simp add: its)
  obtain w3 where s: "checkSession remote ?w2 = (True, w3)" and st3: "store w3 = store ?w2"
    and rq3: "requests w3 = requests ?w2"
    by (rule checkSession_valid [OF session])
  have run: "handleBatchGenerate ?apply remote w
      = (generate_items ?apply remote [i1, i2, i3] w3)\<lparr>isBatchProcessing := False\<rparr>"
    by (rule handleBatchGenerate_run [OF targets _ s]) simp
  then show "\<not> isBatchProcessing (handleBatchGenerate ?apply remote w)"
    by simp
  define w4 where "w4 = generateSingleItem ?apply remote i1 False w3"
  define w5 where "w5 = generateSingleItem ?apply remote i2 False w4"
  define w6 where "w6 = generateSingleItem ?apply remote i3 False w5"
  have loop: "generate_items ?apply remote [i1, i2, i3] w3 = w6"
    by (simp add: w4_def w5_def w6_def)
  have key3: "getClient (store w3) = Inr key" using key by (simp add: st3)
  have a1: "generateContent remote (requests w3)
        (gen_request (modelsToTry ! 0) (str ''image/jpeg'')
           (out_data (optimizeImageForAPI br (cleanBase64 (originalImage i1)) 1024))
           (detail_prompt (opt_text s1)) \<lparr>aspectRatio = None, imageSize = None\<rparr>)
        = Inr response1"
    using ok1(1) by (simp add: rq3)
  note g1 = generateSingleItem_success [OF session sel(1) key3 a1 ok1(2)]
  have st4: "store w4 = updateItem (item_id i1)
               (no_updates\<lparr>upd_status := Some Complete, upd_generatedImage := Some (Some r1)\<rparr>)
               (updateItem (item_id i1) ?upd (store w3))"
    and rq4: "requests w4 = requests w + 1"
    using g1 by (simp_all add: w4_def rq3)
  have key4: "getClient (store w4) = Inr key" using key3 by (simp add: st4)
  have a2: "\<forall>n req. requests w4 \<le> n \<and> n < requests w4 + k \<longrightarrow> generateContent remote n req = Inl e"
    using bad2 by (simp add: rq4)
  note g2 = generateSingleItem_failure [OF session sel(2) key4 count a2 nonauth id2]
  have st5: "store w5 = updateItem (item_id i2)
               (no_updates\<lparr>upd_status := Some Error,
                          upd_error := Some (Some (error_text (handleGeminiError e)))\<rparr>)
               (updateItem (item_id i2) ?upd (store w4))"
    and rq5: "requests w5 = requests w + k + 1"
    using g2 by (simp_all add: w5_def rq4)
  have key5: "getClient (store w5) = Inr key" using key4 by (simp add: st5)
  have a3: "generateContent remote (requests w5)
        (gen_request (modelsToTry ! 0) (str ''image/jpeg'')
           (out_data (optimizeImageForAPI br (cleanBase64 (originalImage i3)) 1024))
           (detail_prompt (opt_text s3)) \<lparr>aspectRatio = None, imageSize = None\<rparr>)
        = Inr response3"
    using ok3(1) by (simp add: rq5)
  note g3 = generateSingleItem_success [OF session sel(3) key5 a3 ok3(2)]
  have st6: "store w6 = updateItem (item_id i3)
               (no_updates\<lparr>upd_status := Some Complete, upd_generatedImage := Some (Some r3)\<rparr>)
               (updateItem (item_id i3) ?upd (store w5))"
    and rq6: "requests w6 = requests w + k + 2"
    using g3 by (simp_all add: w6_def rq5)
  have d: "item_id i1 \<noteq> item_id i2" "item_id i1 \<noteq> item_id i3" "item_id i2 \<noteq> item_id i3"
    "item_id i2 \<noteq> item_id i1" "item_id i3 \<noteq> item_id i1" "item_id i3 \<noteq> item_id i2"
    using ids by auto
  have "items (store w6)
           = [i1\<lparr>status := Complete, error := None, generatedImage := Some r1\<rparr>,
              i2\<lparr>status := Error, error := Some (error_text (handleGeminiError e))\<rparr>,
              i3\<lparr>status := Complete, error := None, generatedImage := Some r3\<rparr>]"
    unfolding st6 st5 st4 st3
    by (simp add: items_updateItem items_updateMultipleItems its d merge_updates_def no_updates_def)
  then show "items (store (handleBatchGenerate ?apply remote w))
           = [i1\<lparr>status := Complete, error := None, generatedImage := Some r1\<rparr>,
              i2\<lparr>status := Error, error := Some (error_text (handleGeminiError e))\<rparr>,
              i3\<lparr>status := Complete, error := None, generatedImage := Some r3\<rparr>]"
    unfolding run loop by simp
  show "requests (handleBatchGenerate ?apply remote w) = requests w + k + 2"
    unfolding run loop using rq6 by simp
qed


text \<open>
  Claim C4. Let the store hold a key and three items with distinct ids, the second id not
  empty, and let the session stay valid. Let the remote side answer the first request of
  the batch, which is that of the first item, let it answer every request after it with
  one and the same error for as long as the service keeps sending requests for the second
  item, and let it answer the request that follows, which is that of the third item. The
  service sends one, twelve or two image requests for the failing item, as the error is
  thrown at once, retried or neither, and one or three analysis requests, as the error
  stops the retrying or not. Let the text that reaches the Workspace be no authorization
  failure. Then after \<open>handleBatchGenerate\<close> the first and the third item are \<open>complete\<close>
  with their generated image, and after \<open>handleBatchAnalyze\<close> they are in \<open>selecting\<close>, the
  state in which an analysis ends, with their options; in both cases the second item is
  in the state \<open>error\<close> with the text of the error in its error field. Every item has been
  attempted: the requests sent are those of the first item, of the second and of the
  third. The batch is no longer marked as running.
\<close>

theorem batch_isolates_failure:
  assumes "items (store w) = [i1, i2, i3]"
    and "distinct [item_id i1, item_id i2, item_id i3]"
    and "item_id i2 \<noteq> []"
    and "getClient (store w) = Inr key"
    and "\<forall>n. sessionReply remote n \<noteq> Mismatch"
    and "\<not> js_includes (error_text (handleGeminiError e)) (str ''[AUTH_ERROR]'')"
  shows "((\<forall>i \<in> set [i1, i2, i3]. status i = Selecting)
          \<and> selectedOption i1 = Some s1 \<and> selectedOption i2 = Some s2 \<and> selectedOption i3 = Some s3
          \<and> k = (if is_critical (toLowerCase (message e)) then 1
                  else if is_transient (toLowerCase (message e)) then 12 else 2)
          \<and> generateContent remote (requests w)
               (gen_request (modelsToTry ! 0) (str ''image/jpeg'')
                  (out_data (optimizeImageForAPI br (cleanBase64 (originalImage i1)) 1024))
                  (detail_prompt (opt_text s1)) \<lparr>aspectRatio = None, imageSize = None\<rparr>)
              = Inr response1
          \<and> image_of_response response1 = Inr r1
          \<and> (\<forall>n req. requests w < n \<and> n \<le> requests w + k
                \<longrightarrow> generateContent remote n req = Inl e)
          \<and> generateContent remote (requests w + k + 1)
               (gen_request (modelsToTry ! 0) (str ''image/jpeg'')
                  (out_data (optimizeImageForAPI br (cleanBase64 (originalImage i3)) 1024))
                  (detail_prompt (opt_text s3)) \<lparr>aspectRatio = None, imageSize = None\<rparr>)
              = Inr response3
          \<and> image_of_response response3 = Inr r3
         \<longrightarrow> items (store (handleBatchGenerate (applyCopywritingToImage br remote) remote w))
               = [i1\<lparr>status := Complete, error := None, generatedImage := Some r1\<rparr>,
                  i2\<lparr>status := Error, error := Some (error_text (handleGeminiError e))\<rparr>,
                  i3\<lparr>status := Complete, error := None, generatedImage := Some r3\<rparr>]
             \<and> \<not> isBatchProcessing (handleBatchGenerate (applyCopywritingToImage br remote) remote w)
             \<and> requests (handleBatchGenerate (applyCopywritingToImage br remote) remote w)
                 = requests w + k + 2)
       \<and> ((\<forall>i \<in> set [i1, i2, i3]. status i = Idle \<or> status i = Error)
          \<and> j = (if non_retryable (message e) then 1 else 3)
          \<and> analyzeContent remote (requests w) (originalImage i1) (referenceImage (store w))
               (usedCaptions (store w)) = Inr opts1
          \<and> (\<forall>n target reference used. requests w < n \<and> n \<le> requests w + j
                \<longrightarrow> analyzeContent remote n target reference used = Inl e)
          \<and> analyzeContent remote (requests w + j + 1) (originalImage i3) (referenceImage (store w))
               (usedCaptions (store w) @ map opt_text opts1) = Inr opts3
         \<longrightarrow> items (store (handleBatchAnalyze (analyzeImageForCopywriting remote) remote w))
               = [i1\<lparr>status := Selecting, error := None, copywritingOptions := opts1\<rparr>,
                  i2\<lparr>status := Error, error := Some (error_text (handleGeminiError e))\<rparr>,
                  i3\<lparr>status := Selecting, error := None, copywritingOptions := opts3\<rparr>]
             \<and> \<not> isBatchProcessing (handleBatchAnalyze (analyzeImageForCopywriting remote) remote w)
             \<and> requests (handleBatchAnalyze (analyzeImageForCopywriting remote) remote w)
                 = requests w + j + 2)"
proof (intro conjI impI)
  assume g: "(\<forall>i \<in> set [i1, i2, i3]. status i = Selecting)
          \<and> selectedOption i1 = Some s1 \<and> selectedOption i2 = Some s2 \<and> selectedOption i3 = Some s3
          \<and> k = (if is_critical (toLowerCase (message e)) then 1
                  else if is_transient (toLowerCase (message e)) then 12 else 2)
          \<and> generateContent remote (requests w)
               (gen_request (modelsToTry ! 0) (str ''image/jpeg'')
                  (out_data (optimizeImageForAPI br (cleanBase64 (originalImage i1)) 1024))
                  (detail_prompt (opt_text s1)) \<lparr>aspectRatio = None, imageSize = None\<rparr>)
              = Inr response1
          \<and> image_of_response response1 = Inr r1
          \<and> (\<forall>n req. requests w < n \<and> n \<le> requests w + k
                \<longrightarrow> generateContent remote n req = Inl e)
          \<and> generateContent remote (requests w + k + 1)
               (gen_request (modelsToTry ! 0) (str ''image/jpeg'')
                  (out_data (optimizeImageForAPI br (cleanBase64 (originalImage i3)) 1024))
                  (detail_prompt (opt_text s3)) \<lparr>aspectRatio = None, imageSize = None\<rparr>)
              = Inr response3
          \<and> image_of_response response3 = Inr r3"
  note facts = generate_three [where br = br, OF assms, of s1 s2 s3 k response1 r1 response3 r3]
  from g show "items (store (handleBatchGenerate (applyCopywritingToImage br remote) remote w))
               = [i1\<lparr>status := Complete, error := None, generatedImage := Some r1\<rparr>,
                  i2\<lparr>status := Error, error := Some (error_text (handleGeminiError e))\<rparr>,
                  i3\<lparr>status := Complete, error := None, generatedImage := Some r3\<rparr>]"
    by (intro facts(1)) blast+
  from g show "\<not> isBatchProcessing (handleBatchGenerate (applyCopywritingToImage br remote) remote w)"
    by (intro facts(2)) blast+
  from g show "requests (handleBatchGenerate (applyCopywritingToImage br remote) remote w)
                 = requests w + k + 2"
    by (intro facts(3)) blast+
next
  assume a: "(\<forall>i \<in> set [i1, i2, i3]. status i = Idle \<or> status i = Error)
          \<and> j = (if non_retryable (message e) then 1 else 3)
          \<and> analyzeContent remote (requests w) (originalImage i1) (referenceImage (store w))
               (usedCaptions (store w)) = Inr opts1
          \<and> (\<forall>n target reference used. requests w < n \<and> n \<le> requests w + j
                \<longrightarrow> analyzeContent remote n target reference used = Inl e)
          \<and> analyzeContent remote (requests w + j + 1) (originalImage i3) (referenceImage (store w))
               (usedCaptions (store w) @ map opt_text opts1) = Inr opts3"
  note facts = analyze_three [OF assms, of j opts1 opts3]
  from a show "items (store (handleBatchAnalyze (analyzeImageForCopywriting remote) remote w))
               = [i1\<lparr>status := Selecting, error := None, copywritingOptions := opts1\<rparr>,
                  i2\<lparr>status := Error, error := Some (error_text (handleGeminiError e))\<rparr>,
                  i3\<lparr>status := Selecting, error := None, copywritingOptions := opts3\<rparr>]"
    by (intro facts(1)) blast+
  from a show "\<not> isBatchProcessing (handleBatchAnalyze (analyzeImageForCopywriting remote) remote w)"
    by (intro facts(2)) blast+
  from a show "requests (handleBatchAnalyze (analyzeImageForCopywriting remote) remote w)
                 = requests w + j + 2"
    by (intro facts(3)) blast+
qed


lemma sample_ids:
  "distinct [item_id (sample_item ''a'' st), item_id (sample_item ''b'' st), item_id (sample_item ''c'' st)]"
  "item_id (sample_item ''b'' st) \<noteq> []"
  by (simp_all add: sample_item_def str_def)

lemma overloaded_handled: "handleGeminiError overloaded_error = JsError msg_server_overloaded"
  by (simp add: handleGeminiError_def overloaded_error_def str_def)

lemma overloaded_not_auth:
  "\<not> js_includes (error_text (handleGeminiError overloaded_error)) (str ''[AUTH_ERROR]'')"
  by (simp add: overloaded_handled error_text_def msg_server_overloaded_def str_def)

lemma overloaded_class:
  "is_transient (toLowerCase (message overloaded_error))"
  "\<not> is_critical (toLowerCase (message overloaded_error))"
  "\<not> non_retryable (message overloaded_error)"
  by (simp_all add: is_transient_def is_critical_def non_retryable_def overloaded_error_def
      needle_key_expired_def needle_permission_def toLowerCase_def lower_unit_def str_def)

theorem batch_isolates_failure_witness:
  "items (store (sample_world [sample_item ''a'' Selecting, sample_item ''b'' Selecting,
                               sample_item ''c'' Selecting]))
     = [sample_item ''a'' Selecting, sample_item ''b'' Selecting, sample_item ''c'' Selecting]
   \<and> distinct [item_id (sample_item ''a'' Selecting), item_id (sample_item ''b'' Selecting),
               item_id (sample_item ''c'' Selecting)]
   \<and> item_id (sample_item ''b'' Selecting) \<noteq> []
   \<and> getClient (store (sample_world [sample_item ''a'' Selecting, sample_item ''b'' Selecting,
                                      sample_item ''c'' Selecting]))
       = Inr (str ''AIzaSyExampleExampleExampleExample'')
   \<and> (\<forall>n. sessionReply second_item_fails n \<noteq> Mismatch)
   \<and> \<not> js_includes (error_text (handleGeminiError overloaded_error)) (str ''[AUTH_ERROR]'')
   \<and> is_transient (toLowerCase (message overloaded_error))
   \<and> \<not> is_critical (toLowerCase (message overloaded_error))
   \<and> \<not> non_retryable (message overloaded_error)
   \<and> (\<forall>req. generateContent second_item_fails 0 req = Inr image_response)
   \<and> (\<forall>req. generateContent second_item_fails 1 req = Inl overloaded_error)
   \<and> (\<forall>req. generateContent second_item_fails 12 req = Inl overloaded_error)
   \<and> (\<forall>req. generateContent second_item_fails 13 req = Inr image_response)
   \<and> items (store (handleBatchGenerate
        (applyCopywritingToImage (sample_browser (\<lambda>src. None) True False) second_item_fails)
        second_item_fails
        (sample_world [sample_item ''a'' Selecting, sample_item ''b'' Selecting,
                       sample_item ''c'' Selecting])))
     = [(sample_item ''a'' Selecting)
          \<lparr>status := Complete, error := None,
           generatedImage := Some (str ''data:image/png;base64,QUJD'')\<rparr>,
        (sample_item ''b'' Selecting)\<lparr>status := Error, error := Some msg_server_overloaded\<rparr>,
        (sample_item ''c'' Selecting)
          \<lparr>status := Complete, error := None,
           generatedImage := Some (str ''data:image/png;base64,QUJD'')\<rparr>]
   \<and> requests (handleBatchGenerate
        (applyCopywritingToImage (sample_browser (\<lambda>src. None) True False) second_item_fails)
        second_item_fails
        (sample_world [sample_item ''a'' Selecting, sample_item ''b'' Selecting,
                       sample_item ''c'' Selecting])) = 14
   \<and> (\<forall>target reference used. analyzeContent second_item_fails 0 target reference used
         = Inr [sample_option 1 ''copy''])
   \<and> (\<forall>target reference used. analyzeContent second_item_fails 1 target reference used
         = Inl overloaded_error)
   \<and> (\<forall>target reference used. analyzeContent second_item_fails 3 target reference used
         = Inl overloaded_error)
   \<and> (\<forall>target reference used. analyzeContent second_item_fails 4 target reference used
         = Inr [sample_option 1 ''copy''])
   \<and> items (store (handleBatchAnalyze (analyzeImageForCopywriting second_item_fails)
        second_item_fails
        (sample_world [sample_item ''a'' Idle, sample_item ''b'' Idle, sample_item ''c'' Idle])))
     = [(sample_item ''a'' Idle)
          \<lparr>status := Selecting, error := None, copywritingOptions := [sample_option 1 ''copy'']\<rparr>,
        (sample_item ''b'' Idle)\<lparr>status := Error, error := Some msg_server_overloaded\<rparr>,
        (sample_item ''c'' Idle)
          \<lparr>status := Selecting, error := None, copywritingOptions := [sample_option 1 ''copy'']\<rparr>]
   \<and> requests (handleBatchAnalyze (analyzeImageForCopywriting second_item_fails)
        second_item_fails
        (sample_world [sample_item ''a'' Idle, sample_item ''b'' Idle, sample_item ''c'' Idle])) = 5"
proof -
  let ?br = "sample_browser (\<lambda>src. None) True False"
  let ?sel = "[sample_item ''a'' Selecting, sample_item ''b'' Selecting, sample_item ''c'' Selecting]"
  let ?idle = "[sample_item ''a'' Idle, sample_item ''b'' Idle, sample_item ''c'' Idle]"
  let ?key = "str ''AIzaSyExampleExampleExampleExample''"
  have its: "items (store (sample_world its)) = its" for its
    by (simp add: sample_world_def sample_store_def)
  have key: "getClient (store (sample_world its)) = Inr ?key" for its
    by (rule sample_key)
  have rq: "requests (sample_world its) = 0" "usedCaptions (store (sample_world its)) = []" for its
    by (simp_all add: sample_world_def sample_store_def)
  have session: "\<forall>n. sessionReply second_item_fails n \<noteq> Mismatch"
    by (simp add: second_item_fails_def)
  have st: "status (sample_item i s) = s" for i s
    by (simp add: sample_item_def)
  have so: "selectedOption (sample_item i s) = Some (sample_option 2 ''two'')" for i s
    by (simp add: sample_item_def)
  have shown: "error_text (handleGeminiError overloaded_error) = msg_server_overloaded"
    by (simp add: overloaded_handled error_text_def msg_server_overloaded_def)
  have url: "image_of_response image_response = Inr (str ''data:image/png;base64,QUJD'')"
    by (rule image_response_url)
  have g0: "generateContent second_item_fails 0 req = Inr image_response"
    and g13: "generateContent second_item_fails 13 req = Inr image_response"
    and gbad: "1 \<le> n \<and> n \<le> 12 \<Longrightarrow> generateContent second_item_fails n req = Inl overloaded_error"
    for req n
    by (simp_all add: second_item_fails_def)
  have a0: "analyzeContent second_item_fails 0 target reference used = Inr [sample_option 1 ''copy'']"
    and a4: "analyzeContent second_item_fails 4 target reference used = Inr [sample_option 1 ''copy'']"
    and abad: "1 \<le> n \<and> n \<le> 3
       \<Longrightarrow> analyzeContent second_item_fails n target reference used = Inl overloaded_error"
    for target reference used n
    by (simp_all add: second_item_fails_def)
  note gen = batch_isolates_failure [where w = "sample_world ?sel" and remote = second_item_fails
      and e = overloaded_error and br = ?br and k = 12
      and ?s1.0 = "sample_option 2 ''two''" and ?s2.0 = "sample_option 2 ''two''"
      and ?s3.0 = "sample_option 2 ''two''"
      and ?response1.0 = image_response and ?response3.0 = image_response
      and ?r1.0 = "str ''data:image/png;base64,QUJD''" and ?r3.0 = "str ''data:image/png;base64,QUJD''",
      OF its sample_ids(1) sample_ids(2) key session overloaded_not_auth]
  note ana = batch_isolates_failure [where w = "sample_world ?idle" and remote = second_item_fails
      and e = overloaded_error and j = 3
      and ?opts1.0 = "[sample_option 1 ''copy'']" and ?opts3.0 = "[sample_option 1 ''copy'']",
      OF its sample_ids(1) sample_ids(2) key session overloaded_not_auth]
  have gen_hyps: "(\<forall>i \<in> set ?sel. status i = Selecting)
      \<and> selectedOption (sample_item ''a'' Selecting) = Some (sample_option 2 ''two'')
      \<and> selectedOption (sample_item ''b'' Selecting) = Some (sample_option 2 ''two'')
      \<and> selectedOption (sample_item ''c'' Selecting) = Some (sample_option 2 ''two'')
      \<and> (12 :: nat) = (if is_critical (toLowerCase (message overloaded_error)) then 1
                  else if is_transient (toLowerCase (message overloaded_error)) then 12 else 2)
      \<and> generateContent second_item_fails (requests (sample_world ?sel))
               (gen_request (modelsToTry ! 0) (str ''image/jpeg'')
                  (out_data (optimizeImageForAPI ?br
                     (cleanBase64 (originalImage (sample_item ''a'' Selecting))) 1024))
                  (detail_prompt (opt_text (sample_option 2 ''two'')))
                  \<lparr>aspectRatio = None, imageSize = None\<rparr>)
              = Inr image_response
      \<and> image_of_response image_response = Inr (str ''data:image/png;base64,QUJD'')
      \<and> (\<forall>n req. requests (sample_world ?sel) < n \<and> n \<le> requests (sample_world ?sel) + 12
                \<longrightarrow> generateContent second_item_fails n req = Inl overloaded_error)
      \<and> generateContent second_item_fails (requests (sample_world ?sel) + 12 + 1)
               (gen_request (modelsToTry ! 0) (str ''image/jpeg'')
                  (out_data (optimizeImageForAPI ?br
                     (cleanBase64 (originalImage (sample_item ''c'' Selecting))) 1024))
                  (detail_prompt (opt_text (sample_option 2 ''two'')))
                  \<lparr>aspectRatio = None, imageSize = None\<rparr>)
              = Inr image_response
      \<and> image_of_response image_response = Inr (str ''data:image/png;base64,QUJD'')"
    using overloaded_class by (simp add: st so rq g0 g13 gbad url)
  have ana_hyps: "(\<forall>i \<in> set ?idle. status i = Idle \<or> status i = Error)
      \<and> (3 :: nat) = (if non_retryable (message overloaded_error) then 1 else 3)
      \<and> analyzeContent second_item_fails (requests (sample_world ?idle))
           (originalImage (sample_item ''a'' Idle)) (referenceImage (store (sample_world ?idle)))
           (usedCaptions (store (sample_world ?idle))) = Inr [sample_option 1 ''copy'']
      \<and> (\<forall>n target reference used.
            requests (sample_world ?idle) < n \<and> n \<le> requests (sample_world ?idle) + 3
            \<longrightarrow> analyzeContent second_item_fails n target reference used = Inl overloaded_error)
      \<and> analyzeContent second_item_fails (requests (sample_world ?idle) + 3 + 1)
           (originalImage (sample_item ''c'' Idle)) (referenceImage (store (sample_world ?idle)))
           (usedCaptions (store (sample_world ?idle)) @ map opt_text [sample_option 1 ''copy''])
          = Inr [sample_option 1 ''copy'']"
    using overloaded_class by (simp add: st rq a0 a4 abad)
  from gen gen_hyps have r1: "items (store (handleBatchGenerate
        (applyCopywritingToImage ?br second_item_fails) second_item_fails (sample_world ?sel)))
      = [(sample_item ''a'' Selecting)
          \<lparr>status := Complete, error := None,
           generatedImage := Some (str ''data:image/png;base64,QUJD'')\<rparr>,
        (sample_item ''b'' Selecting)
          \<lparr>status := Error, error := Some (error_text (handleGeminiError overloaded_error))\<rparr>,
        (sample_item ''c'' Selecting)
          \<lparr>status := Complete, error := None,
           generatedImage := Some (str ''data:image/png;base64,QUJD'')\<rparr>]"
    and r2: "requests (handleBatchGenerate
        (applyCopywritingToImage ?br second_item_fails) second_item_fails (sample_world ?sel))
      = requests (sample_world ?sel) + 12 + 2"
    by blast+
  from ana ana_hyps have r3: "items (store (handleBatchAnalyze
        (analyzeImageForCopywriting second_item_fails) second_item_fails (sample_world ?idle)))
      = [(sample_item ''a'' Idle)
          \<lparr>status := Selecting, error := None, copywritingOptions := [sample_option 1 ''copy'']\<rparr>,
        (sample_item ''b'' Idle)
          \<lparr>status := Error, error := Some (error_text (handleGeminiError overloaded_error))\<rparr>,
        (sample_item ''c'' Idle)
          \<lparr>status := Selecting, error := None, copywritingOptions := [sample_option 1 ''copy'']\<rparr>]"
    and r4: "requests (handleBatchAnalyze
        (analyzeImageForCopywriting second_item_fails) second_item_fails (sample_world ?idle))
      = requests (sample_world ?idle) + 3 + 2"
    by blast+
  have g1: "\<forall>req. generateContent second_item_fails 1 req = Inl overloaded_error"
    and g12: "\<forall>req. generateContent second_item_fails 12 req = Inl overloaded_error"
    and a1: "\<forall>target reference used. analyzeContent second_item_fails 1 target reference used
         = Inl overloaded_error"
    and a3: "\<forall>target reference used. analyzeContent second_item_fails 3 target reference used
         = Inl overloaded_error"
    using gbad abad by simp_all
  show ?thesis
    using its [of ?sel] sample_ids [of Selecting] key [of ?sel] session overloaded_not_auth
      overloaded_class g0 g1 g12 g13 a0 a1 a3 a4
      r1 [unfolded shown] r2 [unfolded rq] r3 [unfolded shown] r4 [unfolded rq]
    by simp
qed

end
